theory Spec2Isabelle
  imports Main
begin

section \<open>The intermediate representation (ir.ts)\<close>

text \<open>
  Strings are lists of 8-bit characters. JavaScript strings are sequences of UTF-16 code
  units; the model covers the code units below 256.

  \<open>DataType\<close> is the closed set of tags of ir.ts. The parsers compute a tag with
  \<^verbatim>\<open>typeMap[type] || fallback\<close> on a plain object literal, so a type name that happens to
  be a member of \<^verbatim>\<open>Object.prototype\<close> reads the inherited member, which is truthy and is
  stored in the node as it is. \<open>T_inherited\<close> stands for such a value.
\<close>

datatype DataType =
    T_int | T_float | T_double | T_string | T_bool | T_void | T_char | T_auto
  | T_inherited string

text \<open>
  The value of a literal: \<^verbatim>\<open>string | number | boolean\<close>. An integer token is read by
  \<^verbatim>\<open>parseInt\<close>; \<open>V_num\<close> holds it exactly (JavaScript is exact below \<open>2^53\<close>).
  A token with a decimal point is read by \<^verbatim>\<open>parseFloat\<close>; \<open>V_float\<close> holds the decimal
  text that \<^verbatim>\<open>String\<close> gives back for it.
\<close>

datatype LitValue = V_str string | V_num int | V_float string | V_bool bool

text \<open>
  A property of a JavaScript object is either absent (a read then falls through to the
  prototype) or an own property, whose value may be \<^verbatim>\<open>undefined\<close>.
\<close>

datatype 'a js_prop = Absent | Own "'a option"

text \<open>
  One node type for the tagged union of ir.ts. Optional fields are options. Where ir.ts
  types a field as \<^verbatim>\<open>IRVariable\<close> or \<^verbatim>\<open>IRFunction\<close> (parameters, members, methods,
  constructor), the model stores the fields of that node as a tuple: a variable is
  (name, dataType, value), a function is (name, params, returnType, body). The fields
  \<open>mainMethod\<close> and \<open>staticMethods\<close> of a class are the two non-schema fields that the code
  reads through \<^verbatim>\<open>(node as any)\<close>; \<open>isFString\<close> is the one the scripting front-end adds to
  a string literal.
\<close>

datatype IRNode =
    IRComment string "bool option"
      \<comment> \<open>text, isMultiline\<close>
  | IRVariable string DataType "IRNode option"
      \<comment> \<open>name, dataType, value\<close>
  | IRAssignment string IRNode
      \<comment> \<open>target, value\<close>
  | IRFunction string "(string \<times> DataType \<times> IRNode option) list" DataType "IRNode list"
      \<comment> \<open>name, params, returnType, body\<close>
  | IRClass string "(string \<times> DataType \<times> IRNode option) list"
      "(string \<times> (string \<times> DataType \<times> IRNode option) list \<times> DataType \<times> IRNode list) list"
      "(string \<times> (string \<times> DataType \<times> IRNode option) list \<times> DataType \<times> IRNode list) js_prop"
      "(string \<times> (string \<times> DataType \<times> IRNode option) list \<times> DataType \<times> IRNode list) option"
      "(string \<times> (string \<times> DataType \<times> IRNode option) list \<times> DataType \<times> IRNode list) list
         option"
      \<comment> \<open>name, members, methods, constructor, mainMethod, staticMethods\<close>
  | IRIf IRNode "IRNode list" "IRNode list option" "IRNode option"
      \<comment> \<open>condition, thenBranch, elseBranch, elseIf\<close>
  | IRFor "IRNode option" "IRNode option" "IRNode option" "string option" "IRNode option"
      "IRNode option" "IRNode option" "IRNode list"
      \<comment> \<open>init, condition, update, iterator, rangeStart, rangeEnd, rangeStep, body\<close>
  | IRWhile IRNode "IRNode list"
      \<comment> \<open>condition, body\<close>
  | IRSwitch IRNode "(IRNode \<times> IRNode list) list" "IRNode list option"
      \<comment> \<open>expression, cases (value, body), defaultBody\<close>
  | IRBreak
  | IRReturn "IRNode option"
      \<comment> \<open>value\<close>
  | IRPrint "IRNode list" "bool option"
      \<comment> \<open>args, newline\<close>
  | IRInput "string option" "string option" "DataType option"
      \<comment> \<open>prompt, targetVar, targetType\<close>
  | IRCall string "IRNode list" "bool option" "string option"
      \<comment> \<open>callee, args, isMethod, object\<close>
  | IRBinaryOp string IRNode IRNode
      \<comment> \<open>operator, left, right\<close>
  | IRUnaryOp string IRNode
      \<comment> \<open>operator, operand\<close>
  | IRLiteral LitValue DataType "bool option"
      \<comment> \<open>value, dataType, isFString\<close>
  | IRIdentifier string
      \<comment> \<open>name\<close>

type_synonym IRVar = "string \<times> DataType \<times> IRNode option"

type_synonym IRFun = "string \<times> IRVar list \<times> DataType \<times> IRNode list"

record IRProgram =
  pbody :: "IRNode list"
  pimports :: "string list"

fun isIRClass :: "IRNode \<Rightarrow> bool" where
  "isIRClass (IRClass _ _ _ _ _ _) = True"
| "isIRClass _ = False"

fun isIRFunction :: "IRNode \<Rightarrow> bool" where
  "isIRFunction (IRFunction _ _ _ _) = True"
| "isIRFunction _ = False"

section \<open>Outcomes of a run\<close>

text \<open>
  A thrown JavaScript value, as far as the code looks at it: the orchestrator renders it
  with a template string, which for an \<^verbatim>\<open>Error\<close> object gives its name, a colon and
  its message. The message of an engine-raised error is the engine's own text.
\<close>

datatype js_error = TypeError string | RangeError string | Error string

fun error_text :: "js_error \<Rightarrow> string" where
  "error_text (TypeError m) = ''TypeError: '' @ m"
| "error_text (RangeError m) = ''RangeError: '' @ m"
| "error_text (Error m) = ''Error: '' @ m"

text \<open>
  A parser runs loops that need not end, so its model takes a step budget. \<open>OutOfFuel\<close>
  says that the budget did not suffice; \<open>Throw\<close> is an exception leaving the function;
  \<open>Ok\<close> is a normal return.
\<close>

datatype 'a res = OutOfFuel | Throw js_error | Ok 'a

section \<open>The orchestrator\<close>

datatype Language = L_python | L_c | L_cpp | L_java | L_other string

record TranspileResult =
  success :: bool
  python :: "string option"
  c :: "string option"
  cpp :: "string option"
  java :: "string option"
  errors :: "string list"

text \<open>
  The four parser objects and the four generator objects of a \<^verbatim>\<open>Transpiler\<close>. A parser
  maps the source text to a program, throws, or does not return; a generator returns
  text or throws.
\<close>

record Parsers =
  pythonParser :: "string \<Rightarrow> IRProgram res"
  cParser :: "string \<Rightarrow> IRProgram res"
  cppParser :: "string \<Rightarrow> IRProgram res"
  javaParser :: "string \<Rightarrow> IRProgram res"

record Generators =
  pythonGenerator :: "IRProgram \<Rightarrow> js_error + string"
  cGenerator :: "IRProgram \<Rightarrow> js_error + string"
  cppGenerator :: "IRProgram \<Rightarrow> js_error + string"
  javaGenerator :: "IRProgram \<Rightarrow> js_error + string"

text \<open>
  \<^verbatim>\<open>node.constructor\<close> in a condition: an own property is truthy when it holds a node;
  without an own property the read reaches \<^verbatim>\<open>Object.prototype.constructor\<close>, a function,
  which is truthy.
\<close>

fun constructor_truthy :: "IRFun js_prop \<Rightarrow> bool" where
  "constructor_truthy Absent = True"
| "constructor_truthy (Own None) = False"
| "constructor_truthy (Own (Some _)) = True"

text \<open>\<^verbatim>\<open>Transpiler.hasNonMainClasses\<close>: the loop over \<^verbatim>\<open>ir.body\<close>.\<close>

fun hasNonMainClasses_loop :: "IRNode list \<Rightarrow> bool" where
  "hasNonMainClasses_loop [] = False"
| "hasNonMainClasses_loop (IRClass name mems meths ctor mainM staticM # rest) =
     (let hasOnlyMainMethod = (mainM \<noteq> None \<and> length meths = 0 \<and> length mems = 0) in
      if (length meths > 0 \<or> length mems > 0 \<or> constructor_truthy ctor)
         \<and> (name \<noteq> ''Main'' \<or> \<not> hasOnlyMainMethod)
      then True
      else hasNonMainClasses_loop rest)"
| "hasNonMainClasses_loop (_ # rest) = hasNonMainClasses_loop rest"

definition hasNonMainClasses :: "IRProgram \<Rightarrow> bool" where
  "hasNonMainClasses ir = hasNonMainClasses_loop (pbody ir)"

definition sentinel :: string where
  "sentinel = ''// C does not support classes''"

text \<open>The \<^verbatim>\<open>switch\<close> on the source language; the default branch throws.\<close>

fun dispatch :: "Parsers \<Rightarrow> string \<Rightarrow> Language \<Rightarrow> IRProgram res" where
  "dispatch ps src L_python = pythonParser ps src"
| "dispatch ps src L_c = cParser ps src"
| "dispatch ps src L_cpp = cppParser ps src"
| "dispatch ps src L_java = javaParser ps src"
| "dispatch ps src (L_other l) = Throw (Error (''Unsupported source language: '' @ l))"

text \<open>One guarded generator call: the text for the output field, or the error entry.\<close>

fun field_of :: "js_error + string \<Rightarrow> string option" where
  "field_of (Inl e) = None"
| "field_of (Inr s) = Some s"

fun error_of :: "string \<Rightarrow> js_error + string \<Rightarrow> string list" where
  "error_of target (Inl e) = [target @ '' generation error: '' @ error_text e]"
| "error_of target (Inr s) = []"

text \<open>The C target: the short-circuit sits inside the guarded block. \<open>generate\<close> is the
  \<^verbatim>\<open>generate\<close> method of the C generator object.\<close>

definition c_emission ::
  "(IRProgram \<Rightarrow> js_error + string) \<Rightarrow> IRProgram \<Rightarrow> js_error + string" where
  "c_emission generate ir = (if hasNonMainClasses ir then Inr sentinel else generate ir)"

text \<open>
  \<^verbatim>\<open>Transpiler.transpile\<close>. The result is \<open>None\<close> exactly when the parser does not
  return; an exception of the parser is caught by the outer handler.
\<close>

definition transpile_ir :: "Generators \<Rightarrow> IRProgram \<Rightarrow> TranspileResult" where
  "transpile_ir gs ir =
     (let py = pythonGenerator gs ir;
          cc = c_emission (cGenerator gs) ir;
          cp = cppGenerator gs ir;
          jv = javaGenerator gs ir;
          errs = error_of ''Python'' py @ error_of ''C'' cc @ error_of ''C++'' cp
                 @ error_of ''Java'' jv
      in \<lparr> success = (length errs = 0),
           python = field_of py, c = field_of cc, cpp = field_of cp, java = field_of jv,
           errors = errs \<rparr>)"

definition transpile ::
  "Parsers \<Rightarrow> Generators \<Rightarrow> string \<Rightarrow> Language \<Rightarrow> TranspileResult option" where
  "transpile ps gs sourceCode sourceLanguage =
     (case dispatch ps sourceCode sourceLanguage of
        OutOfFuel \<Rightarrow> None
      | Throw e \<Rightarrow>
          Some \<lparr> success = False, python = None, c = None, cpp = None, java = None,
                 errors = [''Parse error: '' @ error_text e] \<rparr>
      | Ok ir \<Rightarrow> Some (transpile_ir gs ir))"

section \<open>Tokens and the character classes of the lexers\<close>

text \<open>The token kinds; \<open>CHAR_TOK\<close> is the kind \<^verbatim>\<open>CHAR\<close>.\<close>

datatype TokType =
    PREPROCESSOR | COMMENT | MULTILINE_COMMENT | STRING | CHAR_TOK | NUMBER | KEYWORD
  | IDENTIFIER | OPERATOR | PUNCTUATION | NEWLINE

record Token =
  ttype :: TokType
  tvalue :: string

definition mk :: "TokType \<Rightarrow> string \<Rightarrow> Token" where
  "mk t v = \<lparr> ttype = t, tvalue = v \<rparr>"

text \<open>The regular-expression classes \<^verbatim>\<open>\s\<close>, \<^verbatim>\<open>\d\<close>, \<^verbatim>\<open>[a-zA-Z_]\<close> and \<^verbatim>\<open>[a-zA-Z0-9_]\<close>,
  on code units below 256.\<close>

definition is_space :: "char \<Rightarrow> bool" where
  "is_space ch = (of_char ch \<in> {9, 10, 11, 12, 13, 32, 160 :: nat})"

definition is_digit :: "char \<Rightarrow> bool" where
  "is_digit ch = (48 \<le> (of_char ch :: nat) \<and> (of_char ch :: nat) \<le> 57)"

definition is_word_start :: "char \<Rightarrow> bool" where
  "is_word_start ch =
     (let n = (of_char ch :: nat)
      in (97 \<le> n \<and> n \<le> 122) \<or> (65 \<le> n \<and> n \<le> 90) \<or> ch = CHR ''_'')"

definition is_word_char :: "char \<Rightarrow> bool" where
  "is_word_char ch = (is_word_start ch \<or> is_digit ch)"

text \<open>
  The loop shared by the string and the character literal of the C lexer:
  \<^verbatim>\<open>while (i < code.length && code[i] !== q) { if (code[i] === '\\') str += code[i++]; str += code[i++]; }\<close>.
  The second read is not guarded, so a backslash that ends the input appends the text
  of \<^verbatim>\<open>undefined\<close>. The result is the text read and the input left, the closing quote
  included.
\<close>

fun scan_quoted_unguarded :: "char \<Rightarrow> string \<Rightarrow> string \<times> string" where
  "scan_quoted_unguarded q [] = ([], [])"
| "scan_quoted_unguarded q (x # xs) =
     (if x = q then ([], x # xs)
      else if x = CHR 0x5C then
        (case xs of
           [] \<Rightarrow> (x # ''undefined'', [])
         | y # ys \<Rightarrow> (let (t, r) = scan_quoted_unguarded q ys in (x # y # t, r)))
      else (let (t, r) = scan_quoted_unguarded q xs in (x # t, r)))"

text \<open>The same loop with the guard \<^verbatim>\<open>if (i < code.length)\<close> on the second read (CPP and
  JV lexers).\<close>

fun scan_quoted :: "char \<Rightarrow> string \<Rightarrow> string \<times> string" where
  "scan_quoted q [] = ([], [])"
| "scan_quoted q (x # xs) =
     (if x = q then ([], x # xs)
      else if x = CHR 0x5C then
        (case xs of
           [] \<Rightarrow> ([x], [])
         | y # ys \<Rightarrow> (let (t, r) = scan_quoted q ys in (x # y # t, r)))
      else (let (t, r) = scan_quoted q xs in (x # t, r)))"

text \<open>\<^verbatim>\<open>while (i < code.length - 1 && code.slice(i, i + 2) !== '*/') comment += code[i++]\<close>:
  the last character of the input is never read.\<close>

fun scan_block_comment :: "string \<Rightarrow> string \<times> string" where
  "scan_block_comment (x # y # zs) =
     (if x = CHR ''*'' \<and> y = CHR ''/'' then ([], x # y # zs)
      else (let (t, r) = scan_block_comment (y # zs) in (x # t, r)))"
| "scan_block_comment xs = ([], xs)"

text \<open>The number pattern \<^verbatim>\<open>^\d+\.?\d*[sfx]?\<close>, where \<open>sfx\<close> is the lexer's set of suffix
  letters; the input starts with a digit.\<close>

definition match_number :: "string \<Rightarrow> string \<Rightarrow> string \<times> string" where
  "match_number sfx cs =
     (let d1 = takeWhile is_digit cs; r1 = dropWhile is_digit cs;
          dot = (if r1 \<noteq> [] \<and> hd r1 = CHR ''.'' then ''.'' else []);
          r2 = drop (length dot) r1;
          d2 = takeWhile is_digit r2; r3 = dropWhile is_digit r2;
          suf = (if r3 \<noteq> [] \<and> hd r3 \<in> set sfx then [hd r3] else []);
          r4 = drop (length suf) r3
      in (d1 @ dot @ d2 @ suf, r4))"

definition c_operators :: "string list" where
  "c_operators = [''=='', ''!='', ''<='', ''>='', ''&&'', ''||'', ''<<'', ''>>'', ''++'', ''--'',
                  ''->'', ''+='', ''-='', ''*='', ''/='']"


section \<open>JavaScript numbers and text\<close>

definition digit_val :: "char \<Rightarrow> nat" where
  "digit_val ch = of_char ch - 48"

definition digits_to_nat :: "string \<Rightarrow> nat" where
  "digits_to_nat ds = foldl (\<lambda>acc ch. 10 * acc + digit_val ch) 0 ds"

text \<open>\<^verbatim>\<open>parseInt\<close> on a number token: the leading digits.\<close>

definition js_parseInt :: "string \<Rightarrow> int" where
  "js_parseInt tok = int (digits_to_nat (takeWhile is_digit tok))"

text \<open>
  \<^verbatim>\<open>String(parseFloat(tok))\<close> on a number token \<^verbatim>\<open>digits . digits\<close>: leading zeros of the
  integer part and trailing zeros of the fraction go. This is the text JavaScript gives
  for values from \<open>10^-6\<close> up to \<open>10^21\<close> written with at most 15 significant digits.
\<close>

definition js_float_text :: "string \<Rightarrow> string" where
  "js_float_text tok =
     (let ip = dropWhile (\<lambda>ch. ch = CHR ''0'') (takeWhile is_digit tok);
          fp = rev (dropWhile (\<lambda>ch. ch = CHR ''0'')
                 (rev (takeWhile is_digit (drop 1 (dropWhile is_digit tok)))));
          ip' = (if ip = [] then ''0'' else ip)
      in if fp = [] then ip' else ip' @ ''.'' @ fp)"

fun nat_to_digits :: "nat \<Rightarrow> nat \<Rightarrow> string" where
  "nat_to_digits 0 n = []"
| "nat_to_digits (Suc k) n =
     (if n < 10 then [char_of (48 + n)]
      else nat_to_digits k (n div 10) @ [char_of (48 + n mod 10)])"

text \<open>Decimal text of a natural number; \<open>n + 1\<close> digits always suffice.\<close>

definition nat_to_string :: "nat \<Rightarrow> string" where
  "nat_to_string n = nat_to_digits (Suc n) n"

definition int_to_string :: "int \<Rightarrow> string" where
  "int_to_string i = (if i < 0 then ''-'' @ nat_to_string (nat (- i)) else nat_to_string (nat i))"

text \<open>\<^verbatim>\<open>String(value)\<close> of a literal's value.\<close>

fun js_String :: "LitValue \<Rightarrow> string" where
  "js_String (V_str s) = s"
| "js_String (V_num i) = int_to_string i"
| "js_String (V_float t) = t"
| "js_String (V_bool b) = (if b then ''true'' else ''false'')"

text \<open>\<^verbatim>\<open>s.slice(1, -1)\<close>.\<close>

definition slice_1_m1 :: "string \<Rightarrow> string" where
  "slice_1_m1 s = butlast (drop 1 s)"

subsection \<open>Text helpers\<close>

text \<open>Three pieces of text that a string literal of the logic cannot hold: a double quote,
  a line feed, and the escape written with a backslash and the letter n.\<close>

abbreviation DQ :: string where
  "DQ \<equiv> [CHR 0x22]"

abbreviation NL :: string where
  "NL \<equiv> [CHR 0x0A]"

abbreviation BSN :: string where
  "BSN \<equiv> [CHR 0x5C, CHR ''n'']"


text \<open>\<^verbatim>\<open>lines.join(sep)\<close>.\<close>

fun join :: "string \<Rightarrow> string list \<Rightarrow> string" where
  "join sep [] = []"
| "join sep [x] = x"
| "join sep (x # y # ys) = x @ sep @ join sep (y # ys)"

text \<open>\<^verbatim>\<open>indentStr.repeat(indent)\<close> with four spaces per level.\<close>

definition getIndent :: "nat \<Rightarrow> string" where
  "getIndent indent = concat (replicate indent ''    '')"

text \<open>\<^verbatim>\<open>s.startsWith(p)\<close>, \<^verbatim>\<open>s.endsWith(p)\<close>, \<^verbatim>\<open>s.trimStart()\<close>.\<close>

definition startsWith :: "string \<Rightarrow> string \<Rightarrow> bool" where
  "startsWith s p = (take (length p) s = p)"

definition endsWith :: "string \<Rightarrow> string \<Rightarrow> bool" where
  "endsWith s p = (length p \<le> length s \<and> drop (length s - length p) s = p)"

definition trimStart :: "string \<Rightarrow> string" where
  "trimStart s = dropWhile (\<lambda>ch. of_char ch \<in> {9, 10, 11, 12, 13, 32, 160 :: nat}) s"

text \<open>\<^verbatim>\<open>s.replace(sub, by)\<close> with a string pattern: the first occurrence only.\<close>

fun replace_first :: "string \<Rightarrow> string \<Rightarrow> string \<Rightarrow> string" where
  "replace_first sub by [] = (if sub = [] then by else [])"
| "replace_first sub by (x # xs) =
     (if take (length sub) (x # xs) = sub then by @ drop (length sub) (x # xs)
      else x # replace_first sub by xs)"

text \<open>
  The pattern \<^verbatim>\<open>/\{([^}]+)\}/g\<close>, scanned from left to right. At an opening brace the
  group takes every character up to the next closing brace; the match needs a non-empty
  group and the closing brace. The result lists the text between the matches and the
  groups: \<open>Inl\<close> a piece of text kept as it is, \<open>Inr\<close> a group.
\<close>

function brace_groups :: "string \<Rightarrow> string \<Rightarrow> (string + string) list" where
  "brace_groups acc [] = (if acc = [] then [] else [Inl acc])"
| "brace_groups acc (x # xs) =
     (if x = CHR ''{'' \<and> takeWhile (\<lambda>ch. ch \<noteq> CHR ''}'') xs \<noteq> []
         \<and> dropWhile (\<lambda>ch. ch \<noteq> CHR ''}'') xs \<noteq> []
      then (if acc = [] then [] else [Inl acc])
             @ [Inr (takeWhile (\<lambda>ch. ch \<noteq> CHR ''}'') xs)]
             @ brace_groups [] (drop 1 (dropWhile (\<lambda>ch. ch \<noteq> CHR ''}'') xs))
      else brace_groups (acc @ [x]) xs)"
  by pat_completeness auto

termination brace_groups
proof (relation "measure (\<lambda>(acc, s). length s)", goal_cases)
  case 1
  show ?case by simp
next
  case (2 acc x xs)
  show ?case using length_dropWhile_le[of "\<lambda>ch. ch \<noteq> CHR ''}''" xs] by simp
next
  case (3 acc x xs)
  show ?case by simp
qed

definition js_trim :: "string \<Rightarrow> string" where
  "js_trim s = rev (dropWhile is_space (rev (dropWhile is_space s)))"

text \<open>\<^verbatim>\<open>s.includes(sub)\<close>.\<close>

fun includes_str :: "string \<Rightarrow> string \<Rightarrow> bool" where
  "includes_str sub [] = (sub = [])"
| "includes_str sub (x # xs) = (take (length sub) (x # xs) = sub \<or> includes_str sub xs)"


section \<open>The C front-end (parsers/c-parser.ts)\<close>

definition c_keywords :: "string list" where
  "c_keywords = [''int'', ''float'', ''double'', ''char'', ''void'', ''if'', ''else'', ''for'',
                 ''while'', ''return'', ''struct'', ''typedef'', ''const'', ''static'',
                 ''printf'', ''scanf'', ''sizeof'', ''NULL'', ''true'', ''false'']"

text \<open>\<^verbatim>\<open>CParser.tokenize\<close>, on the input that is left.\<close>

function c_tokenize :: "string \<Rightarrow> Token list" where
  "c_tokenize [] = []"
| "c_tokenize (x # xs) =
     (if is_space x then c_tokenize xs
      else if x = CHR ''#'' then
        mk PREPROCESSOR (takeWhile (\<lambda>ch. ch \<noteq> CHR 0x0A) (x # xs))
          # c_tokenize (dropWhile (\<lambda>ch. ch \<noteq> CHR 0x0A) xs)
      else if take 2 (x # xs) = ''//'' then
        mk COMMENT (takeWhile (\<lambda>ch. ch \<noteq> CHR 0x0A) (drop 1 xs))
          # c_tokenize (dropWhile (\<lambda>ch. ch \<noteq> CHR 0x0A) (drop 1 xs))
      else if take 2 (x # xs) = ''/*'' then
        mk MULTILINE_COMMENT (fst (scan_block_comment (drop 1 xs)))
          # c_tokenize (drop 2 (snd (scan_block_comment (drop 1 xs))))
      else if x = CHR 0x22 then
        mk STRING (x # fst (scan_quoted_unguarded x xs) @ [x])
          # c_tokenize (drop 1 (snd (scan_quoted_unguarded x xs)))
      else if x = CHR 0x27 then
        mk CHAR_TOK (x # fst (scan_quoted_unguarded x xs) @ [x])
          # c_tokenize (drop 1 (snd (scan_quoted_unguarded x xs)))
      else if is_digit x then
        mk NUMBER (fst (match_number ''fFlL'' (x # xs)))
          # c_tokenize (snd (match_number ''fFlL'' (x # xs)))
      else if is_word_start x then
        (let w = takeWhile is_word_char (x # xs)
         in mk (if w \<in> set c_keywords then KEYWORD else IDENTIFIER) w
              # c_tokenize (dropWhile is_word_char xs))
      else if take 2 (x # xs) \<in> set c_operators then
        mk OPERATOR (take 2 (x # xs)) # c_tokenize (drop 1 xs)
      else mk PUNCTUATION [x] # c_tokenize xs)"
  by pat_completeness auto

lemma scan_block_comment_len: "length (snd (scan_block_comment xs)) \<le> length xs"
  by (induction xs rule: scan_block_comment.induct) (auto simp: case_prod_beta)

lemma scan_quoted_unguarded_len: "length (snd (scan_quoted_unguarded q xs)) \<le> length xs"
proof (induction q xs rule: scan_quoted_unguarded.induct)
  case (1 q)
  show ?case by simp
next
  case (2 q x xs)
  show ?case
  proof (cases "x = q")
    case True
    then show ?thesis by simp
  next
    case nq: False
    show ?thesis
    proof (cases "x = CHR 0x5C")
      case bs: True
      show ?thesis
      proof (cases xs)
        case Nil
        with nq bs show ?thesis by simp
      next
        case (Cons y ys)
        from "2.IH"(1)[OF nq bs Cons]
        have "length (snd (scan_quoted_unguarded q ys)) \<le> length ys" .
        with nq bs Cons show ?thesis by (simp add: case_prod_beta)
      qed
    next
      case nbs: False
      from "2.IH"(2)[OF nq nbs]
      have "length (snd (scan_quoted_unguarded q xs)) \<le> length xs" .
      with nq nbs show ?thesis by (simp add: case_prod_beta)
    qed
  qed
qed

lemma scan_quoted_len: "length (snd (scan_quoted q xs)) \<le> length xs"
proof (induction q xs rule: scan_quoted.induct)
  case (1 q)
  show ?case by simp
next
  case (2 q x xs)
  show ?case
  proof (cases "x = q")
    case True
    then show ?thesis by simp
  next
    case nq: False
    show ?thesis
    proof (cases "x = CHR 0x5C")
      case bs: True
      show ?thesis
      proof (cases xs)
        case Nil
        with nq bs show ?thesis by simp
      next
        case (Cons y ys)
        from "2.IH"(1)[OF nq bs Cons]
        have "length (snd (scan_quoted q ys)) \<le> length ys" .
        with nq bs Cons show ?thesis by (simp add: case_prod_beta)
      qed
    next
      case nbs: False
      from "2.IH"(2)[OF nq nbs]
      have "length (snd (scan_quoted q xs)) \<le> length xs" .
      with nq nbs show ?thesis by (simp add: case_prod_beta)
    qed
  qed
qed

lemma match_number_len:
  "length (snd (match_number sfx cs)) \<le> length (dropWhile is_digit cs)"
proof -
  define r1 where "r1 = dropWhile is_digit cs"
  define r2 where
    "r2 = drop (length (if r1 \<noteq> [] \<and> hd r1 = CHR ''.'' then ''.'' else [])) r1"
  define r3 where "r3 = dropWhile is_digit r2"
  have "snd (match_number sfx cs)
        = drop (length (if r3 \<noteq> [] \<and> hd r3 \<in> set sfx then [hd r3] else [])) r3"
    by (simp only: match_number_def Let_def snd_conv r1_def r2_def r3_def)
  then have "length (snd (match_number sfx cs)) \<le> length r3" by simp
  also have "\<dots> \<le> length r2" unfolding r3_def by (rule length_dropWhile_le)
  also have "\<dots> \<le> length r1" unfolding r2_def by simp
  finally show ?thesis unfolding r1_def .
qed

lemma match_number_digit_len:
  "is_digit x \<Longrightarrow> length (snd (match_number sfx (x # xs))) < Suc (length xs)"
  using match_number_len[of sfx "x # xs"] length_dropWhile_le[of is_digit xs] by simp

termination c_tokenize
proof (relation "measure length", goal_cases)
  case 1
  show ?case by simp
next
  case (2 x xs)
  show ?case by simp
next
  case (3 x xs)
  show ?case using length_dropWhile_le[of "\<lambda>ch. ch \<noteq> CHR 0x0A" xs] by simp
next
  case (4 x xs)
  show ?case using length_dropWhile_le[of "\<lambda>ch. ch \<noteq> CHR 0x0A" "drop 1 xs"] by simp
next
  case (5 x xs)
  show ?case using scan_block_comment_len[of "drop 1 xs"] by simp
next
  case (6 x xs)
  show ?case using scan_quoted_unguarded_len[of x xs] by simp
next
  case (7 x xs)
  show ?case using scan_quoted_unguarded_len[of x xs] by simp
next
  case (8 x xs)
  then show ?case using match_number_digit_len[of x "''fFlL''" xs] by simp
next
  case (9 x xs)
  show ?case using length_dropWhile_le[of is_word_char xs] by simp
next
  case (10 x xs)
  show ?case by simp
next
  case (11 x xs)
  show ?case by simp
qed

subsection \<open>Token buffer access\<close>

text \<open>
  The parser object holds the token array and a position. The position only grows, and
  \<^verbatim>\<open>advance\<close> increments it also at the end of the array.
\<close>

definition peek :: "'a list \<Rightarrow> nat \<Rightarrow> 'a option" where
  "peek ts pos = (if pos < length ts then Some (ts ! pos) else None)"

definition match_tok :: "'a Token_scheme list \<Rightarrow> nat \<Rightarrow> TokType \<Rightarrow> bool" where
  "match_tok ts pos ty = (case peek ts pos of None \<Rightarrow> False | Some t \<Rightarrow> ttype t = ty)"

definition match_val :: "'a Token_scheme list \<Rightarrow> nat \<Rightarrow> TokType \<Rightarrow> string \<Rightarrow> bool" where
  "match_val ts pos ty v =
     (case peek ts pos of None \<Rightarrow> False | Some t \<Rightarrow> ttype t = ty \<and> tvalue t = v)"

text \<open>\<^verbatim>\<open>consume(type, value)\<close>: the position after the call.\<close>

definition consume_val :: "'a Token_scheme list \<Rightarrow> nat \<Rightarrow> TokType \<Rightarrow> string \<Rightarrow> nat" where
  "consume_val ts pos ty v = (if match_val ts pos ty v then pos + 1 else pos)"

text \<open>The value of the token at the position, for a read after a successful match.\<close>

definition tok_value :: "'a Token_scheme list \<Rightarrow> nat \<Rightarrow> string" where
  "tok_value ts pos = (case peek ts pos of None \<Rightarrow> [] | Some t \<Rightarrow> tvalue t)"

text \<open>A loop \<^verbatim>\<open>while (cond(peek())) advance()\<close> whose condition fails at the end of the
  array: the position after it.\<close>

definition skip_while :: "('a \<Rightarrow> bool) \<Rightarrow> 'a list \<Rightarrow> nat \<Rightarrow> nat" where
  "skip_while P ts pos = pos + length (takeWhile P (drop pos ts))"

subsection \<open>Type names\<close>

definition object_prototype_members :: "string list" where
  "object_prototype_members =
     [''constructor'', ''hasOwnProperty'', ''isPrototypeOf'', ''propertyIsEnumerable'',
      ''toLocaleString'', ''toString'', ''valueOf'', ''__proto__'', ''__defineGetter__'',
      ''__defineSetter__'', ''__lookupGetter__'', ''__lookupSetter__'']"

text \<open>\<^verbatim>\<open>typeMap[type] || fallback\<close> for a table given as an association list.\<close>

definition lookup_type :: "(string \<times> DataType) list \<Rightarrow> DataType \<Rightarrow> string \<Rightarrow> DataType" where
  "lookup_type table fallback ty =
     (case map_of table ty of
        Some d \<Rightarrow> d
      | None \<Rightarrow> if ty \<in> set object_prototype_members then T_inherited ty else fallback)"

definition mapCType :: "string \<Rightarrow> DataType" where
  "mapCType = lookup_type
     [(''int'', T_int), (''float'', T_float), (''double'', T_double), (''char'', T_char),
      (''void'', T_void), (''bool'', T_bool)] T_int"

definition c_isType :: "Token \<Rightarrow> bool" where
  "c_isType t = (ttype t = KEYWORD
     \<and> tvalue t \<in> set [''int'', ''float'', ''double'', ''char'', ''void'', ''const'', ''static''])"

definition c_isModifier :: "Token \<Rightarrow> bool" where
  "c_isModifier t = (ttype t = KEYWORD \<and> (tvalue t = ''const'' \<or> tvalue t = ''static''))"

subsection \<open>Sequencing of parser steps\<close>

text \<open>A step returns its value and the new position. \<open>bind_res\<close> runs the next step
  after a normal return and passes on an exception or an exhausted budget.\<close>

fun bind_res :: "'a res \<Rightarrow> ('a \<Rightarrow> 'b res) \<Rightarrow> 'b res" where
  "bind_res OutOfFuel f = OutOfFuel"
| "bind_res (Throw e) f = Throw e"
| "bind_res (Ok x) f = f x"

lemma bind_res_cong [fundef_cong]:
  "m = m' \<Longrightarrow> (\<And>x. m' = Ok x \<Longrightarrow> f x = f' x) \<Longrightarrow> bind_res m f = bind_res m' f'"
  by (cases m') simp_all

subsection \<open>Expressions\<close>

definition lit_int :: "int \<Rightarrow> IRNode" where
  "lit_int i = IRLiteral (V_num i) T_int None"

definition c_generateSimpleExpr :: "IRNode \<Rightarrow> string" where
  "c_generateSimpleExpr node =
     (case node of IRLiteral v _ _ \<Rightarrow> js_String v | IRIdentifier name \<Rightarrow> name | _ \<Rightarrow> ''0'')"

text \<open>
  The parser functions call each other in cycles. Each function of the model takes a
  table \<open>r\<close> with the functions that close a cycle (\<^verbatim>\<open>parseExpression\<close>,
  \<^verbatim>\<open>parseAssignment\<close>, \<^verbatim>\<open>parseUnary\<close>, \<^verbatim>\<open>parseStatement\<close>, \<^verbatim>\<open>parseIf\<close>) and the
  budget for the iterations of a loop; every other call is a direct call. \<open>c_table\<close>
  below builds the table for a budget \<open>n\<close> from the table for \<open>n - 1\<close>.
\<close>

record rec_table =
  budget :: nat
  rec_expression :: "Token list \<Rightarrow> nat \<Rightarrow> (IRNode \<times> nat) res"
  rec_assignment :: "Token list \<Rightarrow> nat \<Rightarrow> (IRNode \<times> nat) res"
  rec_unary :: "Token list \<Rightarrow> nat \<Rightarrow> (IRNode \<times> nat) res"
  rec_statement :: "Token list \<Rightarrow> nat \<Rightarrow> (IRNode option \<times> nat) res"
  rec_if :: "Token list \<Rightarrow> nat \<Rightarrow> (IRNode \<times> nat) res"

definition match_any :: "'a Token_scheme list \<Rightarrow> nat \<Rightarrow> (TokType \<times> string) list \<Rightarrow> bool" where
  "match_any ts pos ops = (\<exists>(ty, v) \<in> set ops. match_val ts pos ty v)"

text \<open>
  The left-associative levels share one loop:
  \<^verbatim>\<open>while (match one of ops) { op = advance().value; right = sub(); left = binary_op }\<close>.
  \<open>ops\<close> lists the token kinds and values that continue the loop, \<open>sub\<close> is the parser of
  the next level, \<open>k\<close> bounds the iterations.
\<close>

fun binary_loop ::
  "(nat \<Rightarrow> (IRNode \<times> nat) res) \<Rightarrow> (TokType \<times> string) list \<Rightarrow> Token list \<Rightarrow> nat
   \<Rightarrow> IRNode \<Rightarrow> nat \<Rightarrow> (IRNode \<times> nat) res" where
  "binary_loop sub ops ts 0 left pos = OutOfFuel"
| "binary_loop sub ops ts (Suc k) left pos =
     (if match_any ts pos ops then
        bind_res (sub (pos + 1)) (\<lambda>(right, p).
          binary_loop sub ops ts k (IRBinaryOp (tok_value ts pos) left right) p)
      else Ok (left, pos))"

text \<open>The argument loop of a call:
  \<^verbatim>\<open>while (!match(')')) { args.push(parseExpression()); if (!consume(',')) break; }\<close>.\<close>

fun args_loop ::
  "(nat \<Rightarrow> (IRNode \<times> nat) res) \<Rightarrow> Token list \<Rightarrow> nat \<Rightarrow> IRNode list \<Rightarrow> nat
   \<Rightarrow> (IRNode list \<times> nat) res" where
  "args_loop sub ts 0 args pos = OutOfFuel"
| "args_loop sub ts (Suc k) args pos =
     (if match_val ts pos PUNCTUATION '')'' then Ok (args, pos)
      else bind_res (sub pos) (\<lambda>(arg, p).
        if match_val ts p PUNCTUATION '','' then args_loop sub ts k (args @ [arg]) (p + 1)
        else Ok (args @ [arg], p)))"

text \<open>The loop of \<^verbatim>\<open>parsePostfix\<close> over \<^verbatim>\<open>++\<close> and \<^verbatim>\<open>--\<close>.\<close>

fun c_postfix_loop :: "Token list \<Rightarrow> nat \<Rightarrow> IRNode \<Rightarrow> nat \<Rightarrow> (IRNode \<times> nat) res" where
  "c_postfix_loop ts 0 expr pos = OutOfFuel"
| "c_postfix_loop ts (Suc k) expr pos =
     (if match_val ts pos OPERATOR ''++'' then
        c_postfix_loop ts k (IRUnaryOp ''++_post'' expr) (pos + 1)
      else if match_val ts pos OPERATOR ''--'' then
        c_postfix_loop ts k (IRUnaryOp ''--_post'' expr) (pos + 1)
      else Ok (expr, pos))"

definition c_parsePrimary :: "rec_table \<Rightarrow> Token list \<Rightarrow> nat \<Rightarrow> (IRNode \<times> nat) res" where
  "c_parsePrimary r ts pos =
     (if match_val ts pos PUNCTUATION ''('' then
        bind_res (rec_expression r ts (pos + 1)) (\<lambda>(expr, p).
          Ok (expr, consume_val ts p PUNCTUATION '')''))
      else if match_tok ts pos NUMBER then
        (let v = tok_value ts pos
         in if CHR ''.'' \<in> set v
            then Ok (IRLiteral (V_float (js_float_text v)) T_float None, pos + 1)
            else Ok (IRLiteral (V_num (js_parseInt v)) T_int None, pos + 1))
      else if match_tok ts pos STRING then
        Ok (IRLiteral (V_str (slice_1_m1 (tok_value ts pos))) T_string None, pos + 1)
      else if match_tok ts pos CHAR_TOK then
        Ok (IRLiteral (V_str (slice_1_m1 (tok_value ts pos))) T_char None, pos + 1)
      else if match_val ts pos KEYWORD ''true'' then
        Ok (IRLiteral (V_bool True) T_bool None, pos + 1)
      else if match_val ts pos KEYWORD ''false'' then
        Ok (IRLiteral (V_bool False) T_bool None, pos + 1)
      else if match_val ts pos KEYWORD ''NULL'' then
        Ok (IRLiteral (V_str ''null'') T_void None, pos + 1)
      else if match_tok ts pos IDENTIFIER then
        (let name = tok_value ts pos; p1 = pos + 1
         in if match_val ts p1 PUNCTUATION ''('' then
              bind_res (args_loop (rec_expression r ts) ts (budget r) [] (p1 + 1)) (\<lambda>(args, p).
                Ok (IRCall name args None None, consume_val ts p PUNCTUATION '')''))
            else if match_val ts p1 PUNCTUATION ''['' then
              bind_res (rec_expression r ts (p1 + 1)) (\<lambda>(index, p).
                Ok (IRIdentifier (name @ ''['' @ c_generateSimpleExpr index @ '']''),
                    consume_val ts p PUNCTUATION '']''))
            else Ok (IRIdentifier name, p1))
      else Ok (lit_int 0, pos))"

definition c_parsePostfix :: "rec_table \<Rightarrow> Token list \<Rightarrow> nat \<Rightarrow> (IRNode \<times> nat) res" where
  "c_parsePostfix r ts pos =
     bind_res (c_parsePrimary r ts pos) (\<lambda>(expr, p). c_postfix_loop ts (budget r) expr p)"

definition c_parseUnary :: "rec_table \<Rightarrow> Token list \<Rightarrow> nat \<Rightarrow> (IRNode \<times> nat) res" where
  "c_parseUnary r ts pos =
     (if match_any ts pos [(PUNCTUATION, ''!''), (PUNCTUATION, ''-''), (PUNCTUATION, ''+'')] then
        bind_res (rec_unary r ts (pos + 1)) (\<lambda>(operand, p).
          Ok (IRUnaryOp (tok_value ts pos) operand, p))
      else if match_any ts pos [(OPERATOR, ''++''), (OPERATOR, ''--'')] then
        bind_res (c_parsePostfix r ts (pos + 1)) (\<lambda>(operand, p).
          Ok (IRUnaryOp (tok_value ts pos) operand, p))
      else c_parsePostfix r ts pos)"

definition c_parseMulDiv :: "rec_table \<Rightarrow> Token list \<Rightarrow> nat \<Rightarrow> (IRNode \<times> nat) res" where
  "c_parseMulDiv r ts pos =
     bind_res (c_parseUnary r ts pos) (\<lambda>(left, p).
       binary_loop (c_parseUnary r ts)
         [(PUNCTUATION, ''*''), (PUNCTUATION, ''/''), (PUNCTUATION, ''%'')] ts (budget r) left p)"

definition c_parseAddSub :: "rec_table \<Rightarrow> Token list \<Rightarrow> nat \<Rightarrow> (IRNode \<times> nat) res" where
  "c_parseAddSub r ts pos =
     bind_res (c_parseMulDiv r ts pos) (\<lambda>(left, p).
       binary_loop (c_parseMulDiv r ts)
         [(PUNCTUATION, ''+''), (PUNCTUATION, ''-'')] ts (budget r) left p)"

definition c_parseComparison :: "rec_table \<Rightarrow> Token list \<Rightarrow> nat \<Rightarrow> (IRNode \<times> nat) res" where
  "c_parseComparison r ts pos =
     bind_res (c_parseAddSub r ts pos) (\<lambda>(left, p).
       binary_loop (c_parseAddSub r ts)
         [(OPERATOR, ''<''), (OPERATOR, ''>''), (OPERATOR, ''<=''), (OPERATOR, ''>=''),
          (PUNCTUATION, ''<''), (PUNCTUATION, ''>'')] ts (budget r) left p)"

definition c_parseEquality :: "rec_table \<Rightarrow> Token list \<Rightarrow> nat \<Rightarrow> (IRNode \<times> nat) res" where
  "c_parseEquality r ts pos =
     bind_res (c_parseComparison r ts pos) (\<lambda>(left, p).
       binary_loop (c_parseComparison r ts)
         [(OPERATOR, ''==''), (OPERATOR, ''!='')] ts (budget r) left p)"

definition c_parseAnd :: "rec_table \<Rightarrow> Token list \<Rightarrow> nat \<Rightarrow> (IRNode \<times> nat) res" where
  "c_parseAnd r ts pos =
     bind_res (c_parseEquality r ts pos) (\<lambda>(left, p).
       binary_loop (c_parseEquality r ts) [(OPERATOR, ''&&'')] ts (budget r) left p)"

definition c_parseOr :: "rec_table \<Rightarrow> Token list \<Rightarrow> nat \<Rightarrow> (IRNode \<times> nat) res" where
  "c_parseOr r ts pos =
     bind_res (c_parseAnd r ts pos) (\<lambda>(left, p).
       binary_loop (c_parseAnd r ts) [(OPERATOR, ''||'')] ts (budget r) left p)"

text \<open>\<^verbatim>\<open>parseAssignment\<close>: the loop over \<^verbatim>\<open>assignOps\<close> tries \<^verbatim>\<open>=\<close> as an operator or as
  punctuation, then the four compound operators.\<close>

definition c_parseAssignment :: "rec_table \<Rightarrow> Token list \<Rightarrow> nat \<Rightarrow> (IRNode \<times> nat) res" where
  "c_parseAssignment r ts pos =
     bind_res (c_parseOr r ts pos) (\<lambda>(left, p).
       if match_val ts p OPERATOR ''='' \<or> match_val ts p PUNCTUATION ''='' then
         bind_res (rec_assignment r ts (p + 1)) (\<lambda>(right, p').
           Ok (IRBinaryOp ''='' left right, p'))
       else if match_any ts p
           [(OPERATOR, ''+=''), (OPERATOR, ''-=''), (OPERATOR, ''*=''), (OPERATOR, ''/='')] then
         bind_res (rec_assignment r ts (p + 1)) (\<lambda>(right, p').
           Ok (IRBinaryOp (tok_value ts p) left right, p'))
       else Ok (left, p))"

definition c_parseExpression :: "rec_table \<Rightarrow> Token list \<Rightarrow> nat \<Rightarrow> (IRNode \<times> nat) res" where
  "c_parseExpression r ts pos = c_parseAssignment r ts pos"


subsection \<open>Statements\<close>

text \<open>\<^verbatim>\<open>s.replace(/\\n/g, '')\<close>: every match of a backslash followed by \<^verbatim>\<open>n\<close>, found from
  left to right, is removed; the text that results is not scanned again.\<close>

fun remove_newline_escapes :: "string \<Rightarrow> string" where
  "remove_newline_escapes (a # b # rest) =
     (if a = CHR 0x5C \<and> b = CHR ''n'' then remove_newline_escapes rest
      else a # remove_newline_escapes (b # rest))"
| "remove_newline_escapes xs = xs"

text \<open>\<^verbatim>\<open>CParser.parsePrintfFormat\<close>: the parts \<^verbatim>\<open>{ text, isFormat }\<close>; the second argument is
  the text collected so far (\<^verbatim>\<open>current\<close>).\<close>

definition printf_directives :: string where
  "printf_directives = ''dsfcixXouEeGgp''"

fun parsePrintfFormat_loop :: "string \<Rightarrow> string \<Rightarrow> (string \<times> bool) list" where
  "parsePrintfFormat_loop [] current = (if current \<noteq> [] then [(current, False)] else [])"
| "parsePrintfFormat_loop [ch] current = parsePrintfFormat_loop [] (current @ [ch])"
| "parsePrintfFormat_loop (ch # nextChar # rest) current =
     (if ch = CHR ''%'' \<and> nextChar \<in> set printf_directives then
        (if current \<noteq> [] then [(current, False)] else [])
          @ [([CHR ''%'', nextChar], True)] @ parsePrintfFormat_loop rest []
      else if ch = CHR ''%'' \<and> nextChar = CHR ''%'' then
        parsePrintfFormat_loop rest (current @ ''%'')
      else parsePrintfFormat_loop (nextChar # rest) (current @ [ch]))"

definition parsePrintfFormat :: "string \<Rightarrow> (string \<times> bool) list" where
  "parsePrintfFormat format = parsePrintfFormat_loop format []"

text \<open>The literal pushed for the text collected between two directives, if any.\<close>

definition printf_literal :: "string \<Rightarrow> IRNode list" where
  "printf_literal currentString =
     (if currentString \<noteq> [] then
        (let cleanStr = remove_newline_escapes currentString
         in if cleanStr \<noteq> [] then [IRLiteral (V_str cleanStr) T_string None] else [])
      else [])"

text \<open>The loop of \<^verbatim>\<open>parsePrintf\<close> over the parts; \<open>formatArgs\<close> is the list of the
  arguments not yet used (\<^verbatim>\<open>formatArgs\<close> from \<^verbatim>\<open>argIndex\<close> on).\<close>

fun printf_args :: "(string \<times> bool) list \<Rightarrow> IRNode list \<Rightarrow> string \<Rightarrow> IRNode list" where
  "printf_args [] formatArgs currentString = printf_literal currentString"
| "printf_args ((t, True) # parts) formatArgs currentString =
     printf_literal currentString @ take 1 formatArgs @ printf_args parts (drop 1 formatArgs) []"
| "printf_args ((t, False) # parts) formatArgs currentString =
     printf_args parts formatArgs (currentString @ t)"

text \<open>\<^verbatim>\<open>while (match(',')) { advance(); formatArgs.push(parseExpression()); }\<close>\<close>

fun comma_loop ::
  "(nat \<Rightarrow> (IRNode \<times> nat) res) \<Rightarrow> Token list \<Rightarrow> nat \<Rightarrow> IRNode list \<Rightarrow> nat
   \<Rightarrow> (IRNode list \<times> nat) res" where
  "comma_loop sub ts 0 args pos = OutOfFuel"
| "comma_loop sub ts (Suc k) args pos =
     (if match_val ts pos PUNCTUATION '','' then
        bind_res (sub (pos + 1)) (\<lambda>(arg, p). comma_loop sub ts k (args @ [arg]) p)
      else Ok (args, pos))"

definition c_parsePrintf :: "rec_table \<Rightarrow> Token list \<Rightarrow> nat \<Rightarrow> (IRNode \<times> nat) res" where
  "c_parsePrintf r ts pos =
     (let p1 = consume_val ts pos KEYWORD ''printf'';
          p2 = consume_val ts p1 PUNCTUATION ''(''
      in bind_res
           (if match_tok ts p2 STRING then
              (let formatString = slice_1_m1 (tok_value ts p2);
                   hasNewline = includes_str [CHR 0x5C, CHR ''n''] formatString;
                   parts = parsePrintfFormat formatString
               in bind_res (comma_loop (c_parseExpression r ts) ts (budget r) [] (p2 + 1))
                    (\<lambda>(formatArgs, p). Ok (printf_args parts formatArgs [], hasNewline, p)))
            else Ok ([], False, p2))
           (\<lambda>(args, hasNewline, p).
              Ok (IRPrint (if length args > 0 then args
                           else [IRLiteral (V_str []) T_string None]) (Some hasNewline),
                  consume_val ts (consume_val ts p PUNCTUATION '')'') PUNCTUATION '';'')))"

definition c_parseScanf :: "Token list \<Rightarrow> nat \<Rightarrow> IRNode \<times> nat" where
  "c_parseScanf ts pos =
     (let p1 = consume_val ts pos KEYWORD ''scanf'';
          p2 = consume_val ts p1 PUNCTUATION ''('';
          (targetType, p3) =
            (if match_tok ts p2 STRING then
               (let formatStr = tok_value ts p2
                in (if includes_str ''%d'' formatStr \<or> includes_str ''%i'' formatStr then T_int
                    else if includes_str ''%f'' formatStr then T_float else T_string, p2 + 1))
             else (T_string, p2));
          (targetVar, p4) =
            (if match_val ts p3 PUNCTUATION '','' then
               (let p = consume_val ts (p3 + 1) PUNCTUATION ''&''
                in if match_tok ts p IDENTIFIER then (Some (tok_value ts p), p + 1)
                   else (None, p))
             else (None, p3))
      in (IRInput None targetVar (Some targetType),
          consume_val ts (consume_val ts p4 PUNCTUATION '')'') PUNCTUATION '';''))"

text \<open>The array suffix of a declarator: \<^verbatim>\<open>[\<close>, anything up to \<^verbatim>\<open>]\<close> or the end, \<^verbatim>\<open>]\<close>.\<close>

definition skip_array :: "Token list \<Rightarrow> nat \<Rightarrow> nat" where
  "skip_array ts pos =
     consume_val ts
       (skip_while (\<lambda>t. \<not> (ttype t = PUNCTUATION \<and> tvalue t = '']'')) ts (pos + 1))
       PUNCTUATION '']''"

definition char_to_string :: "DataType \<Rightarrow> DataType" where
  "char_to_string d = (if d = T_char then T_string else d)"

text \<open>\<^verbatim>\<open>CParser.parseVariableDecl(name?, dataType?)\<close>; \<open>given\<close> holds the two arguments
  when the caller passes them.\<close>

definition c_parseVariableDecl ::
  "rec_table \<Rightarrow> (string \<times> DataType) option \<Rightarrow> Token list \<Rightarrow> nat \<Rightarrow> (IRNode \<times> nat) res" where
  "c_parseVariableDecl r given ts pos =
     (let (name, dataType, p0) =
            (case given of
               Some (nm, dt) \<Rightarrow> (nm, dt, pos)
             | None \<Rightarrow>
                 (let p1 = skip_while c_isModifier ts pos;
                      tv = tok_value ts p1;
                      dt = mapCType (if tv = [] then ''int'' else tv);
                      p2 = p1 + 1;
                      (dt', p3) = (if match_val ts p2 PUNCTUATION ''*''
                                   then (char_to_string dt, p2 + 1) else (dt, p2))
                  in if match_tok ts p3 IDENTIFIER \<and> tok_value ts p3 \<noteq> []
                     then (tok_value ts p3, dt', p3 + 1)
                     else (''unknown'', dt', consume_val ts p3 IDENTIFIER (tok_value ts p3))));
          (dataType', pa) = (if match_val ts p0 PUNCTUATION ''[''
                             then (char_to_string dataType, skip_array ts p0)
                             else (dataType, p0))
      in bind_res
           (if match_val ts pa PUNCTUATION ''='' then
              bind_res (c_parseExpression r ts (pa + 1)) (\<lambda>(v, p). Ok (Some v, p))
            else Ok (None, pa))
           (\<lambda>(val, p). Ok (IRVariable name dataType' val, consume_val ts p PUNCTUATION '';'')))"

definition c_parseReturn :: "rec_table \<Rightarrow> Token list \<Rightarrow> nat \<Rightarrow> (IRNode \<times> nat) res" where
  "c_parseReturn r ts pos =
     (let p1 = consume_val ts pos KEYWORD ''return''
      in if match_val ts p1 PUNCTUATION '';'' then Ok (IRReturn None, p1 + 1)
         else bind_res (c_parseExpression r ts p1) (\<lambda>(v, p).
                Ok (IRReturn (Some v), consume_val ts p PUNCTUATION '';'')))"

text \<open>\<^verbatim>\<open>if (node) list.push(node)\<close>: what is appended for a node or \<^verbatim>\<open>null\<close>.\<close>

fun option_list :: "'a option \<Rightarrow> 'a list" where
  "option_list None = []"
| "option_list (Some x) = [x]"

text \<open>The loop of \<^verbatim>\<open>parseBlock\<close>:
  \<^verbatim>\<open>while (!match('}') && pos < tokens.length) { stmt = parseStatement(); if (stmt) push }\<close>.\<close>

fun block_loop ::
  "(nat \<Rightarrow> (IRNode option \<times> nat) res) \<Rightarrow> Token list \<Rightarrow> nat \<Rightarrow> IRNode list \<Rightarrow> nat
   \<Rightarrow> (IRNode list \<times> nat) res" where
  "block_loop sub ts 0 stmts pos = OutOfFuel"
| "block_loop sub ts (Suc k) stmts pos =
     (if \<not> match_val ts pos PUNCTUATION ''}'' \<and> pos < length ts then
        bind_res (sub pos) (\<lambda>(stmt, p). block_loop sub ts k (stmts @ option_list stmt) p)
      else Ok (stmts, pos))"

definition parseBlock :: "rec_table \<Rightarrow> Token list \<Rightarrow> nat \<Rightarrow> (IRNode list \<times> nat) res" where
  "parseBlock r ts pos =
     (if \<not> match_val ts pos PUNCTUATION ''{'' then
        bind_res (rec_statement r ts pos) (\<lambda>(stmt, p). Ok (option_list stmt, p))
      else
        bind_res (block_loop (rec_statement r ts) ts (budget r) [] (pos + 1)) (\<lambda>(stmts, p).
          Ok (stmts, consume_val ts p PUNCTUATION ''}'')))"

definition parseIf :: "rec_table \<Rightarrow> Token list \<Rightarrow> nat \<Rightarrow> (IRNode \<times> nat) res" where
  "parseIf r ts pos =
     (let p1 = consume_val ts pos KEYWORD ''if'';
          p2 = consume_val ts p1 PUNCTUATION ''(''
      in bind_res (rec_expression r ts p2) (\<lambda>(condition, p3).
         bind_res (parseBlock r ts (consume_val ts p3 PUNCTUATION '')'')) (\<lambda>(thenBranch, p4).
           if match_val ts p4 KEYWORD ''else'' then
             (if match_val ts (p4 + 1) KEYWORD ''if'' then
                bind_res (rec_if r ts (p4 + 1)) (\<lambda>(elseIf, p5).
                  Ok (IRIf condition thenBranch None (Some elseIf), p5))
              else
                bind_res (parseBlock r ts (p4 + 1)) (\<lambda>(elseBranch, p5).
                  Ok (IRIf condition thenBranch (Some elseBranch) None, p5)))
           else Ok (IRIf condition thenBranch None None, p4))))"

definition parseWhile :: "rec_table \<Rightarrow> Token list \<Rightarrow> nat \<Rightarrow> (IRNode \<times> nat) res" where
  "parseWhile r ts pos =
     (let p1 = consume_val ts pos KEYWORD ''while'';
          p2 = consume_val ts p1 PUNCTUATION ''(''
      in bind_res (rec_expression r ts p2) (\<lambda>(condition, p3).
         bind_res (parseBlock r ts (consume_val ts p3 PUNCTUATION '')'')) (\<lambda>(body, p4).
           Ok (IRWhile condition body, p4))))"

text \<open>The range fields that \<^verbatim>\<open>parseFor\<close> computes from the three parts of the header.\<close>

definition for_iterator :: "IRNode option \<Rightarrow> string option" where
  "for_iterator init = (case init of Some (IRVariable name _ _) \<Rightarrow> Some name | _ \<Rightarrow> None)"

definition for_rangeStart :: "IRNode option \<Rightarrow> IRNode option" where
  "for_rangeStart init = (case init of Some (IRVariable _ _ v) \<Rightarrow> v | _ \<Rightarrow> None)"

definition for_rangeEnd :: "IRNode option \<Rightarrow> IRNode option" where
  "for_rangeEnd condition =
     (case condition of
        Some (IRBinaryOp op l rt) \<Rightarrow>
          (if op = ''<'' \<or> op = ''<='' then
             (if op = ''<='' then Some (IRBinaryOp ''+'' rt (lit_int 1)) else Some rt)
           else None)
      | _ \<Rightarrow> None)"

definition c_for_rangeStep :: "IRNode option \<Rightarrow> IRNode option" where
  "c_for_rangeStep update =
     (case update of
        Some (IRUnaryOp op operand) \<Rightarrow>
          (if op = ''++'' \<or> op = ''++_post'' then Some (lit_int 1)
           else if op = ''--'' \<or> op = ''--_post'' then Some (lit_int (- 1))
           else None)
      | Some (IRBinaryOp op l rt) \<Rightarrow>
          (if op = ''+='' \<or> op = ''-='' then
             (if op = ''-='' then Some (IRUnaryOp ''-'' rt) else Some rt)
           else None)
      | _ \<Rightarrow> None)"

definition null_type_error :: js_error where
  "null_type_error = TypeError ''Cannot read properties of null (reading 'type')''"

text \<open>\<^verbatim>\<open>CParser.parseFor\<close>. \<^verbatim>\<open>this.isType(this.peek()!)\<close> reads \<^verbatim>\<open>token.type\<close> of
  \<^verbatim>\<open>null\<close> at the end of the tokens.\<close>

definition c_parseFor :: "rec_table \<Rightarrow> Token list \<Rightarrow> nat \<Rightarrow> (IRNode \<times> nat) res" where
  "c_parseFor r ts pos =
     (let p1 = consume_val ts pos KEYWORD ''for'';
          p2 = consume_val ts p1 PUNCTUATION ''(''
      in bind_res
           (if \<not> match_val ts p2 PUNCTUATION '';'' then
              (case peek ts p2 of
                 None \<Rightarrow> Throw null_type_error
               | Some t \<Rightarrow>
                   if c_isType t then
                     bind_res (c_parseVariableDecl r None ts p2) (\<lambda>(v, p). Ok (Some v, p))
                   else
                     bind_res (rec_expression r ts p2) (\<lambda>(e, p).
                       Ok (Some e, consume_val ts p PUNCTUATION '';'')))
            else Ok (None, p2 + 1))
           (\<lambda>(init, p3).
         bind_res
           (if \<not> match_val ts p3 PUNCTUATION '';'' then
              bind_res (rec_expression r ts p3) (\<lambda>(e, p). Ok (Some e, p))
            else Ok (None, p3))
           (\<lambda>(condition, p4).
         bind_res
           (let p5 = consume_val ts p4 PUNCTUATION '';''
            in if \<not> match_val ts p5 PUNCTUATION '')'' then
                 bind_res (rec_expression r ts p5) (\<lambda>(e, p). Ok (Some e, p))
               else Ok (None, p5))
           (\<lambda>(update, p6).
         bind_res (parseBlock r ts (consume_val ts p6 PUNCTUATION '')'')) (\<lambda>(body, p7).
           Ok (IRFor init condition update (for_iterator init) (for_rangeStart init)
                 (for_rangeEnd condition) (c_for_rangeStep update) body, p7))))))"

text \<open>\<^verbatim>\<open>CParser.parseStatement\<close>; the same unguarded \<^verbatim>\<open>isType(peek()!)\<close>.\<close>

definition c_parseStatement ::
  "rec_table \<Rightarrow> Token list \<Rightarrow> nat \<Rightarrow> (IRNode option \<times> nat) res" where
  "c_parseStatement r ts pos =
     (if match_tok ts pos COMMENT then
        Ok (Some (IRComment (js_trim (tok_value ts pos)) None), pos + 1)
      else if match_tok ts pos MULTILINE_COMMENT then
        Ok (Some (IRComment (js_trim (tok_value ts pos)) (Some True)), pos + 1)
      else bind_res
        (if match_val ts pos KEYWORD ''if'' then parseIf r ts pos
         else if match_val ts pos KEYWORD ''for'' then c_parseFor r ts pos
         else if match_val ts pos KEYWORD ''while'' then parseWhile r ts pos
         else if match_val ts pos KEYWORD ''return'' then c_parseReturn r ts pos
         else if match_val ts pos KEYWORD ''printf'' then c_parsePrintf r ts pos
         else if match_val ts pos KEYWORD ''scanf'' then Ok (c_parseScanf ts pos)
         else (case peek ts pos of
                 None \<Rightarrow> Throw null_type_error
               | Some t \<Rightarrow>
                   if c_isType t then c_parseVariableDecl r None ts pos
                   else bind_res (c_parseExpression r ts pos) (\<lambda>(expr, p).
                          Ok (expr, consume_val ts p PUNCTUATION '';''))))
        (\<lambda>(node, p). Ok (Some node, p)))"

text \<open>The table for a budget: every cycle of calls passes through it and spends one unit.\<close>

primrec c_table :: "nat \<Rightarrow> rec_table" where
  "c_table 0 =
     \<lparr> budget = 0,
       rec_expression = (\<lambda>ts pos. OutOfFuel), rec_assignment = (\<lambda>ts pos. OutOfFuel),
       rec_unary = (\<lambda>ts pos. OutOfFuel), rec_statement = (\<lambda>ts pos. OutOfFuel),
       rec_if = (\<lambda>ts pos. OutOfFuel) \<rparr>"
| "c_table (Suc n) =
     (let t = c_table n
      in \<lparr> budget = Suc n,
           rec_expression = c_parseExpression t,
           rec_assignment = c_parseAssignment t,
           rec_unary = c_parseUnary t,
           rec_statement = c_parseStatement t,
           rec_if = parseIf t \<rparr>)"

subsection \<open>Top level\<close>

text \<open>\<^verbatim>\<open>CParser.parseParams\<close>: one iteration reads a type token, an optional \<^verbatim>\<open>*\<close>, an
  optional name with an optional array suffix, and goes on after a comma.\<close>

fun c_params_loop :: "Token list \<Rightarrow> nat \<Rightarrow> IRVar list \<Rightarrow> nat \<Rightarrow> IRVar list \<times> nat" where
  "c_params_loop ts 0 params pos = (params, pos)"
| "c_params_loop ts (Suc k) params pos =
     (if match_val ts pos PUNCTUATION '')'' then (params, pos)
      else case peek ts pos of
        None \<Rightarrow> (params, pos + 1)
      | Some typeToken \<Rightarrow>
          (let dt = mapCType (tvalue typeToken);
               p1 = pos + 1;
               (dt1, p2) = (if match_val ts p1 PUNCTUATION ''*''
                            then (char_to_string dt, p1 + 1) else (dt, p1));
               (params', p3) =
                 (if match_tok ts p2 IDENTIFIER then
                    (let (dt2, p) = (if match_val ts (p2 + 1) PUNCTUATION ''[''
                                     then (char_to_string dt1, skip_array ts (p2 + 1))
                                     else (dt1, p2 + 1))
                     in (params @ [(tok_value ts p2, dt2, None)], p))
                  else (params, p2))
           in if match_val ts p3 PUNCTUATION '','' then c_params_loop ts k params' (p3 + 1)
              else (params', p3)))"

text \<open>Every iteration reads a token, so the number of tokens bounds the iterations.\<close>

definition c_parseParams :: "Token list \<Rightarrow> nat \<Rightarrow> IRVar list \<times> nat" where
  "c_parseParams ts pos = c_params_loop ts (Suc (length ts)) [] pos"

definition c_parseFunctionDef ::
  "rec_table \<Rightarrow> string \<Rightarrow> DataType \<Rightarrow> Token list \<Rightarrow> nat \<Rightarrow> (IRNode \<times> nat) res" where
  "c_parseFunctionDef r name returnType ts pos =
     (let p1 = consume_val ts pos PUNCTUATION ''('';
          (params, p2) = c_parseParams ts p1
      in bind_res (parseBlock r ts (consume_val ts p2 PUNCTUATION '')'')) (\<lambda>(body, p).
           Ok (IRFunction name params returnType body, p)))"

definition c_parseFunctionOrVariable ::
  "rec_table \<Rightarrow> Token list \<Rightarrow> nat \<Rightarrow> (IRNode option \<times> nat) res" where
  "c_parseFunctionOrVariable r ts pos =
     (let p1 = skip_while c_isModifier ts pos
      in case peek ts p1 of
           None \<Rightarrow> Ok (None, p1 + 1)
         | Some typeToken \<Rightarrow>
             (let dataType = mapCType (tvalue typeToken);
                  p2 = consume_val ts (p1 + 1) PUNCTUATION ''*''
              in if \<not> match_tok ts p2 IDENTIFIER then Ok (None, p2)
                 else bind_res
                   (if match_val ts (p2 + 1) PUNCTUATION ''(''
                    then c_parseFunctionDef r (tok_value ts p2) dataType ts (p2 + 1)
                    else c_parseVariableDecl r (Some (tok_value ts p2, dataType)) ts (p2 + 1))
                   (\<lambda>(node, p). Ok (Some node, p))))"

definition c_parseTopLevel ::
  "rec_table \<Rightarrow> Token list \<Rightarrow> nat \<Rightarrow> (IRNode option \<times> nat) res" where
  "c_parseTopLevel r ts pos =
     (if match_tok ts pos COMMENT then
        Ok (Some (IRComment (js_trim (tok_value ts pos)) None), pos + 1)
      else if match_tok ts pos MULTILINE_COMMENT then
        Ok (Some (IRComment (js_trim (tok_value ts pos)) (Some True)), pos + 1)
      else case peek ts pos of
        None \<Rightarrow> Ok (None, pos)
      | Some typeToken \<Rightarrow>
          if c_isType typeToken then c_parseFunctionOrVariable r ts pos
          else Ok (None, pos + 1))"

text \<open>The loop of \<^verbatim>\<open>CParser.parse\<close>, with the body and the imports collected so far.\<close>

fun c_parse_loop ::
  "rec_table \<Rightarrow> Token list \<Rightarrow> nat \<Rightarrow> IRNode list \<Rightarrow> string list \<Rightarrow> nat \<Rightarrow> IRProgram res" where
  "c_parse_loop r ts 0 body imps pos = OutOfFuel"
| "c_parse_loop r ts (Suc k) body imps pos =
     (if pos < length ts then
        (if match_tok ts pos PREPROCESSOR then
           (let directive = tok_value ts pos
            in c_parse_loop r ts k body
                 (if includes_str ''include'' directive then imps @ [directive] else imps)
                 (pos + 1))
         else bind_res (c_parseTopLevel r ts pos) (\<lambda>(node, p).
                c_parse_loop r ts k (body @ option_list node) imps p))
      else Ok \<lparr> pbody = body, pimports = imps \<rparr>)"

text \<open>\<^verbatim>\<open>CParser.parse\<close> has no handler of its own.\<close>

definition CParser_parse :: "nat \<Rightarrow> string \<Rightarrow> IRProgram res" where
  "CParser_parse fuel code = c_parse_loop (c_table fuel) (c_tokenize code) fuel [] [] 0"

section \<open>The JV front-end (parsers/java-parser.ts)\<close>

definition jv_keywords :: "string list" where
  "jv_keywords = [''public'', ''private'', ''protected'', ''static'', ''final'', ''abstract'',
                  ''class'', ''interface'', ''extends'', ''implements'', ''new'', ''this'',
                  ''super'', ''if'', ''else'', ''for'', ''while'', ''do'', ''switch'', ''case'',
                  ''default'', ''break'', ''continue'', ''return'', ''void'', ''int'', ''float'',
                  ''double'', ''boolean'', ''char'', ''String'', ''true'', ''false'', ''null'',
                  ''package'', ''import'', ''try'', ''catch'', ''finally'', ''throw'', ''throws'']"

definition jv_operators :: "string list" where
  "jv_operators = [''=='', ''!='', ''<='', ''>='', ''&&'', ''||'', ''<<'', ''>>'', ''++'', ''--'',
                   ''->'', ''+='', ''-='', ''*='', ''/='']"

text \<open>\<^verbatim>\<open>JavaParser.tokenize\<close>, on the input that is left.\<close>

function jv_tokenize :: "string \<Rightarrow> Token list" where
  "jv_tokenize [] = []"
| "jv_tokenize (x # xs) =
     (if is_space x then jv_tokenize xs
      else if take 2 (x # xs) = ''//'' then
        mk COMMENT (takeWhile (\<lambda>ch. ch \<noteq> CHR 0x0A) (drop 1 xs))
          # jv_tokenize (dropWhile (\<lambda>ch. ch \<noteq> CHR 0x0A) (drop 1 xs))
      else if take 2 (x # xs) = ''/*'' then
        mk MULTILINE_COMMENT (fst (scan_block_comment (drop 1 xs)))
          # jv_tokenize (drop 2 (snd (scan_block_comment (drop 1 xs))))
      else if x = CHR 0x22 then
        mk STRING (x # fst (scan_quoted x xs) @ [x])
          # jv_tokenize (drop 1 (snd (scan_quoted x xs)))
      else if x = CHR 0x27 then
        mk CHAR_TOK (x # fst (scan_quoted x xs) @ [x])
          # jv_tokenize (drop 1 (snd (scan_quoted x xs)))
      else if is_digit x then
        mk NUMBER (fst (match_number ''fFdDlL'' (x # xs)))
          # jv_tokenize (snd (match_number ''fFdDlL'' (x # xs)))
      else if is_word_start x then
        (let w = takeWhile is_word_char (x # xs)
         in mk (if w \<in> set jv_keywords then KEYWORD else IDENTIFIER) w
              # jv_tokenize (dropWhile is_word_char xs))
      else if take 2 (x # xs) \<in> set jv_operators then
        mk OPERATOR (take 2 (x # xs)) # jv_tokenize (drop 1 xs)
      else mk PUNCTUATION [x] # jv_tokenize xs)"
  by pat_completeness auto

termination jv_tokenize
proof (relation "measure length", goal_cases)
  case 1
  show ?case by simp
next
  case (2 x xs)
  show ?case by simp
next
  case (3 x xs)
  show ?case using length_dropWhile_le[of "\<lambda>ch. ch \<noteq> CHR 0x0A" "drop 1 xs"] by simp
next
  case (4 x xs)
  show ?case using scan_block_comment_len[of "drop 1 xs"] by simp
next
  case (5 x xs)
  show ?case using scan_quoted_len[of x xs] by simp
next
  case (6 x xs)
  show ?case using scan_quoted_len[of x xs] by simp
next
  case (7 x xs)
  then show ?case using match_number_digit_len[of x "''fFdDlL''" xs] by simp
next
  case (8 x xs)
  show ?case using length_dropWhile_le[of is_word_char xs] by simp
next
  case (9 x xs)
  show ?case by simp
next
  case (10 x xs)
  show ?case by simp
qed

subsection \<open>Type names\<close>

text \<open>\<^verbatim>\<open>consume(type)\<close>: the position after the call.\<close>

definition consume_tok :: "'a Token_scheme list \<Rightarrow> nat \<Rightarrow> TokType \<Rightarrow> nat" where
  "consume_tok ts pos ty = (if match_tok ts pos ty then pos + 1 else pos)"

definition mapJavaType :: "string \<Rightarrow> DataType" where
  "mapJavaType = lookup_type
     [(''int'', T_int), (''float'', T_float), (''double'', T_double), (''boolean'', T_bool),
      (''char'', T_char), (''void'', T_void), (''String'', T_string)] T_auto"

definition jv_isType :: "Token \<Rightarrow> bool" where
  "jv_isType t = ((ttype t = KEYWORD
       \<and> tvalue t \<in> set [''int'', ''float'', ''double'', ''boolean'', ''char'', ''void'', ''String''])
     \<or> ttype t = IDENTIFIER)"

text \<open>\<^verbatim>\<open>this.isType(this.peek())\<close>, false at the end of the tokens.\<close>

definition jv_isType_at :: "Token list \<Rightarrow> nat \<Rightarrow> bool" where
  "jv_isType_at ts pos = (case peek ts pos of None \<Rightarrow> False | Some t \<Rightarrow> jv_isType t)"

subsection \<open>Expressions\<close>

text \<open>The number literal: the suffix letters go, and the literal is a float when it has a
  point or the suffix \<^verbatim>\<open>f\<close>.\<close>

definition jv_number :: "string \<Rightarrow> IRNode" where
  "jv_number tok =
     (let v = filter (\<lambda>ch. ch \<notin> set ''fFdDlL'') tok;
          isFloat = (CHR ''.'' \<in> set v \<or> CHR ''f'' \<in> set tok \<or> CHR ''F'' \<in> set tok)
      in if isFloat then IRLiteral (V_float (js_float_text v)) T_float None
         else IRLiteral (V_num (js_parseInt v)) T_int None)"

definition jv_parsePrimary :: "rec_table \<Rightarrow> Token list \<Rightarrow> nat \<Rightarrow> (IRNode \<times> nat) res" where
  "jv_parsePrimary r ts pos =
     (if match_val ts pos PUNCTUATION ''('' then
        bind_res (rec_expression r ts (pos + 1)) (\<lambda>(expr, p).
          Ok (expr, consume_val ts p PUNCTUATION '')''))
      else if match_val ts pos KEYWORD ''new'' then
        (let p1 = pos + 1;
             className = (if match_tok ts p1 IDENTIFIER \<and> tok_value ts p1 \<noteq> []
                          then tok_value ts p1 else ''Object'');
             p2 = consume_val ts (consume_tok ts p1 IDENTIFIER) PUNCTUATION ''(''
         in bind_res (args_loop (rec_expression r ts) ts (budget r) [] p2) (\<lambda>(args, p).
              Ok (IRCall className args None None, consume_val ts p PUNCTUATION '')'')))
      else if match_val ts pos IDENTIFIER ''scanner'' \<or> match_val ts pos IDENTIFIER ''sc''
              \<or> match_val ts pos IDENTIFIER ''input'' then
        (let p1 = consume_val ts (pos + 1) PUNCTUATION ''.'';
             method = (if tok_value ts p1 \<noteq> [] then tok_value ts p1 else ''nextLine'');
             p2 = consume_val ts (consume_val ts (p1 + 1) PUNCTUATION ''('') PUNCTUATION '')'';
             targetType = (if method = ''nextInt'' then T_int
                           else if method = ''nextFloat'' \<or> method = ''nextDouble'' then T_float
                           else T_string)
         in Ok (IRInput None None (Some targetType), p2))
      else if match_tok ts pos STRING then
        Ok (IRLiteral (V_str (slice_1_m1 (tok_value ts pos))) T_string None, pos + 1)
      else if match_tok ts pos CHAR_TOK then
        Ok (IRLiteral (V_str (slice_1_m1 (tok_value ts pos))) T_char None, pos + 1)
      else if match_tok ts pos NUMBER then Ok (jv_number (tok_value ts pos), pos + 1)
      else if match_val ts pos KEYWORD ''true'' then
        Ok (IRLiteral (V_bool True) T_bool None, pos + 1)
      else if match_val ts pos KEYWORD ''false'' then
        Ok (IRLiteral (V_bool False) T_bool None, pos + 1)
      else if match_val ts pos KEYWORD ''null'' then
        Ok (IRLiteral (V_str ''null'') T_void None, pos + 1)
      else if match_val ts pos KEYWORD ''this'' then Ok (IRIdentifier ''this'', pos + 1)
      else if match_tok ts pos IDENTIFIER \<or> match_tok ts pos KEYWORD then
        (let name = tok_value ts pos; p1 = pos + 1
         in if match_val ts p1 PUNCTUATION ''('' then
              bind_res (args_loop (rec_expression r ts) ts (budget r) [] (p1 + 1)) (\<lambda>(args, p).
                Ok (IRCall name args None None, consume_val ts p PUNCTUATION '')''))
            else Ok (IRIdentifier name, p1))
      else Ok (IRLiteral (V_str []) T_string None, pos + 1))"

text \<open>The loop of \<^verbatim>\<open>parsePostfix\<close>: \<^verbatim>\<open>++\<close> and \<^verbatim>\<open>--\<close>, and a member access, which changes
  the expression only when a call follows.\<close>

fun jv_postfix_loop ::
  "(nat \<Rightarrow> (IRNode \<times> nat) res) \<Rightarrow> Token list \<Rightarrow> nat \<Rightarrow> nat \<Rightarrow> IRNode \<Rightarrow> nat
   \<Rightarrow> (IRNode \<times> nat) res" where
  "jv_postfix_loop sub ts b 0 expr pos = OutOfFuel"
| "jv_postfix_loop sub ts b (Suc k) expr pos =
     (if match_val ts pos OPERATOR ''++'' \<or> match_val ts pos OPERATOR ''--'' then
        jv_postfix_loop sub ts b k (IRUnaryOp (tok_value ts pos @ ''_post'') expr) (pos + 1)
      else if match_val ts pos PUNCTUATION ''.'' then
        (let p1 = pos + 1;
             member = (if match_tok ts p1 IDENTIFIER then tok_value ts p1 else []);
             p2 = consume_tok ts p1 IDENTIFIER
         in if match_val ts p2 PUNCTUATION ''('' then
              bind_res (args_loop sub ts b [] (p2 + 1)) (\<lambda>(args, p).
                jv_postfix_loop sub ts b k
                  (IRCall member args (Some True)
                     (Some (case expr of IRIdentifier name \<Rightarrow> name | _ \<Rightarrow> ''obj'')))
                  (consume_val ts p PUNCTUATION '')''))
            else jv_postfix_loop sub ts b k expr p2)
      else Ok (expr, pos))"

definition jv_parsePostfix :: "rec_table \<Rightarrow> Token list \<Rightarrow> nat \<Rightarrow> (IRNode \<times> nat) res" where
  "jv_parsePostfix r ts pos =
     bind_res (jv_parsePrimary r ts pos) (\<lambda>(expr, p).
       jv_postfix_loop (rec_expression r ts) ts (budget r) (budget r) expr p)"

definition jv_parseUnary :: "rec_table \<Rightarrow> Token list \<Rightarrow> nat \<Rightarrow> (IRNode \<times> nat) res" where
  "jv_parseUnary r ts pos =
     (if match_any ts pos [(PUNCTUATION, ''!''), (PUNCTUATION, ''-''), (OPERATOR, ''++''),
                           (OPERATOR, ''--'')] then
        bind_res (rec_unary r ts (pos + 1)) (\<lambda>(operand, p).
          Ok (IRUnaryOp (tok_value ts pos) operand, p))
      else jv_parsePostfix r ts pos)"

definition jv_parseMulDiv :: "rec_table \<Rightarrow> Token list \<Rightarrow> nat \<Rightarrow> (IRNode \<times> nat) res" where
  "jv_parseMulDiv r ts pos =
     bind_res (jv_parseUnary r ts pos) (\<lambda>(left, p).
       binary_loop (jv_parseUnary r ts)
         [(PUNCTUATION, ''*''), (PUNCTUATION, ''/''), (PUNCTUATION, ''%'')] ts (budget r) left p)"

definition jv_parseAddSub :: "rec_table \<Rightarrow> Token list \<Rightarrow> nat \<Rightarrow> (IRNode \<times> nat) res" where
  "jv_parseAddSub r ts pos =
     bind_res (jv_parseMulDiv r ts pos) (\<lambda>(left, p).
       binary_loop (jv_parseMulDiv r ts)
         [(PUNCTUATION, ''+''), (PUNCTUATION, ''-'')] ts (budget r) left p)"

definition jv_parseComparison :: "rec_table \<Rightarrow> Token list \<Rightarrow> nat \<Rightarrow> (IRNode \<times> nat) res" where
  "jv_parseComparison r ts pos =
     bind_res (jv_parseAddSub r ts pos) (\<lambda>(left, p).
       binary_loop (jv_parseAddSub r ts)
         [(OPERATOR, ''==''), (OPERATOR, ''!=''), (PUNCTUATION, ''<''), (PUNCTUATION, ''>''),
          (OPERATOR, ''<=''), (OPERATOR, ''>='')] ts (budget r) left p)"

definition jv_parseLogicalAnd :: "rec_table \<Rightarrow> Token list \<Rightarrow> nat \<Rightarrow> (IRNode \<times> nat) res" where
  "jv_parseLogicalAnd r ts pos =
     bind_res (jv_parseComparison r ts pos) (\<lambda>(left, p).
       binary_loop (jv_parseComparison r ts) [(OPERATOR, ''&&'')] ts (budget r) left p)"

definition jv_parseLogicalOr :: "rec_table \<Rightarrow> Token list \<Rightarrow> nat \<Rightarrow> (IRNode \<times> nat) res" where
  "jv_parseLogicalOr r ts pos =
     bind_res (jv_parseLogicalAnd r ts pos) (\<lambda>(left, p).
       binary_loop (jv_parseLogicalAnd r ts) [(OPERATOR, ''||'')] ts (budget r) left p)"

definition jv_parseAssignment :: "rec_table \<Rightarrow> Token list \<Rightarrow> nat \<Rightarrow> (IRNode \<times> nat) res" where
  "jv_parseAssignment r ts pos =
     bind_res (jv_parseLogicalOr r ts pos) (\<lambda>(left, p).
       if match_any ts p [(PUNCTUATION, ''=''), (OPERATOR, ''+=''), (OPERATOR, ''-=''),
                          (OPERATOR, ''*=''), (OPERATOR, ''/='')] then
         bind_res (rec_assignment r ts (p + 1)) (\<lambda>(right, p').
           Ok (IRBinaryOp (tok_value ts p) left right, p'))
       else Ok (left, p))"

definition jv_parseExpression :: "rec_table \<Rightarrow> Token list \<Rightarrow> nat \<Rightarrow> (IRNode \<times> nat) res" where
  "jv_parseExpression r ts pos = jv_parseAssignment r ts pos"

subsection \<open>Statements\<close>

text \<open>\<^verbatim>\<open>parseBlock\<close>, \<^verbatim>\<open>parseIf\<close> and \<^verbatim>\<open>parseWhile\<close> read as in the C parser; the functions of
  that model are used with the table of this parser.\<close>

definition jv_parseReturn :: "rec_table \<Rightarrow> Token list \<Rightarrow> nat \<Rightarrow> (IRNode \<times> nat) res" where
  "jv_parseReturn r ts pos =
     (let p1 = consume_val ts pos KEYWORD ''return''
      in if match_val ts p1 PUNCTUATION '';'' then Ok (IRReturn None, p1 + 1)
         else bind_res (jv_parseExpression r ts p1) (\<lambda>(v, p).
                Ok (IRReturn (Some v), consume_val ts p PUNCTUATION '';'')))"

definition jv_parsePrintln :: "rec_table \<Rightarrow> Token list \<Rightarrow> nat \<Rightarrow> (IRNode \<times> nat) res" where
  "jv_parsePrintln r ts pos =
     (let p1 = consume_val ts pos IDENTIFIER ''System'';
          p2 = consume_val ts p1 PUNCTUATION ''.'';
          p3 = consume_val ts p2 IDENTIFIER ''out'';
          p4 = consume_val ts p3 PUNCTUATION ''.'';
          newline = (tok_value ts p4 = ''println'');
          p5 = consume_val ts (p4 + 1) PUNCTUATION ''(''
      in bind_res (args_loop (jv_parseExpression r ts) ts (budget r) [] p5) (\<lambda>(args, p).
           Ok (IRPrint args (Some newline),
               consume_val ts (consume_val ts p PUNCTUATION '')'') PUNCTUATION '';'')))"

definition jv_parseLocalVariable :: "rec_table \<Rightarrow> Token list \<Rightarrow> nat \<Rightarrow> (IRNode \<times> nat) res" where
  "jv_parseLocalVariable r ts pos =
     (case peek ts pos of
        None \<Rightarrow> Ok (IRVariable ''unknown'' T_int None, pos + 1)
      | Some typeToken \<Rightarrow>
          (let dataType = mapJavaType (tvalue typeToken); p1 = pos + 1
           in if \<not> match_tok ts p1 IDENTIFIER then Ok (IRVariable ''unknown'' dataType None, p1)
              else if match_val ts (p1 + 1) PUNCTUATION ''='' then
                bind_res (jv_parseExpression r ts (p1 + 2)) (\<lambda>(v, p).
                  Ok (IRVariable (tok_value ts p1) dataType (Some v),
                      consume_val ts p PUNCTUATION '';''))
              else Ok (IRVariable (tok_value ts p1) dataType None,
                       consume_val ts (p1 + 1) PUNCTUATION '';'')))"

definition jv_for_rangeStep :: "IRNode option \<Rightarrow> IRNode option" where
  "jv_for_rangeStep update =
     (case update of
        Some (IRUnaryOp op operand) \<Rightarrow>
          (if op = ''++'' \<or> op = ''++_post'' then Some (lit_int 1) else None)
      | Some (IRBinaryOp op l rt) \<Rightarrow> (if op = ''+='' then Some rt else None)
      | _ \<Rightarrow> None)"

definition jv_parseFor :: "rec_table \<Rightarrow> Token list \<Rightarrow> nat \<Rightarrow> (IRNode \<times> nat) res" where
  "jv_parseFor r ts pos =
     (let p1 = consume_val ts pos KEYWORD ''for'';
          p2 = consume_val ts p1 PUNCTUATION ''(''
      in bind_res
           (if \<not> match_val ts p2 PUNCTUATION '';'' then
              (if jv_isType_at ts p2 then
                 bind_res (jv_parseLocalVariable r ts p2) (\<lambda>(v, p). Ok (Some v, p))
               else
                 bind_res (rec_expression r ts p2) (\<lambda>(e, p).
                   Ok (Some e, consume_val ts p PUNCTUATION '';'')))
            else Ok (None, p2 + 1))
           (\<lambda>(init, p3).
         bind_res
           (if \<not> match_val ts p3 PUNCTUATION '';'' then
              bind_res (rec_expression r ts p3) (\<lambda>(e, p). Ok (Some e, p))
            else Ok (None, p3))
           (\<lambda>(condition, p4).
         bind_res
           (let p5 = consume_val ts p4 PUNCTUATION '';''
            in if \<not> match_val ts p5 PUNCTUATION '')'' then
                 bind_res (rec_expression r ts p5) (\<lambda>(e, p). Ok (Some e, p))
               else Ok (None, p5))
           (\<lambda>(update, p6).
         bind_res (parseBlock r ts (consume_val ts p6 PUNCTUATION '')'')) (\<lambda>(body, p7).
           Ok (IRFor init condition update (for_iterator init) (for_rangeStart init)
                 (for_rangeEnd condition) (jv_for_rangeStep update) body, p7))))))"

definition jv_parseStatement ::
  "rec_table \<Rightarrow> Token list \<Rightarrow> nat \<Rightarrow> (IRNode option \<times> nat) res" where
  "jv_parseStatement r ts pos =
     (if match_tok ts pos COMMENT then
        Ok (Some (IRComment (js_trim (tok_value ts pos)) None), pos + 1)
      else if match_tok ts pos MULTILINE_COMMENT then
        Ok (Some (IRComment (js_trim (tok_value ts pos)) (Some True)), pos + 1)
      else bind_res
        (if match_val ts pos KEYWORD ''if'' then parseIf r ts pos
         else if match_val ts pos KEYWORD ''for'' then jv_parseFor r ts pos
         else if match_val ts pos KEYWORD ''while'' then parseWhile r ts pos
         else if match_val ts pos KEYWORD ''return'' then jv_parseReturn r ts pos
         else if match_val ts pos IDENTIFIER ''System'' then jv_parsePrintln r ts pos
         else if jv_isType_at ts pos then jv_parseLocalVariable r ts pos
         else bind_res (jv_parseExpression r ts pos) (\<lambda>(expr, p).
                Ok (expr, consume_val ts p PUNCTUATION '';'')))
        (\<lambda>(node, p). Ok (Some node, p)))"

text \<open>The table for a budget.\<close>

primrec jv_table :: "nat \<Rightarrow> rec_table" where
  "jv_table 0 =
     \<lparr> budget = 0,
       rec_expression = (\<lambda>ts pos. OutOfFuel), rec_assignment = (\<lambda>ts pos. OutOfFuel),
       rec_unary = (\<lambda>ts pos. OutOfFuel), rec_statement = (\<lambda>ts pos. OutOfFuel),
       rec_if = (\<lambda>ts pos. OutOfFuel) \<rparr>"
| "jv_table (Suc n) =
     (let t = jv_table n
      in \<lparr> budget = Suc n,
           rec_expression = jv_parseExpression t,
           rec_assignment = jv_parseAssignment t,
           rec_unary = jv_parseUnary t,
           rec_statement = jv_parseStatement t,
           rec_if = parseIf t \<rparr>)"

subsection \<open>Classes and the top level\<close>

text \<open>\<^verbatim>\<open>JavaParser.parseParams\<close>: one iteration reads a type token, an optional \<^verbatim>\<open>[]\<close>, an
  optional name, and goes on after a comma.\<close>

fun jv_params_loop :: "Token list \<Rightarrow> nat \<Rightarrow> IRVar list \<Rightarrow> nat \<Rightarrow> IRVar list \<times> nat" where
  "jv_params_loop ts 0 params pos = (params, pos)"
| "jv_params_loop ts (Suc k) params pos =
     (if match_val ts pos PUNCTUATION '')'' then (params, pos)
      else case peek ts pos of
        None \<Rightarrow> (params, pos + 1)
      | Some typeToken \<Rightarrow>
          (let p1 = pos + 1;
               p2 = (if match_val ts p1 PUNCTUATION ''[''
                     then consume_val ts (p1 + 1) PUNCTUATION '']'' else p1);
               params' = (if match_tok ts p2 IDENTIFIER
                          then params @ [(tok_value ts p2, mapJavaType (tvalue typeToken), None)]
                          else params);
               p3 = consume_tok ts p2 IDENTIFIER
           in if match_val ts p3 PUNCTUATION '','' then jv_params_loop ts k params' (p3 + 1)
              else (params', p3)))"

text \<open>Every iteration reads a token, so the number of tokens bounds the iterations.\<close>

definition jv_parseParams :: "Token list \<Rightarrow> nat \<Rightarrow> IRVar list \<times> nat" where
  "jv_parseParams ts pos = jv_params_loop ts (Suc (length ts)) [] pos"

text \<open>\<^verbatim>\<open>parseConstructor\<close> and \<^verbatim>\<open>parseMethod\<close>: the function as the tuple of its name,
  parameters, return type and body.\<close>

definition jv_parseConstructor :: "rec_table \<Rightarrow> Token list \<Rightarrow> nat \<Rightarrow> (IRFun \<times> nat) res" where
  "jv_parseConstructor r ts pos =
     (let p1 = consume_val ts (consume_tok ts pos IDENTIFIER) PUNCTUATION ''('';
          (params, p2) = jv_parseParams ts p1
      in bind_res (parseBlock r ts (consume_val ts p2 PUNCTUATION '')'')) (\<lambda>(body, p).
           Ok ((''__init__'', params, T_void, body), p)))"

definition jv_parseMethod ::
  "rec_table \<Rightarrow> string \<Rightarrow> DataType \<Rightarrow> Token list \<Rightarrow> nat \<Rightarrow> (IRNode \<times> nat) res" where
  "jv_parseMethod r name returnType ts pos =
     (let p1 = consume_val ts pos PUNCTUATION ''('';
          (params, p2) = jv_parseParams ts p1
      in bind_res (parseBlock r ts (consume_val ts p2 PUNCTUATION '')'')) (\<lambda>(body, p).
           Ok (IRFunction name params returnType body, p)))"

definition jv_parseField ::
  "rec_table \<Rightarrow> string \<Rightarrow> DataType \<Rightarrow> Token list \<Rightarrow> nat \<Rightarrow> (IRNode \<times> nat) res" where
  "jv_parseField r name dataType ts pos =
     (if match_val ts pos PUNCTUATION ''='' then
        bind_res (jv_parseExpression r ts (pos + 1)) (\<lambda>(v, p).
          Ok (IRVariable name dataType (Some v), consume_val ts p PUNCTUATION '';''))
      else Ok (IRVariable name dataType None, consume_val ts pos PUNCTUATION '';''))"

definition jv_parseMethodOrField ::
  "rec_table \<Rightarrow> Token list \<Rightarrow> nat \<Rightarrow> (IRNode option \<times> nat) res" where
  "jv_parseMethodOrField r ts pos =
     (case peek ts pos of
        None \<Rightarrow> Ok (None, pos + 1)
      | Some typeToken \<Rightarrow>
          (let dataType = mapJavaType (tvalue typeToken); p1 = pos + 1
           in if \<not> match_tok ts p1 IDENTIFIER then Ok (None, p1)
              else bind_res
                (if match_val ts (p1 + 1) PUNCTUATION ''(''
                 then jv_parseMethod r (tok_value ts p1) dataType ts (p1 + 1)
                 else jv_parseField r (tok_value ts p1) dataType ts (p1 + 1))
                (\<lambda>(node, p). Ok (Some node, p))))"

definition jv_isClassModifier :: "Token \<Rightarrow> bool" where
  "jv_isClassModifier t = (ttype t = KEYWORD
     \<and> tvalue t \<in> set [''public'', ''private'', ''protected'', ''static'', ''final''])"

definition jv_isTopModifier :: "Token \<Rightarrow> bool" where
  "jv_isTopModifier t = (ttype t = KEYWORD
     \<and> tvalue t \<in> set [''public'', ''private'', ''protected'', ''static'', ''final'',
                        ''abstract''])"

text \<open>
  The loop over the body of a class in \<^verbatim>\<open>parseClass\<close>. The state is the four variables
  \<^verbatim>\<open>members\<close>, \<^verbatim>\<open>methods\<close>, \<^verbatim>\<open>constructor\<close> and \<^verbatim>\<open>mainMethod\<close>. A member that is a function
  becomes \<^verbatim>\<open>mainMethod\<close> when its name is \<^verbatim>\<open>main\<close> and \<^verbatim>\<open>static\<close> was among its modifiers;
  every other function is pushed to \<^verbatim>\<open>methods\<close>.
\<close>

fun jv_class_loop ::
  "rec_table \<Rightarrow> string \<Rightarrow> Token list \<Rightarrow> nat
   \<Rightarrow> IRVar list \<times> IRFun list \<times> IRFun option \<times> IRFun option \<Rightarrow> nat
   \<Rightarrow> ((IRVar list \<times> IRFun list \<times> IRFun option \<times> IRFun option) \<times> nat) res" where
  "jv_class_loop r name ts 0 st pos = OutOfFuel"
| "jv_class_loop r name ts (Suc k) (members, methods, ctor, mainMethod) pos =
     (if \<not> match_val ts pos PUNCTUATION ''}'' \<and> pos < length ts then
        (let isStatic = (\<exists>t \<in> set (takeWhile jv_isClassModifier (drop pos ts)).
                           tvalue t = ''static'');
             p1 = skip_while jv_isClassModifier ts pos
         in if match_val ts p1 IDENTIFIER name then
              bind_res (jv_parseConstructor r ts p1) (\<lambda>(f, p).
                jv_class_loop r name ts k (members, methods, Some f, mainMethod) p)
            else if jv_isType_at ts p1 then
              bind_res (jv_parseMethodOrField r ts p1) (\<lambda>(memberOrMethod, p).
                (case memberOrMethod of
                   Some (IRFunction fname ps rt fbody) \<Rightarrow>
                     if fname = ''main'' \<and> isStatic then
                       jv_class_loop r name ts k
                         (members, methods, ctor, Some (fname, ps, rt, fbody)) p
                     else
                       jv_class_loop r name ts k
                         (members, methods @ [(fname, ps, rt, fbody)], ctor, mainMethod) p
                 | Some (IRVariable vname dt v) \<Rightarrow>
                     jv_class_loop r name ts k
                       (members @ [(vname, dt, v)], methods, ctor, mainMethod) p
                 | _ \<Rightarrow> jv_class_loop r name ts k (members, methods, ctor, mainMethod) p))
            else jv_class_loop r name ts k (members, methods, ctor, mainMethod) (p1 + 1))
      else Ok ((members, methods, ctor, mainMethod), pos))"

text \<open>\<^verbatim>\<open>while (match extends or implements) { advance(); consume(IDENTIFIER) }\<close>.\<close>

fun jv_skip_extends :: "Token list \<Rightarrow> nat \<Rightarrow> nat \<Rightarrow> nat" where
  "jv_skip_extends ts 0 pos = pos"
| "jv_skip_extends ts (Suc k) pos =
     (if match_val ts pos KEYWORD ''extends'' \<or> match_val ts pos KEYWORD ''implements''
      then jv_skip_extends ts k (consume_tok ts (pos + 1) IDENTIFIER)
      else pos)"

text \<open>
  \<^verbatim>\<open>JavaParser.parseClass\<close>. The object literal of the result has the property
  \<^verbatim>\<open>constructor\<close> in every case; \<^verbatim>\<open>mainMethod\<close> is added when one was found; no statement
  writes \<^verbatim>\<open>staticMethods\<close>.
\<close>

definition jv_parseClass :: "rec_table \<Rightarrow> Token list \<Rightarrow> nat \<Rightarrow> (IRNode \<times> nat) res" where
  "jv_parseClass r ts pos =
     (let p1 = consume_val ts pos KEYWORD ''class'';
          name = (if match_tok ts p1 IDENTIFIER \<and> tok_value ts p1 \<noteq> []
                  then tok_value ts p1 else ''Unknown'');
          p2 = consume_tok ts p1 IDENTIFIER;
          p3 = jv_skip_extends ts (length ts) p2;
          p4 = consume_val ts p3 PUNCTUATION ''{''
      in bind_res (jv_class_loop r name ts (budget r) ([], [], None, None) p4)
           (\<lambda>((members, methods, ctor, mainMethod), p).
              Ok (IRClass name members methods (Own ctor) mainMethod None,
                  consume_val ts p PUNCTUATION ''}'')))"

definition jv_parseTopLevel ::
  "rec_table \<Rightarrow> Token list \<Rightarrow> nat \<Rightarrow> (IRNode option \<times> nat) res" where
  "jv_parseTopLevel r ts pos =
     (if match_tok ts pos COMMENT then
        Ok (Some (IRComment (js_trim (tok_value ts pos)) None), pos + 1)
      else if match_tok ts pos MULTILINE_COMMENT then
        Ok (Some (IRComment (js_trim (tok_value ts pos)) (Some True)), pos + 1)
      else
        (let p1 = skip_while jv_isTopModifier ts pos
         in if match_val ts p1 KEYWORD ''class'' then
              bind_res (jv_parseClass r ts p1) (\<lambda>(node, p). Ok (Some node, p))
            else if jv_isType_at ts p1 then jv_parseMethodOrField r ts p1
            else Ok (None, p1 + 1)))"

text \<open>\<^verbatim>\<open>parseImport\<close>: the keyword, a space, and the values of the tokens up to the
  semicolon.\<close>

definition jv_parseImport :: "Token list \<Rightarrow> nat \<Rightarrow> string \<times> nat" where
  "jv_parseImport ts pos =
     (let stop = (\<lambda>t. \<not> (ttype t = PUNCTUATION \<and> tvalue t = '';''));
          p = skip_while stop ts (pos + 1)
      in (tok_value ts pos @ '' '' @ concat (map tvalue (takeWhile stop (drop (pos + 1) ts))),
          consume_val ts p PUNCTUATION '';''))"

text \<open>The loop of \<^verbatim>\<open>JavaParser.parse\<close>.\<close>

fun jv_parse_loop ::
  "rec_table \<Rightarrow> Token list \<Rightarrow> nat \<Rightarrow> IRNode list \<Rightarrow> string list \<Rightarrow> nat \<Rightarrow> IRProgram res" where
  "jv_parse_loop r ts 0 body imps pos = OutOfFuel"
| "jv_parse_loop r ts (Suc k) body imps pos =
     (if pos < length ts then
        (if match_val ts pos KEYWORD ''package'' \<or> match_val ts pos KEYWORD ''import'' then
           (let (importStmt, p) = jv_parseImport ts pos
            in jv_parse_loop r ts k body (imps @ [importStmt]) p)
         else bind_res (jv_parseTopLevel r ts pos) (\<lambda>(node, p).
                jv_parse_loop r ts k (body @ option_list node) imps p))
      else Ok \<lparr> pbody = body, pimports = imps \<rparr>)"

text \<open>The handler of a parser that catches every exception and returns the empty
  program.\<close>

fun catch_all :: "IRProgram res \<Rightarrow> IRProgram res" where
  "catch_all (Throw e) = Ok \<lparr> pbody = [], pimports = [] \<rparr>"
| "catch_all m = m"

definition JavaParser_parse :: "nat \<Rightarrow> string \<Rightarrow> IRProgram res" where
  "JavaParser_parse fuel code =
     catch_all (jv_parse_loop (jv_table fuel) (jv_tokenize code) fuel [] [] 0)"

section \<open>The CPP front-end (parsers/cpp-parser.ts)\<close>

definition cpp_keywords :: "string list" where
  "cpp_keywords = [''int'', ''float'', ''double'', ''char'', ''void'', ''bool'', ''auto'', ''if'',
                   ''else'', ''for'', ''while'', ''switch'', ''case'', ''default'', ''break'',
                   ''return'', ''class'', ''struct'', ''public'', ''private'', ''protected'',
                   ''const'', ''static'', ''virtual'', ''new'', ''delete'', ''this'', ''nullptr'',
                   ''true'', ''false'', ''using'', ''namespace'', ''std'', ''cout'', ''cin'',
                   ''endl'', ''string'']"

definition cpp_operators :: "string list" where
  "cpp_operators = [''<<'', ''>>'', ''=='', ''!='', ''<='', ''>='', ''&&'', ''||'', ''++'', ''--'',
                    ''->'', ''::'', ''+='', ''-='', ''*='', ''/='']"

text \<open>\<^verbatim>\<open>CppParser.tokenize\<close>, on the input that is left.\<close>

function cpp_tokenize :: "string \<Rightarrow> Token list" where
  "cpp_tokenize [] = []"
| "cpp_tokenize (x # xs) =
     (if is_space x then cpp_tokenize xs
      else if x = CHR ''#'' then
        mk PREPROCESSOR (takeWhile (\<lambda>ch. ch \<noteq> CHR 0x0A) (x # xs))
          # cpp_tokenize (dropWhile (\<lambda>ch. ch \<noteq> CHR 0x0A) xs)
      else if take 2 (x # xs) = ''//'' then
        mk COMMENT (takeWhile (\<lambda>ch. ch \<noteq> CHR 0x0A) (drop 1 xs))
          # cpp_tokenize (dropWhile (\<lambda>ch. ch \<noteq> CHR 0x0A) (drop 1 xs))
      else if take 2 (x # xs) = ''/*'' then
        mk MULTILINE_COMMENT (fst (scan_block_comment (drop 1 xs)))
          # cpp_tokenize (drop 2 (snd (scan_block_comment (drop 1 xs))))
      else if x = CHR 0x22 then
        mk STRING (x # fst (scan_quoted x xs) @ [x])
          # cpp_tokenize (drop 1 (snd (scan_quoted x xs)))
      else if x = CHR 0x27 then
        mk CHAR_TOK (x # fst (scan_quoted x xs) @ [x])
          # cpp_tokenize (drop 1 (snd (scan_quoted x xs)))
      else if is_digit x then
        mk NUMBER (fst (match_number ''fFlL'' (x # xs)))
          # cpp_tokenize (snd (match_number ''fFlL'' (x # xs)))
      else if is_word_start x then
        (let w = takeWhile is_word_char (x # xs)
         in mk (if w \<in> set cpp_keywords then KEYWORD else IDENTIFIER) w
              # cpp_tokenize (dropWhile is_word_char xs))
      else if take 2 (x # xs) \<in> set cpp_operators then
        mk OPERATOR (take 2 (x # xs)) # cpp_tokenize (drop 1 xs)
      else mk PUNCTUATION [x] # cpp_tokenize xs)"
  by pat_completeness auto

termination cpp_tokenize
proof (relation "measure length", goal_cases)
  case 1
  show ?case by simp
next
  case (2 x xs)
  show ?case by simp
next
  case (3 x xs)
  show ?case using length_dropWhile_le[of "\<lambda>ch. ch \<noteq> CHR 0x0A" xs] by simp
next
  case (4 x xs)
  show ?case using length_dropWhile_le[of "\<lambda>ch. ch \<noteq> CHR 0x0A" "drop 1 xs"] by simp
next
  case (5 x xs)
  show ?case using scan_block_comment_len[of "drop 1 xs"] by simp
next
  case (6 x xs)
  show ?case using scan_quoted_len[of x xs] by simp
next
  case (7 x xs)
  show ?case using scan_quoted_len[of x xs] by simp
next
  case (8 x xs)
  then show ?case using match_number_digit_len[of x "''fFlL''" xs] by simp
next
  case (9 x xs)
  show ?case using length_dropWhile_le[of is_word_char xs] by simp
next
  case (10 x xs)
  show ?case by simp
next
  case (11 x xs)
  show ?case by simp
qed

subsection \<open>Type names\<close>

definition mapCppType :: "string \<Rightarrow> DataType" where
  "mapCppType = lookup_type
     [(''int'', T_int), (''float'', T_float), (''double'', T_double), (''char'', T_char),
      (''void'', T_void), (''bool'', T_bool), (''auto'', T_auto), (''string'', T_string)] T_auto"

definition cpp_isType :: "Token \<Rightarrow> bool" where
  "cpp_isType t =
     ((ttype t = KEYWORD
        \<and> tvalue t \<in> set [''int'', ''float'', ''double'', ''char'', ''void'', ''bool'', ''auto'',
                           ''const'', ''static'', ''string'', ''unsigned'', ''signed'', ''long'',
                           ''short''])
      \<or> (ttype t = IDENTIFIER \<and> tvalue t = ''string'')
      \<or> (ttype t = IDENTIFIER \<and> tvalue t = ''std''))"

definition cpp_isType_at :: "Token list \<Rightarrow> nat \<Rightarrow> bool" where
  "cpp_isType_at ts pos = (case peek ts pos of None \<Rightarrow> False | Some t \<Rightarrow> cpp_isType t)"

text \<open>
  The type at a position that holds a token: the mapped type and the position after it.
  After \<^verbatim>\<open>std\<close> and \<^verbatim>\<open>::\<close> the next token names the type; then an optional \<^verbatim>\<open>*\<close> and an
  optional \<^verbatim>\<open>&\<close> are read.
\<close>

definition cpp_type_at :: "Token list \<Rightarrow> nat \<Rightarrow> DataType \<times> nat" where
  "cpp_type_at ts pos =
     (let (dataType, p) =
            (if tok_value ts pos = ''std'' \<and> match_val ts (pos + 1) OPERATOR ''::''
             then (mapCppType (tok_value ts (pos + 2)), pos + 3)
             else (mapCppType (tok_value ts pos), pos + 1))
      in (dataType, consume_val ts (consume_val ts p PUNCTUATION ''*'') PUNCTUATION ''&''))"

subsection \<open>Expressions\<close>

definition cpp_number :: "string \<Rightarrow> IRNode" where
  "cpp_number tok =
     (let v = filter (\<lambda>ch. ch \<notin> set ''fFlL'') tok
      in if CHR ''.'' \<in> set v then IRLiteral (V_float (js_float_text v)) T_float None
         else IRLiteral (V_num (js_parseInt v)) T_int None)"

definition cpp_parsePrimary :: "rec_table \<Rightarrow> Token list \<Rightarrow> nat \<Rightarrow> (IRNode \<times> nat) res" where
  "cpp_parsePrimary r ts pos =
     (if match_val ts pos PUNCTUATION ''('' then
        bind_res (rec_expression r ts (pos + 1)) (\<lambda>(expr, p).
          Ok (expr, consume_val ts p PUNCTUATION '')''))
      else if match_tok ts pos STRING then
        Ok (IRLiteral (V_str (slice_1_m1 (tok_value ts pos))) T_string None, pos + 1)
      else if match_tok ts pos CHAR_TOK then
        Ok (IRLiteral (V_str (slice_1_m1 (tok_value ts pos))) T_char None, pos + 1)
      else if match_tok ts pos NUMBER then Ok (cpp_number (tok_value ts pos), pos + 1)
      else if match_val ts pos KEYWORD ''true'' then
        Ok (IRLiteral (V_bool True) T_bool None, pos + 1)
      else if match_val ts pos KEYWORD ''false'' then
        Ok (IRLiteral (V_bool False) T_bool None, pos + 1)
      else if match_val ts pos KEYWORD ''nullptr'' then
        Ok (IRLiteral (V_str ''null'') T_void None, pos + 1)
      else if match_tok ts pos IDENTIFIER \<or> match_tok ts pos KEYWORD then
        (let name = tok_value ts pos; p1 = pos + 1
         in if match_val ts p1 PUNCTUATION ''('' then
              bind_res (args_loop (rec_expression r ts) ts (budget r) [] (p1 + 1)) (\<lambda>(args, p).
                Ok (IRCall name args None None, consume_val ts p PUNCTUATION '')''))
            else Ok (IRIdentifier name, p1))
      else Ok (IRLiteral (V_str []) T_string None, pos + 1))"

text \<open>The loop of \<^verbatim>\<open>parsePostfix\<close> reads as in the C parser.\<close>

definition cpp_parsePostfix :: "rec_table \<Rightarrow> Token list \<Rightarrow> nat \<Rightarrow> (IRNode \<times> nat) res" where
  "cpp_parsePostfix r ts pos =
     bind_res (cpp_parsePrimary r ts pos) (\<lambda>(expr, p). c_postfix_loop ts (budget r) expr p)"

definition cpp_parseUnary :: "rec_table \<Rightarrow> Token list \<Rightarrow> nat \<Rightarrow> (IRNode \<times> nat) res" where
  "cpp_parseUnary r ts pos =
     (if match_any ts pos [(PUNCTUATION, ''!''), (PUNCTUATION, ''-''), (OPERATOR, ''++''),
                           (OPERATOR, ''--'')] then
        bind_res (rec_unary r ts (pos + 1)) (\<lambda>(operand, p).
          Ok (IRUnaryOp (tok_value ts pos) operand, p))
      else cpp_parsePostfix r ts pos)"

definition cpp_parseMulDiv :: "rec_table \<Rightarrow> Token list \<Rightarrow> nat \<Rightarrow> (IRNode \<times> nat) res" where
  "cpp_parseMulDiv r ts pos =
     bind_res (cpp_parseUnary r ts pos) (\<lambda>(left, p).
       binary_loop (cpp_parseUnary r ts)
         [(PUNCTUATION, ''*''), (PUNCTUATION, ''/''), (PUNCTUATION, ''%'')] ts (budget r) left p)"

definition cpp_parseAddSub :: "rec_table \<Rightarrow> Token list \<Rightarrow> nat \<Rightarrow> (IRNode \<times> nat) res" where
  "cpp_parseAddSub r ts pos =
     bind_res (cpp_parseMulDiv r ts pos) (\<lambda>(left, p).
       binary_loop (cpp_parseMulDiv r ts)
         [(PUNCTUATION, ''+''), (PUNCTUATION, ''-'')] ts (budget r) left p)"

definition cpp_parseComparison :: "rec_table \<Rightarrow> Token list \<Rightarrow> nat \<Rightarrow> (IRNode \<times> nat) res" where
  "cpp_parseComparison r ts pos =
     bind_res (cpp_parseAddSub r ts pos) (\<lambda>(left, p).
       binary_loop (cpp_parseAddSub r ts)
         [(OPERATOR, ''==''), (OPERATOR, ''!=''), (PUNCTUATION, ''<''), (PUNCTUATION, ''>''),
          (OPERATOR, ''<=''), (OPERATOR, ''>='')] ts (budget r) left p)"

definition cpp_parseLogicalAnd :: "rec_table \<Rightarrow> Token list \<Rightarrow> nat \<Rightarrow> (IRNode \<times> nat) res" where
  "cpp_parseLogicalAnd r ts pos =
     bind_res (cpp_parseComparison r ts pos) (\<lambda>(left, p).
       binary_loop (cpp_parseComparison r ts) [(OPERATOR, ''&&'')] ts (budget r) left p)"

definition cpp_parseLogicalOr :: "rec_table \<Rightarrow> Token list \<Rightarrow> nat \<Rightarrow> (IRNode \<times> nat) res" where
  "cpp_parseLogicalOr r ts pos =
     bind_res (cpp_parseLogicalAnd r ts pos) (\<lambda>(left, p).
       binary_loop (cpp_parseLogicalAnd r ts) [(OPERATOR, ''||'')] ts (budget r) left p)"

definition cpp_parseAssignment :: "rec_table \<Rightarrow> Token list \<Rightarrow> nat \<Rightarrow> (IRNode \<times> nat) res" where
  "cpp_parseAssignment r ts pos =
     bind_res (cpp_parseLogicalOr r ts pos) (\<lambda>(left, p).
       if match_any ts p [(PUNCTUATION, ''=''), (OPERATOR, ''+=''), (OPERATOR, ''-=''),
                          (OPERATOR, ''*=''), (OPERATOR, ''/='')] then
         bind_res (rec_assignment r ts (p + 1)) (\<lambda>(right, p').
           Ok (IRBinaryOp (tok_value ts p) left right, p'))
       else Ok (left, p))"

definition cpp_parseExpression :: "rec_table \<Rightarrow> Token list \<Rightarrow> nat \<Rightarrow> (IRNode \<times> nat) res" where
  "cpp_parseExpression r ts pos = cpp_parseAssignment r ts pos"

subsection \<open>Statements\<close>

text \<open>\<^verbatim>\<open>parseBlock\<close>, \<^verbatim>\<open>parseIf\<close> and \<^verbatim>\<open>parseWhile\<close> read as in the C parser, the range fields
  of \<^verbatim>\<open>parseFor\<close> as in the JV parser.\<close>

definition cpp_parseReturn :: "rec_table \<Rightarrow> Token list \<Rightarrow> nat \<Rightarrow> (IRNode \<times> nat) res" where
  "cpp_parseReturn r ts pos =
     (let p1 = consume_val ts pos KEYWORD ''return''
      in if match_val ts p1 PUNCTUATION '';'' then Ok (IRReturn None, p1 + 1)
         else bind_res (cpp_parseExpression r ts p1) (\<lambda>(v, p).
                Ok (IRReturn (Some v), consume_val ts p PUNCTUATION '';'')))"

text \<open>The position after an optional \<^verbatim>\<open>std ::\<close>.\<close>

definition cpp_skip_std :: "Token list \<Rightarrow> nat \<Rightarrow> nat" where
  "cpp_skip_std ts pos =
     (if match_val ts pos KEYWORD ''std'' then consume_val ts (pos + 1) OPERATOR ''::'' else pos)"

text \<open>
  The loop of \<^verbatim>\<open>parseCout\<close> over the \<^verbatim>\<open><<\<close> operators: \<^verbatim>\<open>endl\<close>, with or without \<^verbatim>\<open>std ::\<close>,
  sets the flag; everything else is an argument.
\<close>

fun cpp_cout_loop ::
  "(nat \<Rightarrow> (IRNode \<times> nat) res) \<Rightarrow> Token list \<Rightarrow> nat \<Rightarrow> IRNode list \<Rightarrow> bool \<Rightarrow> nat
   \<Rightarrow> ((IRNode list \<times> bool) \<times> nat) res" where
  "cpp_cout_loop sub ts 0 args newline pos = OutOfFuel"
| "cpp_cout_loop sub ts (Suc k) args newline pos =
     (if match_val ts pos OPERATOR ''<<'' then
        (let p1 = (if match_val ts (pos + 1) KEYWORD ''endl''
                      \<or> match_val ts (pos + 1) KEYWORD ''std''
                   then cpp_skip_std ts (pos + 1) else pos + 1)
         in if (match_val ts (pos + 1) KEYWORD ''endl'' \<or> match_val ts (pos + 1) KEYWORD ''std'')
               \<and> match_val ts p1 KEYWORD ''endl''
            then cpp_cout_loop sub ts k args True (p1 + 1)
            else bind_res (sub p1) (\<lambda>(arg, p). cpp_cout_loop sub ts k (args @ [arg]) newline p))
      else Ok ((args, newline), pos))"

definition cpp_parseCout :: "rec_table \<Rightarrow> Token list \<Rightarrow> nat \<Rightarrow> (IRNode \<times> nat) res" where
  "cpp_parseCout r ts pos =
     (let p1 = consume_val ts (cpp_skip_std ts pos) KEYWORD ''cout''
      in bind_res (cpp_cout_loop (cpp_parseExpression r ts) ts (budget r) [] False p1)
           (\<lambda>((args, newline), p).
              Ok (IRPrint args (Some newline), consume_val ts p PUNCTUATION '';'')))"

definition cpp_parseCin :: "Token list \<Rightarrow> nat \<Rightarrow> IRNode \<times> nat" where
  "cpp_parseCin ts pos =
     (let p1 = consume_val ts (consume_val ts (cpp_skip_std ts pos) KEYWORD ''cin'')
                 OPERATOR ''>>''
      in if match_tok ts p1 IDENTIFIER
         then (IRInput None (Some (tok_value ts p1)) None,
               consume_val ts (p1 + 1) PUNCTUATION '';'')
         else (IRInput None None None, consume_val ts p1 PUNCTUATION '';''))"

definition cpp_isModifier :: "Token \<Rightarrow> bool" where
  "cpp_isModifier t = (ttype t = KEYWORD \<and> (tvalue t = ''const'' \<or> tvalue t = ''static''))"

text \<open>What follows the name of a variable, a member or a field: an optional initializer
  and an optional semicolon.\<close>

definition cpp_parseVariableDecl ::
  "rec_table \<Rightarrow> string \<Rightarrow> DataType \<Rightarrow> Token list \<Rightarrow> nat \<Rightarrow> (IRNode \<times> nat) res" where
  "cpp_parseVariableDecl r name dataType ts pos =
     (if match_val ts pos PUNCTUATION ''='' then
        bind_res (cpp_parseExpression r ts (pos + 1)) (\<lambda>(v, p).
          Ok (IRVariable name dataType (Some v), consume_val ts p PUNCTUATION '';''))
      else Ok (IRVariable name dataType None, consume_val ts pos PUNCTUATION '';''))"

definition cpp_parseLocalVariable :: "rec_table \<Rightarrow> Token list \<Rightarrow> nat \<Rightarrow> (IRNode \<times> nat) res" where
  "cpp_parseLocalVariable r ts pos =
     (let p0 = skip_while cpp_isModifier ts pos
      in case peek ts p0 of
           None \<Rightarrow> Ok (IRVariable ''unknown'' T_int None, p0 + 1)
         | Some typeToken \<Rightarrow>
             (let (dataType, p1) = cpp_type_at ts p0
              in if \<not> match_tok ts p1 IDENTIFIER then Ok (IRVariable ''unknown'' dataType None, p1)
                 else cpp_parseVariableDecl r (tok_value ts p1) dataType ts (p1 + 1)))"

definition cpp_parseFor :: "rec_table \<Rightarrow> Token list \<Rightarrow> nat \<Rightarrow> (IRNode \<times> nat) res" where
  "cpp_parseFor r ts pos =
     (let p1 = consume_val ts pos KEYWORD ''for'';
          p2 = consume_val ts p1 PUNCTUATION ''(''
      in bind_res
           (if \<not> match_val ts p2 PUNCTUATION '';'' then
              (if cpp_isType_at ts p2 then
                 bind_res (cpp_parseLocalVariable r ts p2) (\<lambda>(v, p). Ok (Some v, p))
               else
                 bind_res (rec_expression r ts p2) (\<lambda>(e, p).
                   Ok (Some e, consume_val ts p PUNCTUATION '';'')))
            else Ok (None, p2 + 1))
           (\<lambda>(init, p3).
         bind_res
           (if \<not> match_val ts p3 PUNCTUATION '';'' then
              bind_res (rec_expression r ts p3) (\<lambda>(e, p). Ok (Some e, p))
            else Ok (None, p3))
           (\<lambda>(condition, p4).
         bind_res
           (let p5 = consume_val ts p4 PUNCTUATION '';''
            in if \<not> match_val ts p5 PUNCTUATION '')'' then
                 bind_res (rec_expression r ts p5) (\<lambda>(e, p). Ok (Some e, p))
               else Ok (None, p5))
           (\<lambda>(update, p6).
         bind_res (parseBlock r ts (consume_val ts p6 PUNCTUATION '')'')) (\<lambda>(body, p7).
           Ok (IRFor init condition update (for_iterator init) (for_rangeStart init)
                 (for_rangeEnd condition) (jv_for_rangeStep update) body, p7))))))"

text \<open>
  The two inner loops of \<^verbatim>\<open>parseSwitch\<close>, over the statements of a case (\<open>inCase\<close>) or of
  the default branch: a \<^verbatim>\<open>break\<close> is read and ends the loop.
\<close>

fun cpp_case_body_loop ::
  "(nat \<Rightarrow> (IRNode option \<times> nat) res) \<Rightarrow> bool \<Rightarrow> Token list \<Rightarrow> nat \<Rightarrow> IRNode list \<Rightarrow> nat
   \<Rightarrow> (IRNode list \<times> nat) res" where
  "cpp_case_body_loop sub inCase ts 0 stmts pos = OutOfFuel"
| "cpp_case_body_loop sub inCase ts (Suc k) stmts pos =
     (if \<not> match_val ts pos KEYWORD ''case''
         \<and> (if inCase then \<not> match_val ts pos KEYWORD ''default'' else True)
         \<and> \<not> match_val ts pos PUNCTUATION ''}'' \<and> pos < length ts then
        (if match_val ts pos KEYWORD ''break''
         then Ok (stmts, consume_val ts (pos + 1) PUNCTUATION '';'')
         else bind_res (sub pos) (\<lambda>(stmt, p).
                cpp_case_body_loop sub inCase ts k (stmts @ option_list stmt) p))
      else Ok (stmts, pos))"

text \<open>The outer loop of \<^verbatim>\<open>parseSwitch\<close>, with the cases and the default branch read so
  far.\<close>

fun cpp_switch_loop ::
  "rec_table \<Rightarrow> Token list \<Rightarrow> nat
   \<Rightarrow> (IRNode \<times> IRNode list) list \<Rightarrow> IRNode list option \<Rightarrow> nat
   \<Rightarrow> (((IRNode \<times> IRNode list) list \<times> IRNode list option) \<times> nat) res" where
  "cpp_switch_loop r ts 0 cases dflt pos = OutOfFuel"
| "cpp_switch_loop r ts (Suc k) cases dflt pos =
     (if \<not> match_val ts pos PUNCTUATION ''}'' \<and> pos < length ts then
        (if match_val ts pos KEYWORD ''case'' then
           bind_res (cpp_parseExpression r ts (pos + 1)) (\<lambda>(v, p).
           bind_res (cpp_case_body_loop (rec_statement r ts) True ts (budget r) []
                       (consume_val ts p PUNCTUATION '':'')) (\<lambda>(stmts, p').
             cpp_switch_loop r ts k (cases @ [(v, stmts)]) dflt p'))
         else if match_val ts pos KEYWORD ''default'' then
           bind_res (cpp_case_body_loop (rec_statement r ts) False ts (budget r) []
                       (consume_val ts (pos + 1) PUNCTUATION '':'')) (\<lambda>(stmts, p').
             cpp_switch_loop r ts k cases (Some stmts) p')
         else cpp_switch_loop r ts k cases dflt (pos + 1))
      else Ok ((cases, dflt), pos))"

definition cpp_parseSwitch :: "rec_table \<Rightarrow> Token list \<Rightarrow> nat \<Rightarrow> (IRNode \<times> nat) res" where
  "cpp_parseSwitch r ts pos =
     (let p1 = consume_val ts (consume_val ts pos KEYWORD ''switch'') PUNCTUATION ''(''
      in bind_res (cpp_parseExpression r ts p1) (\<lambda>(expression, p2).
         bind_res (cpp_switch_loop r ts (budget r) [] None
                     (consume_val ts (consume_val ts p2 PUNCTUATION '')'') PUNCTUATION ''{''))
           (\<lambda>((cases, dflt), p3).
              Ok (IRSwitch expression cases dflt, consume_val ts p3 PUNCTUATION ''}''))))"

definition cpp_parseStatement ::
  "rec_table \<Rightarrow> Token list \<Rightarrow> nat \<Rightarrow> (IRNode option \<times> nat) res" where
  "cpp_parseStatement r ts pos =
     (if match_tok ts pos COMMENT then
        Ok (Some (IRComment (js_trim (tok_value ts pos)) None), pos + 1)
      else if match_tok ts pos MULTILINE_COMMENT then
        Ok (Some (IRComment (js_trim (tok_value ts pos)) (Some True)), pos + 1)
      else bind_res
        (if match_val ts pos KEYWORD ''if'' then parseIf r ts pos
         else if match_val ts pos KEYWORD ''for'' then cpp_parseFor r ts pos
         else if match_val ts pos KEYWORD ''while'' then parseWhile r ts pos
         else if match_val ts pos KEYWORD ''switch'' then cpp_parseSwitch r ts pos
         else if match_val ts pos KEYWORD ''break'' then
           Ok (IRBreak, consume_val ts (pos + 1) PUNCTUATION '';'')
         else if match_val ts pos KEYWORD ''return'' then cpp_parseReturn r ts pos
         else if match_val ts pos KEYWORD ''std'' \<and> tok_value ts (pos + 1) = ''::''
                 \<and> tok_value ts (pos + 2) = ''cout'' then cpp_parseCout r ts pos
         else if match_val ts pos KEYWORD ''std'' \<and> tok_value ts (pos + 1) = ''::''
                 \<and> tok_value ts (pos + 2) = ''cin'' then Ok (cpp_parseCin ts pos)
         else if match_val ts pos KEYWORD ''cout'' then cpp_parseCout r ts pos
         else if match_val ts pos KEYWORD ''cin'' then Ok (cpp_parseCin ts pos)
         else if cpp_isType_at ts pos then cpp_parseLocalVariable r ts pos
         else bind_res (cpp_parseExpression r ts pos) (\<lambda>(expr, p).
                Ok (expr, consume_val ts p PUNCTUATION '';'')))
        (\<lambda>(node, p). Ok (Some node, p)))"

text \<open>The table for a budget.\<close>

primrec cpp_table :: "nat \<Rightarrow> rec_table" where
  "cpp_table 0 =
     \<lparr> budget = 0,
       rec_expression = (\<lambda>ts pos. OutOfFuel), rec_assignment = (\<lambda>ts pos. OutOfFuel),
       rec_unary = (\<lambda>ts pos. OutOfFuel), rec_statement = (\<lambda>ts pos. OutOfFuel),
       rec_if = (\<lambda>ts pos. OutOfFuel) \<rparr>"
| "cpp_table (Suc n) =
     (let t = cpp_table n
      in \<lparr> budget = Suc n,
           rec_expression = cpp_parseExpression t,
           rec_assignment = cpp_parseAssignment t,
           rec_unary = cpp_parseUnary t,
           rec_statement = cpp_parseStatement t,
           rec_if = parseIf t \<rparr>)"

subsection \<open>Classes and the top level\<close>

text \<open>\<^verbatim>\<open>CppParser.parseParams\<close>.\<close>

fun cpp_params_loop :: "Token list \<Rightarrow> nat \<Rightarrow> IRVar list \<Rightarrow> nat \<Rightarrow> IRVar list \<times> nat" where
  "cpp_params_loop ts 0 params pos = (params, pos)"
| "cpp_params_loop ts (Suc k) params pos =
     (if match_val ts pos PUNCTUATION '')'' then (params, pos)
      else case peek ts pos of
        None \<Rightarrow> (params, pos + 1)
      | Some typeToken \<Rightarrow>
          (let (dataType, p1) = cpp_type_at ts pos;
               params' = (if match_tok ts p1 IDENTIFIER
                          then params @ [(tok_value ts p1, dataType, None)] else params);
               p2 = consume_tok ts p1 IDENTIFIER
           in if match_val ts p2 PUNCTUATION '','' then cpp_params_loop ts k params' (p2 + 1)
              else (params', p2)))"

text \<open>Every iteration reads a token, so the number of tokens bounds the iterations.\<close>

definition cpp_parseParams :: "Token list \<Rightarrow> nat \<Rightarrow> IRVar list \<times> nat" where
  "cpp_parseParams ts pos = cpp_params_loop ts (Suc (length ts)) [] pos"

definition cpp_parseFunctionDef ::
  "rec_table \<Rightarrow> string \<Rightarrow> DataType \<Rightarrow> Token list \<Rightarrow> nat \<Rightarrow> (IRNode \<times> nat) res" where
  "cpp_parseFunctionDef r name returnType ts pos =
     (let p1 = consume_val ts pos PUNCTUATION ''('';
          (params, p2) = cpp_parseParams ts p1
      in bind_res (parseBlock r ts (consume_val ts p2 PUNCTUATION '')'')) (\<lambda>(body, p).
           Ok (IRFunction name params returnType body, p)))"

text \<open>\<^verbatim>\<open>parseMethod\<close> also reads a \<^verbatim>\<open>const\<close> after the parameters.\<close>

definition cpp_parseMethod ::
  "rec_table \<Rightarrow> string \<Rightarrow> DataType \<Rightarrow> Token list \<Rightarrow> nat \<Rightarrow> (IRNode \<times> nat) res" where
  "cpp_parseMethod r name returnType ts pos =
     (let p1 = consume_val ts pos PUNCTUATION ''('';
          (params, p2) = cpp_parseParams ts p1
      in bind_res (parseBlock r ts
                     (consume_val ts (consume_val ts p2 PUNCTUATION '')'') KEYWORD ''const''))
           (\<lambda>(body, p). Ok (IRFunction name params returnType body, p)))"

definition cpp_parseConstructor :: "rec_table \<Rightarrow> Token list \<Rightarrow> nat \<Rightarrow> (IRFun \<times> nat) res" where
  "cpp_parseConstructor r ts pos =
     (let p1 = consume_val ts (consume_tok ts pos IDENTIFIER) PUNCTUATION ''('';
          (params, p2) = cpp_parseParams ts p1;
          p3 = consume_val ts p2 PUNCTUATION '')'';
          p4 = (if match_val ts p3 PUNCTUATION '':''
                then skip_while (\<lambda>t. \<not> (ttype t = PUNCTUATION \<and> tvalue t = ''{'')) ts p3
                else p3)
      in bind_res (parseBlock r ts p4) (\<lambda>(body, p).
           Ok ((''__init__'', params, T_void, body), p)))"

definition cpp_isMemberModifier :: "Token \<Rightarrow> bool" where
  "cpp_isMemberModifier t = (ttype t = KEYWORD
     \<and> (tvalue t = ''const'' \<or> tvalue t = ''static'' \<or> tvalue t = ''virtual''))"

text \<open>\<^verbatim>\<open>parseMemberOrMethod\<close> and \<^verbatim>\<open>parseFunctionOrVariable\<close> differ in the modifiers they
  pass and in the function that reads a function.\<close>

definition cpp_parseMemberOrMethod ::
  "rec_table \<Rightarrow> Token list \<Rightarrow> nat \<Rightarrow> (IRNode option \<times> nat) res" where
  "cpp_parseMemberOrMethod r ts pos =
     (let p0 = skip_while cpp_isMemberModifier ts pos
      in case peek ts p0 of
           None \<Rightarrow> Ok (None, p0 + 1)
         | Some typeToken \<Rightarrow>
             (let (dataType, p1) = cpp_type_at ts p0
              in if \<not> match_tok ts p1 IDENTIFIER then Ok (None, p1)
                 else bind_res
                   (if match_val ts (p1 + 1) PUNCTUATION ''(''
                    then cpp_parseMethod r (tok_value ts p1) dataType ts (p1 + 1)
                    else cpp_parseVariableDecl r (tok_value ts p1) dataType ts (p1 + 1))
                   (\<lambda>(node, p). Ok (Some node, p))))"

definition cpp_parseFunctionOrVariable ::
  "rec_table \<Rightarrow> Token list \<Rightarrow> nat \<Rightarrow> (IRNode option \<times> nat) res" where
  "cpp_parseFunctionOrVariable r ts pos =
     (let p0 = skip_while cpp_isModifier ts pos
      in case peek ts p0 of
           None \<Rightarrow> Ok (None, p0 + 1)
         | Some typeToken \<Rightarrow>
             (let (dataType, p1) = cpp_type_at ts p0
              in if \<not> match_tok ts p1 IDENTIFIER then Ok (None, p1)
                 else bind_res
                   (if match_val ts (p1 + 1) PUNCTUATION ''(''
                    then cpp_parseFunctionDef r (tok_value ts p1) dataType ts (p1 + 1)
                    else cpp_parseVariableDecl r (tok_value ts p1) dataType ts (p1 + 1))
                   (\<lambda>(node, p). Ok (Some node, p))))"

definition cpp_isAccess :: "Token \<Rightarrow> bool" where
  "cpp_isAccess t = (ttype t = KEYWORD
     \<and> (tvalue t = ''public'' \<or> tvalue t = ''private'' \<or> tvalue t = ''protected''))"

text \<open>The loop over the body of a class in \<^verbatim>\<open>parseClass\<close>, with \<^verbatim>\<open>members\<close>, \<^verbatim>\<open>methods\<close> and
  \<^verbatim>\<open>constructor\<close>.\<close>

fun cpp_class_loop ::
  "rec_table \<Rightarrow> string \<Rightarrow> Token list \<Rightarrow> nat \<Rightarrow> IRVar list \<times> IRFun list \<times> IRFun option \<Rightarrow> nat
   \<Rightarrow> ((IRVar list \<times> IRFun list \<times> IRFun option) \<times> nat) res" where
  "cpp_class_loop r name ts 0 st pos = OutOfFuel"
| "cpp_class_loop r name ts (Suc k) (members, methods, ctor) pos =
     (if \<not> match_val ts pos PUNCTUATION ''}'' \<and> pos < length ts then
        (if (case peek ts pos of None \<Rightarrow> False | Some t \<Rightarrow> cpp_isAccess t) then
           cpp_class_loop r name ts k (members, methods, ctor)
             (consume_val ts (pos + 1) PUNCTUATION '':'')
         else if match_val ts pos IDENTIFIER name then
           bind_res (cpp_parseConstructor r ts pos) (\<lambda>(f, p).
             cpp_class_loop r name ts k (members, methods, Some f) p)
         else if cpp_isType_at ts pos then
           bind_res (cpp_parseMemberOrMethod r ts pos) (\<lambda>(memberOrMethod, p).
             (case memberOrMethod of
                Some (IRFunction fname ps rt fbody) \<Rightarrow>
                  cpp_class_loop r name ts k
                    (members, methods @ [(fname, ps, rt, fbody)], ctor) p
              | Some (IRVariable vname dt v) \<Rightarrow>
                  cpp_class_loop r name ts k (members @ [(vname, dt, v)], methods, ctor) p
              | _ \<Rightarrow> cpp_class_loop r name ts k (members, methods, ctor) p))
         else cpp_class_loop r name ts k (members, methods, ctor) (pos + 1))
      else Ok ((members, methods, ctor), pos))"

definition cpp_parseClass :: "rec_table \<Rightarrow> Token list \<Rightarrow> nat \<Rightarrow> (IRNode \<times> nat) res" where
  "cpp_parseClass r ts pos =
     (let p1 = consume_val ts pos KEYWORD ''class'';
          name = (if match_tok ts p1 IDENTIFIER \<and> tok_value ts p1 \<noteq> []
                  then tok_value ts p1 else ''Unknown'');
          p2 = consume_val ts (consume_tok ts p1 IDENTIFIER) PUNCTUATION ''{''
      in bind_res (cpp_class_loop r name ts (budget r) ([], [], None) p2)
           (\<lambda>((members, methods, ctor), p).
              Ok (IRClass name members methods (Own ctor) None None,
                  consume_val ts (consume_val ts p PUNCTUATION ''}'') PUNCTUATION '';'')))"

text \<open>\<^verbatim>\<open>parseTopLevel\<close>: a token that starts no comment, class or type is passed over.\<close>

definition cpp_parseTopLevel ::
  "rec_table \<Rightarrow> Token list \<Rightarrow> nat \<Rightarrow> (IRNode option \<times> nat) res" where
  "cpp_parseTopLevel r ts pos =
     (if match_tok ts pos COMMENT then
        Ok (Some (IRComment (js_trim (tok_value ts pos)) None), pos + 1)
      else if match_tok ts pos MULTILINE_COMMENT then
        Ok (Some (IRComment (js_trim (tok_value ts pos)) (Some True)), pos + 1)
      else if match_val ts pos KEYWORD ''class'' then
        bind_res (cpp_parseClass r ts pos) (\<lambda>(node, p). Ok (Some node, p))
      else if cpp_isType_at ts pos then cpp_parseFunctionOrVariable r ts pos
      else Ok (None, pos + 1))"

text \<open>The loop of \<^verbatim>\<open>CppParser.parse\<close>: a preprocessor line is an import, a \<^verbatim>\<open>using\<close>
  directive is passed over up to its semicolon.\<close>

fun cpp_parse_loop ::
  "rec_table \<Rightarrow> Token list \<Rightarrow> nat \<Rightarrow> IRNode list \<Rightarrow> string list \<Rightarrow> nat \<Rightarrow> IRProgram res" where
  "cpp_parse_loop r ts 0 body imps pos = OutOfFuel"
| "cpp_parse_loop r ts (Suc k) body imps pos =
     (if pos < length ts then
        (if match_tok ts pos PREPROCESSOR then
           cpp_parse_loop r ts k body (imps @ [tok_value ts pos]) (pos + 1)
         else if match_val ts pos KEYWORD ''using'' then
           cpp_parse_loop r ts k body imps
             (consume_val ts
                (skip_while (\<lambda>t. \<not> (ttype t = PUNCTUATION \<and> tvalue t = '';'')) ts pos)
                PUNCTUATION '';'')
         else bind_res (cpp_parseTopLevel r ts pos) (\<lambda>(node, p).
                cpp_parse_loop r ts k (body @ option_list node) imps p))
      else Ok \<lparr> pbody = body, pimports = imps \<rparr>)"

text \<open>\<^verbatim>\<open>CppParser.parse\<close>: the handler returns the empty program.\<close>

definition CppParser_parse :: "nat \<Rightarrow> string \<Rightarrow> IRProgram res" where
  "CppParser_parse fuel code =
     catch_all (cpp_parse_loop (cpp_table fuel) (cpp_tokenize code) fuel [] [] 0)"

section \<open>The Python front-end (PythonParser)\<close>

text \<open>
  A token of this lexer also carries the indentation of its line. The fields \<^verbatim>\<open>line\<close> and
  \<^verbatim>\<open>column\<close> are written by the lexer and read by no function; the model leaves them out.
\<close>

record PyToken = Token +
  tindent :: nat

definition pmk :: "TokType \<Rightarrow> string \<Rightarrow> nat \<Rightarrow> PyToken" where
  "pmk t v i = \<lparr> ttype = t, tvalue = v, tindent = i \<rparr>"

definition py_keywords :: "string list" where
  "py_keywords = [''def'', ''class'', ''if'', ''elif'', ''else'', ''for'', ''while'', ''return'',
                  ''print'', ''input'', ''in'', ''range'', ''True'', ''False'', ''None'', ''and'',
                  ''or'', ''not'', ''self'', ''int'', ''float'', ''str'', ''bool'']"

definition py_operators2 :: "string list" where
  "py_operators2 = [''=='', ''!='', ''<='', ''>='', ''<<'', ''>>'', ''+='', ''-='', ''*='', ''/='',
                    ''->'', ''::'']"

definition py_operators1 :: string where
  "py_operators1 = ''+-*/%<>=!&|^~''"

definition py_punctuation :: string where
  "py_punctuation = ''()[]{},;:.''"

text \<open>\<^verbatim>\<open>s.split(sep)\<close> for a separator of one character; \<^verbatim>\<open>code.split('\n')\<close>.\<close>

fun split_on :: "char \<Rightarrow> string \<Rightarrow> string list" where
  "split_on sep [] = [[]]"
| "split_on sep (x # xs) =
     (if x = sep then [] # split_on sep xs
      else (case split_on sep xs of l # ls \<Rightarrow> (x # l) # ls | [] \<Rightarrow> [[x]]))"

definition split_lines :: "string \<Rightarrow> string list" where
  "split_lines code = split_on (CHR 0x0A) code"

text \<open>
  The pattern \<^verbatim>\<open>(["'])((?:\\.|(?!\1)[^\\])*?)\1\<close> after its opening quote \<open>q\<close>: the body is
  read up to the first quote that no backslash precedes; a backslash takes the next
  character with it, which must exist and must not end a line. The result is the body
  with the closing quote, or \<open>None\<close> when the pattern does not match.
\<close>

fun py_string_body :: "char \<Rightarrow> string \<Rightarrow> string option" where
  "py_string_body q [] = None"
| "py_string_body q (x # xs) =
     (if x = q then Some [x]
      else if x = CHR 0x5C then
        (case xs of
           [] \<Rightarrow> None
         | y # ys \<Rightarrow>
             if y = CHR 0x0A \<or> y = CHR 0x0D then None
             else map_option (\<lambda>b. x # y # b) (py_string_body q ys))
      else map_option (\<lambda>b. x # b) (py_string_body q xs))"

definition is_quote :: "char \<Rightarrow> bool" where
  "is_quote ch = (ch = CHR 0x22 \<or> ch = CHR 0x27)"

text \<open>The f-string pattern and the pattern of a regular string, at the start of the
  text: the text of the match.\<close>

definition py_fstring :: "string \<Rightarrow> string option" where
  "py_fstring s =
     (case s of
        f # q # rest \<Rightarrow>
          if f = CHR ''f'' \<and> is_quote q
          then map_option (\<lambda>b. f # q # b) (py_string_body q rest) else None
      | _ \<Rightarrow> None)"

definition py_string :: "string \<Rightarrow> string option" where
  "py_string s =
     (case s of
        q # rest \<Rightarrow> if is_quote q then map_option (\<lambda>b. q # b) (py_string_body q rest) else None
      | _ \<Rightarrow> None)"

text \<open>The text before the first occurrence of \<open>sub\<close>, if there is one.\<close>

fun before_first :: "string \<Rightarrow> string \<Rightarrow> string option" where
  "before_first sub [] = (if sub = [] then Some [] else None)"
| "before_first sub (x # xs) =
     (if take (length sub) (x # xs) = sub then Some []
      else map_option (\<lambda>b. x # b) (before_first sub xs))"

text \<open>The pattern \<^verbatim>\<open>(f?"""[\s\S]*?"""|f?'''[\s\S]*?''')\<close> at the start of the text.\<close>

definition py_triple :: "string \<Rightarrow> string option" where
  "py_triple s =
     (let pre = (if take 1 s = ''f'' then ''f'' else []);
          t = drop (length pre) s;
          q3 = take 3 t
      in if length q3 = 3 \<and> is_quote (hd q3) \<and> q3 = replicate 3 (hd q3)
         then map_option (\<lambda>b. pre @ q3 @ b @ q3) (before_first q3 (drop 3 t))
         else None)"

text \<open>
  The first of the three string patterns that matches; each match takes at least two
  characters.
\<close>

definition py_string_token :: "string \<Rightarrow> string option" where
  "py_string_token s =
     (case py_fstring s of
        Some t \<Rightarrow> Some t
      | None \<Rightarrow> (case py_string s of Some t \<Rightarrow> Some t | None \<Rightarrow> py_triple s))"

text \<open>The loop over the columns of one line in \<^verbatim>\<open>PythonParser.tokenize\<close>, on the text that
  is left; \<open>ind\<close> is the indentation of the line. A character that no pattern matches is
  passed over (\<^verbatim>\<open>col++\<close>).\<close>

function py_scan :: "nat \<Rightarrow> string \<Rightarrow> PyToken list" where
  "py_scan ind [] = []"
| "py_scan ind (x # xs) =
     (if is_space x then py_scan ind (dropWhile is_space xs)
      else if x = CHR ''#'' then [pmk COMMENT (x # xs) ind]
      else if py_string_token (x # xs) \<noteq> None then
        pmk STRING (the (py_string_token (x # xs))) ind
          # py_scan ind (drop (length (the (py_string_token (x # xs))) - 1) xs)
      else if is_digit x then
        pmk NUMBER (fst (match_number [] (x # xs))) ind
          # py_scan ind (snd (match_number [] (x # xs)))
      else if is_word_start x then
        (let w = takeWhile is_word_char (x # xs)
         in pmk (if w \<in> set py_keywords then KEYWORD else IDENTIFIER) w ind
              # py_scan ind (dropWhile is_word_char xs))
      else if take 2 (x # xs) \<in> set py_operators2 then
        pmk OPERATOR (take 2 (x # xs)) ind # py_scan ind (drop 1 xs)
      else if x \<in> set py_operators1 then pmk OPERATOR [x] ind # py_scan ind xs
      else if x \<in> set py_punctuation then pmk PUNCTUATION [x] ind # py_scan ind xs
      else py_scan ind xs)"
  by pat_completeness auto

termination py_scan
proof (relation "measure (\<lambda>(ind, s). length s)", goal_cases)
  case 1
  show ?case by simp
next
  case (2 ind x xs)
  show ?case using length_dropWhile_le[of is_space xs] by simp
next
  case (3 ind x xs)
  show ?case by simp
next
  case (4 ind x xs)
  then show ?case using match_number_digit_len[of x "[]" xs] by simp
next
  case (5 ind x xs)
  show ?case using length_dropWhile_le[of is_word_char xs] by simp
next
  case (6 ind x xs)
  show ?case by simp
next
  case (7 ind x xs)
  show ?case by simp
next
  case (8 ind x xs)
  show ?case by simp
next
  case (9 ind x xs)
  show ?case by simp
qed

text \<open>\<^verbatim>\<open>PythonParser.tokenize\<close>: a line of white space gives no token; every other line
  gives its tokens and a NEWLINE token.\<close>

definition py_tokenize_line :: "string \<Rightarrow> PyToken list" where
  "py_tokenize_line line =
     (let lineIndent = length (takeWhile is_space line)
      in if dropWhile is_space line = [] then []
         else py_scan lineIndent (dropWhile is_space line) @ [pmk NEWLINE NL lineIndent])"

definition py_tokenize :: "string \<Rightarrow> PyToken list" where
  "py_tokenize code = concat (map py_tokenize_line (split_lines code))"

subsection \<open>Token buffer access\<close>

text \<open>\<^verbatim>\<open>skipNewlines\<close>: at most a hundred NEWLINE tokens are passed.\<close>

definition skipNewlines :: "PyToken list \<Rightarrow> nat \<Rightarrow> nat" where
  "skipNewlines ts pos =
     pos + min 100 (length (takeWhile (\<lambda>t. ttype t = NEWLINE) (drop pos ts)))"

text \<open>The indentation of the token at the position, for a read after a successful
  match.\<close>

definition indent_at :: "PyToken list \<Rightarrow> nat \<Rightarrow> nat" where
  "indent_at ts pos = (case peek ts pos of None \<Rightarrow> 0 | Some t \<Rightarrow> tindent t)"

definition mapPythonType :: "string \<Rightarrow> DataType" where
  "mapPythonType = lookup_type
     [(''int'', T_int), (''float'', T_float), (''str'', T_string), (''bool'', T_bool),
      (''None'', T_void)] T_auto"

fun py_inferType :: "IRNode \<Rightarrow> DataType" where
  "py_inferType (IRLiteral v dt fs) = dt"
| "py_inferType (IRBinaryOp op l r) =
     (let leftType = py_inferType l; rightType = py_inferType r
      in if op \<in> set [''=='', ''!='', ''<'', ''>'', ''<='', ''>=''] then T_bool
         else if leftType = T_float \<or> rightType = T_float then T_float
         else if leftType = T_double \<or> rightType = T_double then T_double
         else if leftType = T_string \<or> rightType = T_string then T_string
         else T_int)"
| "py_inferType (IRCall callee cargs isMethod obj) =
     (if callee = ''int'' then T_int
      else if callee = ''float'' then T_float
      else if callee = ''str'' then T_string
      else if callee = ''input'' then T_string
      else T_auto)"
| "py_inferType _ = T_auto"

subsection \<open>Expressions\<close>

text \<open>
  The table of the functions that close a cycle of calls: \<^verbatim>\<open>parseExpression\<close>,
  \<^verbatim>\<open>parseNot\<close>, \<^verbatim>\<open>parseUnary\<close>, \<^verbatim>\<open>parseStatement\<close> and \<^verbatim>\<open>parseElif\<close>, the last two with their
  indentation argument.
\<close>

record py_table =
  py_budget :: nat
  py_expression :: "PyToken list \<Rightarrow> nat \<Rightarrow> (IRNode \<times> nat) res"
  py_not :: "PyToken list \<Rightarrow> nat \<Rightarrow> (IRNode \<times> nat) res"
  py_unary :: "PyToken list \<Rightarrow> nat \<Rightarrow> (IRNode \<times> nat) res"
  py_statement :: "nat \<Rightarrow> PyToken list \<Rightarrow> nat \<Rightarrow> (IRNode option \<times> nat) res"
  py_elif :: "nat \<Rightarrow> PyToken list \<Rightarrow> nat \<Rightarrow> (IRNode \<times> nat) res"

text \<open>The argument loop \<^verbatim>\<open>while (!match(')') && args.length < limit)\<close>; \<open>n\<close> is the number
  of arguments that may still be read.\<close>

fun py_args_loop ::
  "(nat \<Rightarrow> (IRNode \<times> nat) res) \<Rightarrow> PyToken list \<Rightarrow> nat \<Rightarrow> IRNode list \<Rightarrow> nat
   \<Rightarrow> (IRNode list \<times> nat) res" where
  "py_args_loop sub ts 0 args pos = Ok (args, pos)"
| "py_args_loop sub ts (Suc n) args pos =
     (if match_val ts pos PUNCTUATION '')'' then Ok (args, pos)
      else bind_res (sub pos) (\<lambda>(arg, p).
        if match_val ts p PUNCTUATION '','' then py_args_loop sub ts n (args @ [arg]) (p + 1)
        else Ok (args @ [arg], p)))"

text \<open>The loop of \<^verbatim>\<open>parsePrint\<close>: a keyword argument \<^verbatim>\<open>end\<close> or \<^verbatim>\<open>sep\<close> is read and dropped.\<close>

fun py_print_loop ::
  "(nat \<Rightarrow> (IRNode \<times> nat) res) \<Rightarrow> PyToken list \<Rightarrow> nat \<Rightarrow> IRNode list \<Rightarrow> nat
   \<Rightarrow> (IRNode list \<times> nat) res" where
  "py_print_loop sub ts 0 args pos = OutOfFuel"
| "py_print_loop sub ts (Suc k) args pos =
     (if \<not> match_val ts pos PUNCTUATION '')'' \<and> length args < 20 then
        (if match_val ts pos IDENTIFIER ''end'' \<or> match_val ts pos IDENTIFIER ''sep'' then
           bind_res (sub (consume_val ts (pos + 1) OPERATOR ''='')) (\<lambda>(dropped, p).
             if match_val ts p PUNCTUATION '','' then py_print_loop sub ts k args (p + 1)
             else Ok (args, p))
         else
           bind_res (sub pos) (\<lambda>(arg, p).
             if match_val ts p PUNCTUATION '','' then py_print_loop sub ts k (args @ [arg]) (p + 1)
             else Ok (args @ [arg], p)))
      else Ok (args, pos))"

definition py_parsePrint :: "py_table \<Rightarrow> PyToken list \<Rightarrow> nat \<Rightarrow> (IRNode \<times> nat) res" where
  "py_parsePrint r ts pos =
     (let p1 = consume_val ts pos KEYWORD ''print'';
          p2 = consume_val ts p1 PUNCTUATION ''(''
      in bind_res (py_print_loop (py_expression r ts) ts (py_budget r) [] p2) (\<lambda>(args, p).
           Ok (IRPrint args (Some True), consume_val ts p PUNCTUATION '')'')))"

text \<open>\<^verbatim>\<open>input ( prompt? )\<close>, as a statement and as an expression.\<close>

definition py_parseInput :: "PyToken list \<Rightarrow> nat \<Rightarrow> IRNode \<times> nat" where
  "py_parseInput ts pos =
     (let p1 = consume_val ts pos KEYWORD ''input'';
          p2 = consume_val ts p1 PUNCTUATION ''(''
      in if match_tok ts p2 STRING
         then (IRInput (Some (slice_1_m1 (tok_value ts p2))) None None,
               consume_val ts (p2 + 1) PUNCTUATION '')'')
         else (IRInput None None None, consume_val ts p2 PUNCTUATION '')''))"

text \<open>The loop over attribute accesses after a name: the position after it and the
  dotted name. Every iteration reads a token.\<close>

fun py_attr_loop :: "PyToken list \<Rightarrow> nat \<Rightarrow> string \<Rightarrow> nat \<Rightarrow> string \<times> nat" where
  "py_attr_loop ts 0 name pos = (name, pos)"
| "py_attr_loop ts (Suc k) name pos =
     (if match_val ts pos PUNCTUATION ''.'' then
        (if match_tok ts (pos + 1) IDENTIFIER
         then py_attr_loop ts k (name @ ''.'' @ tok_value ts (pos + 1)) (pos + 2)
         else py_attr_loop ts k name (pos + 1))
      else (name, pos))"

text \<open>\<^verbatim>\<open>name.split('.')\<close>: the last part, and the parts before it joined by a dot.\<close>

definition split_dot :: "string \<Rightarrow> string list" where
  "split_dot name = split_on (CHR ''.'') name"

definition py_string_literal :: "string \<Rightarrow> IRNode" where
  "py_string_literal v =
     (let isFString = (startsWith v (''f'' @ DQ) \<or> startsWith v (''f'' @ [CHR 0x27]))
      in IRLiteral (V_str (if isFString then butlast (drop 2 v) else slice_1_m1 v)) T_string
           (Some isFString))"

definition py_parsePrimary :: "py_table \<Rightarrow> PyToken list \<Rightarrow> nat \<Rightarrow> (IRNode \<times> nat) res" where
  "py_parsePrimary r ts pos =
     (if match_val ts pos PUNCTUATION ''('' then
        bind_res (py_expression r ts (pos + 1)) (\<lambda>(expr, p).
          Ok (expr, consume_val ts p PUNCTUATION '')''))
      else if match_tok ts pos NUMBER then
        (let v = tok_value ts pos
         in if CHR ''.'' \<in> set v
            then Ok (IRLiteral (V_float (js_float_text v)) T_float None, pos + 1)
            else Ok (IRLiteral (V_num (js_parseInt v)) T_int None, pos + 1))
      else if match_tok ts pos STRING then Ok (py_string_literal (tok_value ts pos), pos + 1)
      else if match_val ts pos KEYWORD ''True'' then
        Ok (IRLiteral (V_bool True) T_bool None, pos + 1)
      else if match_val ts pos KEYWORD ''False'' then
        Ok (IRLiteral (V_bool False) T_bool None, pos + 1)
      else if match_val ts pos KEYWORD ''None'' then
        Ok (IRLiteral (V_str ''null'') T_void None, pos + 1)
      else if match_val ts pos KEYWORD ''int'' \<or> match_val ts pos KEYWORD ''float''
              \<or> match_val ts pos KEYWORD ''str'' then
        bind_res (py_args_loop (py_expression r ts) ts 10 []
                    (consume_val ts (pos + 1) PUNCTUATION ''('')) (\<lambda>(args, p).
          Ok (IRCall (tok_value ts pos) args None None, consume_val ts p PUNCTUATION '')''))
      else if match_val ts pos KEYWORD ''input'' then Ok (py_parseInput ts pos)
      else if match_val ts pos KEYWORD ''print'' then py_parsePrint r ts pos
      else if match_val ts pos KEYWORD ''range'' \<or> match_val ts pos IDENTIFIER ''range'' then
        bind_res (py_args_loop (py_expression r ts) ts 10 []
                    (consume_val ts (pos + 1) PUNCTUATION ''('')) (\<lambda>(args, p).
          Ok (IRCall ''range'' args None None, consume_val ts p PUNCTUATION '')''))
      else if match_tok ts pos IDENTIFIER \<or> match_val ts pos KEYWORD ''self'' then
        (let (name, p1) = py_attr_loop ts (length ts) (tok_value ts pos) (pos + 1)
         in if match_val ts p1 PUNCTUATION ''('' then
              bind_res (py_args_loop (py_expression r ts) ts 20 [] (p1 + 1)) (\<lambda>(args, p).
                (let parts = split_dot name; p' = consume_val ts p PUNCTUATION '')''
                 in if length parts > 1
                    then Ok (IRCall (last parts) args (Some True)
                               (Some (join ''.'' (butlast parts))), p')
                    else Ok (IRCall name args None None, p')))
            else Ok (IRIdentifier name, p1))
      else Ok (IRLiteral (V_str []) T_void None, (if pos < length ts then pos + 1 else pos)))"

definition py_parseUnary :: "py_table \<Rightarrow> PyToken list \<Rightarrow> nat \<Rightarrow> (IRNode \<times> nat) res" where
  "py_parseUnary r ts pos =
     (if match_val ts pos OPERATOR ''-'' \<or> match_val ts pos OPERATOR ''+'' then
        bind_res (py_unary r ts (pos + 1)) (\<lambda>(operand, p).
          Ok (IRUnaryOp (tok_value ts pos) operand, p))
      else py_parsePrimary r ts pos)"

text \<open>The loops of the binary levels. \<open>ops\<close> lists the token kinds and values that
  continue a loop and the operator written to the node, \<open>sub\<close> is the parser of the next
  level.\<close>

definition py_find_op ::
  "PyToken list \<Rightarrow> nat \<Rightarrow> (TokType \<times> string \<times> string) list \<Rightarrow> string option" where
  "py_find_op ts pos ops =
     map_option (\<lambda>(ty, v, op). op) (find (\<lambda>(ty, v, op). match_val ts pos ty v) ops)"

fun py_binary_loop ::
  "(nat \<Rightarrow> (IRNode \<times> nat) res) \<Rightarrow> (TokType \<times> string \<times> string) list \<Rightarrow> PyToken list \<Rightarrow> nat
   \<Rightarrow> IRNode \<Rightarrow> nat \<Rightarrow> (IRNode \<times> nat) res" where
  "py_binary_loop sub ops ts 0 left pos = OutOfFuel"
| "py_binary_loop sub ops ts (Suc k) left pos =
     (case py_find_op ts pos ops of
        Some op \<Rightarrow>
          bind_res (sub (pos + 1)) (\<lambda>(right, p).
            py_binary_loop sub ops ts k (IRBinaryOp op left right) p)
      | None \<Rightarrow> Ok (left, pos))"

text \<open>The loop of \<^verbatim>\<open>parseComparison\<close> ends after twenty iterations.\<close>

fun py_comparison_loop ::
  "(nat \<Rightarrow> (IRNode \<times> nat) res) \<Rightarrow> PyToken list \<Rightarrow> nat \<Rightarrow> IRNode \<Rightarrow> nat
   \<Rightarrow> (IRNode \<times> nat) res" where
  "py_comparison_loop sub ts 0 left pos = Ok (left, pos)"
| "py_comparison_loop sub ts (Suc n) left pos =
     (case py_find_op ts pos
             [(OPERATOR, ''=='', ''==''), (OPERATOR, ''!='', ''!=''), (OPERATOR, ''<'', ''<''),
              (OPERATOR, ''>'', ''>''), (OPERATOR, ''<='', ''<=''), (OPERATOR, ''>='', ''>='')] of
        Some op \<Rightarrow>
          bind_res (sub (pos + 1)) (\<lambda>(right, p).
            py_comparison_loop sub ts n (IRBinaryOp op left right) p)
      | None \<Rightarrow> Ok (left, pos))"

definition py_parseMulDiv :: "py_table \<Rightarrow> PyToken list \<Rightarrow> nat \<Rightarrow> (IRNode \<times> nat) res" where
  "py_parseMulDiv r ts pos =
     bind_res (py_parseUnary r ts pos) (\<lambda>(left, p).
       py_binary_loop (py_parseUnary r ts)
         [(OPERATOR, ''*'', ''*''), (OPERATOR, ''/'', ''/''), (OPERATOR, ''%'', ''%'')]
         ts (py_budget r) left p)"

definition py_parseAddSub :: "py_table \<Rightarrow> PyToken list \<Rightarrow> nat \<Rightarrow> (IRNode \<times> nat) res" where
  "py_parseAddSub r ts pos =
     bind_res (py_parseMulDiv r ts pos) (\<lambda>(left, p).
       py_binary_loop (py_parseMulDiv r ts)
         [(OPERATOR, ''+'', ''+''), (OPERATOR, ''-'', ''-'')] ts (py_budget r) left p)"

definition py_parseComparison :: "py_table \<Rightarrow> PyToken list \<Rightarrow> nat \<Rightarrow> (IRNode \<times> nat) res" where
  "py_parseComparison r ts pos =
     bind_res (py_parseAddSub r ts pos) (\<lambda>(left, p).
       py_comparison_loop (py_parseAddSub r ts) ts 20 left p)"

definition py_parseNot :: "py_table \<Rightarrow> PyToken list \<Rightarrow> nat \<Rightarrow> (IRNode \<times> nat) res" where
  "py_parseNot r ts pos =
     (if match_val ts pos KEYWORD ''not'' then
        bind_res (py_not r ts (pos + 1)) (\<lambda>(operand, p). Ok (IRUnaryOp ''!'' operand, p))
      else py_parseComparison r ts pos)"

definition py_parseAnd :: "py_table \<Rightarrow> PyToken list \<Rightarrow> nat \<Rightarrow> (IRNode \<times> nat) res" where
  "py_parseAnd r ts pos =
     bind_res (py_parseNot r ts pos) (\<lambda>(left, p).
       py_binary_loop (py_parseNot r ts) [(KEYWORD, ''and'', ''&&'')] ts (py_budget r) left p)"

definition py_parseOr :: "py_table \<Rightarrow> PyToken list \<Rightarrow> nat \<Rightarrow> (IRNode \<times> nat) res" where
  "py_parseOr r ts pos =
     bind_res (py_parseAnd r ts pos) (\<lambda>(left, p).
       py_binary_loop (py_parseAnd r ts) [(KEYWORD, ''or'', ''||'')] ts (py_budget r) left p)"

definition py_parseExpression :: "py_table \<Rightarrow> PyToken list \<Rightarrow> nat \<Rightarrow> (IRNode \<times> nat) res" where
  "py_parseExpression r ts pos = py_parseOr r ts pos"

subsection \<open>Statements\<close>

definition py_parseReturn :: "py_table \<Rightarrow> PyToken list \<Rightarrow> nat \<Rightarrow> (IRNode \<times> nat) res" where
  "py_parseReturn r ts pos =
     (let p1 = consume_val ts pos KEYWORD ''return''
      in if match_tok ts p1 NEWLINE \<or> p1 \<ge> length ts then Ok (IRReturn None, p1)
         else bind_res (py_parseExpression r ts p1) (\<lambda>(v, p). Ok (IRReturn (Some v), p)))"

text \<open>The loop over \<^verbatim>\<open>compoundOps\<close> in \<^verbatim>\<open>parseAssignmentOrExpression\<close>: a compound operator
  after a left side that is no identifier is read with its right side and dropped.\<close>

fun py_compound_loop ::
  "(nat \<Rightarrow> (IRNode \<times> nat) res) \<Rightarrow> PyToken list \<Rightarrow> string list \<Rightarrow> IRNode \<Rightarrow> nat
   \<Rightarrow> (IRNode \<times> nat) res" where
  "py_compound_loop sub ts [] left pos = Ok (left, pos)"
| "py_compound_loop sub ts (op # ops) left pos =
     (if match_val ts pos OPERATOR op then
        bind_res (sub (pos + 1)) (\<lambda>(right, p).
          case left of
            IRIdentifier name \<Rightarrow>
              Ok (IRAssignment name (IRBinaryOp (take 1 op) left right), p)
          | _ \<Rightarrow> py_compound_loop sub ts ops left p)
      else py_compound_loop sub ts ops left pos)"

definition py_parseAssignmentOrExpression ::
  "py_table \<Rightarrow> PyToken list \<Rightarrow> nat \<Rightarrow> (IRNode \<times> nat) res" where
  "py_parseAssignmentOrExpression r ts pos =
     bind_res (py_parseExpression r ts pos) (\<lambda>(left, p).
       if match_val ts p OPERATOR ''='' then
         bind_res (py_parseExpression r ts (p + 1)) (\<lambda>(v, p2).
           case left of
             IRIdentifier target \<Rightarrow>
               if CHR ''.'' \<notin> set target
               then Ok (IRVariable target (py_inferType v) (Some v), p2)
               else Ok (IRAssignment target v, p2)
           | _ \<Rightarrow> py_compound_loop (py_parseExpression r ts) ts
                    [''+='', ''-='', ''*='', ''/=''] left p2)
       else py_compound_loop (py_parseExpression r ts) ts
              [''+='', ''-='', ''*='', ''/=''] left p)"

text \<open>
  The loop of \<^verbatim>\<open>parseBlock\<close>; \<open>iterations\<close> is the counter that ends the loop at
  \<^verbatim>\<open>maxIterations\<close>, \<open>sub\<close> is \<^verbatim>\<open>parseStatement\<close> at the indentation of the block.
\<close>

fun py_block_loop ::
  "(nat \<Rightarrow> (IRNode option \<times> nat) res) \<Rightarrow> nat \<Rightarrow> PyToken list \<Rightarrow> nat \<Rightarrow> nat
   \<Rightarrow> IRNode list \<Rightarrow> nat \<Rightarrow> (IRNode list \<times> nat) res" where
  "py_block_loop sub parentIndent ts 0 iterations stmts pos = OutOfFuel"
| "py_block_loop sub parentIndent ts (Suc k) iterations stmts pos =
     (if pos < length ts \<and> iterations < 10000 then
        (let p1 = skipNewlines ts pos
         in case peek ts p1 of
              None \<Rightarrow> Ok (stmts, p1)
            | Some token \<Rightarrow>
                if tindent token \<le> parentIndent then Ok (stmts, p1)
                else bind_res (sub p1) (\<lambda>(stmt, p).
                       case stmt of
                         Some node \<Rightarrow>
                           py_block_loop sub parentIndent ts k (iterations + 1)
                             (stmts @ [node]) p
                       | None \<Rightarrow> Ok (stmts, p)))
      else Ok (stmts, pos))"

definition py_parseBlock ::
  "py_table \<Rightarrow> nat \<Rightarrow> PyToken list \<Rightarrow> nat \<Rightarrow> (IRNode list \<times> nat) res" where
  "py_parseBlock r parentIndent ts pos =
     py_block_loop (py_statement r (parentIndent + 4) ts) parentIndent ts (py_budget r) 0 [] pos"

text \<open>\<^verbatim>\<open>PythonParser.parseParams\<close>; every iteration that goes on reads a token.\<close>

fun py_params_loop :: "PyToken list \<Rightarrow> nat \<Rightarrow> IRVar list \<Rightarrow> nat \<Rightarrow> IRVar list \<times> nat" where
  "py_params_loop ts 0 params pos = (params, pos)"
| "py_params_loop ts (Suc k) params pos =
     (if match_val ts pos PUNCTUATION '')'' then (params, pos)
      else if match_val ts pos KEYWORD ''self'' then
        py_params_loop ts k params (consume_val ts (pos + 1) PUNCTUATION '','')
      else if match_tok ts pos IDENTIFIER then
        (let p1 = pos + 1;
             dataType = (if match_val ts p1 PUNCTUATION '':''
                           \<and> (match_tok ts (p1 + 1) KEYWORD \<or> match_tok ts (p1 + 1) IDENTIFIER)
                         then mapPythonType (tok_value ts (p1 + 1)) else T_auto);
             p2 = (if match_val ts p1 PUNCTUATION '':''
                   then (if match_tok ts (p1 + 1) KEYWORD \<or> match_tok ts (p1 + 1) IDENTIFIER
                         then p1 + 2 else p1 + 1)
                   else p1);
             params' = params @ [(tok_value ts pos, dataType, None)]
         in if match_val ts p2 PUNCTUATION '','' then py_params_loop ts k params' (p2 + 1)
            else (params', p2))
      else if match_val ts pos PUNCTUATION '','' then py_params_loop ts k params (pos + 1)
      else (params, pos))"

definition py_parseParams :: "PyToken list \<Rightarrow> nat \<Rightarrow> IRVar list \<times> nat" where
  "py_parseParams ts pos = py_params_loop ts (Suc (length ts)) [] pos"

text \<open>The return type of a function: the type inferred from the value of the first
  return statement of its body.\<close>

fun py_returnType :: "IRNode list \<Rightarrow> DataType" where
  "py_returnType [] = T_void"
| "py_returnType (IRReturn v # rest) =
     (case v of Some e \<Rightarrow> py_inferType e | None \<Rightarrow> T_void)"
| "py_returnType (_ # rest) = py_returnType rest"

definition py_parseFunctionDef :: "py_table \<Rightarrow> PyToken list \<Rightarrow> nat \<Rightarrow> (IRNode \<times> nat) res" where
  "py_parseFunctionDef r ts pos =
     (let functionIndent = indent_at ts pos;
          p1 = consume_val ts pos KEYWORD ''def'';
          name = (if match_tok ts p1 IDENTIFIER \<and> tok_value ts p1 \<noteq> []
                  then tok_value ts p1 else ''unknown'');
          p2 = consume_val ts (consume_tok ts p1 IDENTIFIER) PUNCTUATION ''('';
          (params, p3) = py_parseParams ts p2;
          p4 = skipNewlines ts
                 (consume_val ts (consume_val ts p3 PUNCTUATION '')'') PUNCTUATION '':'')
      in bind_res (py_parseBlock r functionIndent ts p4) (\<lambda>(body, p).
           Ok (IRFunction name params (py_returnType body) body, p)))"

text \<open>The members that \<^verbatim>\<open>parseClassDef\<close> takes from the body of a constructor, and the
  three lists it builds from the body of the class.\<close>

definition py_init_members :: "IRNode list \<Rightarrow> IRVar list" where
  "py_init_members body =
     concat (map (\<lambda>stmt. case stmt of
                    IRAssignment target v \<Rightarrow>
                      if startsWith target ''self.''
                      then [(replace_first ''self.'' [] target, T_auto, None)] else []
                  | _ \<Rightarrow> []) body)"

fun py_class_parts ::
  "IRNode list \<Rightarrow> IRVar list \<times> IRFun list \<times> IRFun option
   \<Rightarrow> IRVar list \<times> IRFun list \<times> IRFun option" where
  "py_class_parts [] st = st"
| "py_class_parts (IRFunction name ps rt fbody # rest) (members, methods, ctor) =
     (if name = ''__init__''
      then py_class_parts rest
             (members @ py_init_members fbody, methods, Some (name, ps, rt, fbody))
      else py_class_parts rest (members, methods @ [(name, ps, rt, fbody)], ctor))"
| "py_class_parts (_ # rest) st = py_class_parts rest st"

definition py_parseClassDef :: "py_table \<Rightarrow> PyToken list \<Rightarrow> nat \<Rightarrow> (IRNode \<times> nat) res" where
  "py_parseClassDef r ts pos =
     (let classIndent = indent_at ts pos;
          p1 = consume_val ts pos KEYWORD ''class'';
          name = (if match_tok ts p1 IDENTIFIER \<and> tok_value ts p1 \<noteq> []
                  then tok_value ts p1 else ''Unknown'');
          p2 = skipNewlines ts (consume_val ts (consume_tok ts p1 IDENTIFIER) PUNCTUATION '':'')
      in bind_res (py_parseBlock r classIndent ts p2) (\<lambda>(body, p).
           (let (members, methods, ctor) = py_class_parts body ([], [], None)
            in Ok (IRClass name members methods (Own ctor) None None, p))))"

text \<open>What \<^verbatim>\<open>parseIf\<close> and \<^verbatim>\<open>parseElif\<close> do after the condition: the block, and an \<^verbatim>\<open>elif\<close>
  or \<^verbatim>\<open>else\<close> at the indentation of the \<^verbatim>\<open>if\<close>.\<close>

definition py_if_rest ::
  "py_table \<Rightarrow> nat \<Rightarrow> PyToken list \<Rightarrow> IRNode \<Rightarrow> nat \<Rightarrow> (IRNode \<times> nat) res" where
  "py_if_rest r ifIndent ts condition pos =
     bind_res (py_parseBlock r ifIndent ts
                 (skipNewlines ts (consume_val ts pos PUNCTUATION '':''))) (\<lambda>(thenBranch, p0).
       (let p = skipNewlines ts p0
        in case peek ts p of
             None \<Rightarrow> Ok (IRIf condition thenBranch None None, p)
           | Some nextToken \<Rightarrow>
               if tindent nextToken = ifIndent then
                 (if match_val ts p KEYWORD ''elif'' then
                    bind_res (py_elif r ifIndent ts p) (\<lambda>(elseIf, p').
                      Ok (IRIf condition thenBranch None (Some elseIf), p'))
                  else if match_val ts p KEYWORD ''else'' then
                    bind_res (py_parseBlock r ifIndent ts
                                (skipNewlines ts (consume_val ts (p + 1) PUNCTUATION '':'')))
                      (\<lambda>(elseBranch, p').
                         Ok (IRIf condition thenBranch (Some elseBranch) None, p'))
                  else Ok (IRIf condition thenBranch None None, p))
               else Ok (IRIf condition thenBranch None None, p)))"

definition py_parseIf :: "py_table \<Rightarrow> PyToken list \<Rightarrow> nat \<Rightarrow> (IRNode \<times> nat) res" where
  "py_parseIf r ts pos =
     bind_res (py_parseExpression r ts (consume_val ts pos KEYWORD ''if'')) (\<lambda>(condition, p).
       py_if_rest r (indent_at ts pos) ts condition p)"

definition py_parseElif ::
  "py_table \<Rightarrow> nat \<Rightarrow> PyToken list \<Rightarrow> nat \<Rightarrow> (IRNode \<times> nat) res" where
  "py_parseElif r parentIndent ts pos =
     bind_res (py_parseExpression r ts (consume_val ts pos KEYWORD ''elif'')) (\<lambda>(condition, p).
       py_if_rest r parentIndent ts condition p)"

text \<open>\<^verbatim>\<open>args[i]\<close> as the value of a property.\<close>

definition nth_opt :: "'a list \<Rightarrow> nat \<Rightarrow> 'a option" where
  "nth_opt xs i = (if i < length xs then Some (xs ! i) else None)"

definition py_parseFor :: "py_table \<Rightarrow> PyToken list \<Rightarrow> nat \<Rightarrow> (IRNode \<times> nat) res" where
  "py_parseFor r ts pos =
     (let forIndent = indent_at ts pos;
          p1 = consume_val ts pos KEYWORD ''for'';
          iterator = (if match_tok ts p1 IDENTIFIER \<and> tok_value ts p1 \<noteq> []
                      then tok_value ts p1 else ''i'');
          p2 = consume_val ts (consume_tok ts p1 IDENTIFIER) KEYWORD ''in''
      in if match_val ts p2 KEYWORD ''range'' \<or> match_val ts p2 IDENTIFIER ''range'' then
           bind_res (py_args_loop (py_parseExpression r ts) ts 10 []
                       (consume_val ts (p2 + 1) PUNCTUATION ''('')) (\<lambda>(args, p3).
           bind_res (py_parseBlock r forIndent ts
                       (skipNewlines ts
                          (consume_val ts (consume_val ts p3 PUNCTUATION '')'') PUNCTUATION '':'')))
             (\<lambda>(body, p).
                Ok (if length args = 1 then
                      IRFor None None None (Some iterator) (Some (lit_int 0)) (nth_opt args 0)
                        (Some (lit_int 1)) body
                    else if length args = 2 then
                      IRFor None None None (Some iterator) (nth_opt args 0) (nth_opt args 1)
                        (Some (lit_int 1)) body
                    else
                      IRFor None None None (Some iterator) (nth_opt args 0) (nth_opt args 1)
                        (nth_opt args 2) body, p)))
         else
           bind_res (py_parseExpression r ts p2) (\<lambda>(iterable, p3).
           bind_res (py_parseBlock r forIndent ts
                       (skipNewlines ts (consume_val ts p3 PUNCTUATION '':''))) (\<lambda>(body, p).
             Ok (IRFor None (Some iterable) None (Some iterator) None None None body, p))))"

definition py_parseWhile :: "py_table \<Rightarrow> PyToken list \<Rightarrow> nat \<Rightarrow> (IRNode \<times> nat) res" where
  "py_parseWhile r ts pos =
     bind_res (py_parseExpression r ts (consume_val ts pos KEYWORD ''while'')) (\<lambda>(condition, p).
     bind_res (py_parseBlock r (indent_at ts pos) ts
                 (skipNewlines ts (consume_val ts p PUNCTUATION '':''))) (\<lambda>(body, p').
       Ok (IRWhile condition body, p')))"

definition py_parseStatement ::
  "py_table \<Rightarrow> nat \<Rightarrow> PyToken list \<Rightarrow> nat \<Rightarrow> (IRNode option \<times> nat) res" where
  "py_parseStatement r minIndent ts pos =
     (let p0 = skipNewlines ts pos
      in case peek ts p0 of
           None \<Rightarrow> Ok (None, p0)
         | Some token \<Rightarrow>
             if tindent token < minIndent then Ok (None, p0)
             else if ttype token = COMMENT then
               Ok (Some (IRComment (js_trim (drop 1 (tvalue token))) None),
                   skipNewlines ts (p0 + 1))
             else bind_res
               (if match_val ts p0 KEYWORD ''def'' then py_parseFunctionDef r ts p0
                else if match_val ts p0 KEYWORD ''class'' then py_parseClassDef r ts p0
                else if match_val ts p0 KEYWORD ''if'' then py_parseIf r ts p0
                else if match_val ts p0 KEYWORD ''for'' then py_parseFor r ts p0
                else if match_val ts p0 KEYWORD ''while'' then py_parseWhile r ts p0
                else if match_val ts p0 KEYWORD ''return'' then py_parseReturn r ts p0
                else if match_val ts p0 KEYWORD ''print'' then py_parsePrint r ts p0
                else if match_val ts p0 KEYWORD ''input'' then Ok (py_parseInput ts p0)
                else py_parseAssignmentOrExpression r ts p0)
               (\<lambda>(node, p). Ok (Some node, p)))"

text \<open>The table for a budget.\<close>

primrec py_tbl :: "nat \<Rightarrow> py_table" where
  "py_tbl 0 =
     \<lparr> py_budget = 0,
       py_expression = (\<lambda>ts pos. OutOfFuel), py_not = (\<lambda>ts pos. OutOfFuel),
       py_unary = (\<lambda>ts pos. OutOfFuel), py_statement = (\<lambda>minIndent ts pos. OutOfFuel),
       py_elif = (\<lambda>parentIndent ts pos. OutOfFuel) \<rparr>"
| "py_tbl (Suc n) =
     (let t = py_tbl n
      in \<lparr> py_budget = Suc n,
           py_expression = py_parseExpression t,
           py_not = py_parseNot t,
           py_unary = py_parseUnary t,
           py_statement = py_parseStatement t,
           py_elif = py_parseElif t \<rparr>)"

subsection \<open>The top level\<close>

text \<open>The loop of \<^verbatim>\<open>PythonParser.parse\<close>, which also ends at \<^verbatim>\<open>maxIterations\<close>.\<close>

fun py_parse_loop ::
  "py_table \<Rightarrow> PyToken list \<Rightarrow> nat \<Rightarrow> nat \<Rightarrow> IRNode list \<Rightarrow> nat \<Rightarrow> IRNode list res" where
  "py_parse_loop r ts 0 iterations body pos = OutOfFuel"
| "py_parse_loop r ts (Suc k) iterations body pos =
     (if pos < length ts \<and> iterations < 10000 then
        bind_res (py_parseStatement r 0 ts pos) (\<lambda>(node, p).
          py_parse_loop r ts k (iterations + 1) (body @ option_list node) p)
      else Ok body)"

definition detectImports :: "string \<Rightarrow> string list" where
  "detectImports code =
     map js_trim (filter (\<lambda>line. startsWith (js_trim line) ''import ''
                               \<or> startsWith (js_trim line) ''from '') (split_lines code))"

text \<open>\<^verbatim>\<open>PythonParser.parse\<close>: the handler returns the empty program.\<close>

definition PythonParser_parse :: "nat \<Rightarrow> string \<Rightarrow> IRProgram res" where
  "PythonParser_parse fuel code =
     catch_all
       (bind_res (py_parse_loop (py_tbl fuel) (py_tokenize code) fuel 0 [] 0) (\<lambda>body.
          Ok \<lparr> pbody = body, pimports = detectImports code \<rparr>))"

section \<open>The C back-end (generators/c-generator.ts)\<close>

text \<open>\<^verbatim>\<open>typeMap[type] || 'int'\<close>: the key of an inherited value is its text, which is not in
  the table.\<close>

fun c_mapType :: "DataType \<Rightarrow> bool \<Rightarrow> string" where
  "c_mapType T_int isParam = ''int''"
| "c_mapType T_float isParam = ''float''"
| "c_mapType T_double isParam = ''double''"
| "c_mapType T_char isParam = ''char''"
| "c_mapType T_string isParam = ''char*''"
| "c_mapType T_bool isParam = ''bool''"
| "c_mapType T_void isParam = ''void''"
| "c_mapType T_auto isParam = (if isParam then ''const char*'' else ''int'')"
| "c_mapType (T_inherited v) isParam = ''int''"

fun c_getDefaultValue :: "DataType \<Rightarrow> string" where
  "c_getDefaultValue T_int = ''0''"
| "c_getDefaultValue T_float = ''0.0''"
| "c_getDefaultValue T_double = ''0.0''"
| "c_getDefaultValue T_string = DQ @ DQ"
| "c_getDefaultValue T_bool = ''false''"
| "c_getDefaultValue T_char = [CHR 0x27, CHR 0x5C, CHR ''0'', CHR 0x27]"
| "c_getDefaultValue _ = ''0''"

text \<open>Truthiness of a literal's value.\<close>

fun js_truthy :: "LitValue \<Rightarrow> bool" where
  "js_truthy (V_str s) = (s \<noteq> [])"
| "js_truthy (V_num i) = (i \<noteq> 0)"
| "js_truthy (V_float t) = (t \<noteq> ''0'')"
| "js_truthy (V_bool b) = b"

definition c_generateLiteral :: "LitValue \<Rightarrow> DataType \<Rightarrow> string" where
  "c_generateLiteral v dt =
     (if dt = T_string then DQ @ js_String v @ DQ
      else if dt = T_char then [CHR 0x27] @ js_String v @ [CHR 0x27]
      else if dt = T_bool then (if js_truthy v then ''true'' else ''false'')
      else if v = V_str ''null'' then ''NULL''
      else js_String v)"

definition c_generateIdentifier :: "string \<Rightarrow> string" where
  "c_generateIdentifier name =
     (if name = ''this'' then ''self''
      else if startsWith name ''self.'' then replace_first ''self.'' ''self->'' name
      else name)"

text \<open>\<^verbatim>\<open>CGenerator.generateExpression\<close> with \<^verbatim>\<open>generateBinaryOp\<close> and \<^verbatim>\<open>generateCall\<close>.\<close>

fun c_generateExpression :: "IRNode \<Rightarrow> string" where
  "c_generateExpression (IRLiteral v dt fs) = c_generateLiteral v dt"
| "c_generateExpression (IRIdentifier name) = c_generateIdentifier name"
| "c_generateExpression (IRBinaryOp op l r) =
     c_generateExpression l @ '' '' @ op @ '' '' @ c_generateExpression r"
| "c_generateExpression (IRCall callee cargs isMethod obj) =
     (let args = join '', '' (map c_generateExpression cargs)
      in if callee = ''int'' then ''(int)('' @ args @ '')''
         else if callee = ''float'' then ''(float)('' @ args @ '')''
         else if callee = ''str'' then args
         else if isMethod = Some True \<and> obj \<noteq> None \<and> obj \<noteq> Some [] then
           (let ob = (if obj = Some ''this'' then ''self'' else the obj)
            in ob @ ''->'' @ callee @ ''('' @ ob @ (if args \<noteq> [] then '', '' @ args else [])
               @ '')'')
         else callee @ ''('' @ args @ '')'')"
| "c_generateExpression (IRInput pr tv tt) = ''0''"
| "c_generateExpression (IRUnaryOp op operand) =
     (if op = ''++_post'' then c_generateExpression operand @ ''++''
      else if op = ''--_post'' then c_generateExpression operand @ ''--''
      else op @ c_generateExpression operand)"
| "c_generateExpression _ = []"

definition c_inferType :: "IRNode \<Rightarrow> DataType" where
  "c_inferType node =
     (case node of
        IRLiteral v dt fs \<Rightarrow> dt
      | IRIdentifier name \<Rightarrow> T_auto
      | IRCall callee cargs isMethod obj \<Rightarrow>
          (if callee = ''int'' then T_int else if callee = ''float'' then T_float
           else if callee = ''str'' then T_string else T_auto)
      | _ \<Rightarrow> T_auto)"

text \<open>\<^verbatim>\<open>parseFStringToFormat\<close>: every brace group becomes \<^verbatim>\<open>%s\<close> and an argument.\<close>

definition parseFStringToFormat :: "string \<Rightarrow> string \<times> string list" where
  "parseFStringToFormat str =
     (let gs = brace_groups [] str
      in (concat (map (\<lambda>g. case g of Inl t \<Rightarrow> t | Inr v \<Rightarrow> ''%s'') gs),
          concat (map (\<lambda>g. case g of Inl t \<Rightarrow> [] | Inr v \<Rightarrow> [v]) gs)))"

text \<open>The loop of \<^verbatim>\<open>generatePrint\<close> over the arguments, with the format and the argument
  texts built so far.\<close>

fun c_print_args :: "IRNode list \<Rightarrow> string \<Rightarrow> string list \<Rightarrow> string \<times> string list" where
  "c_print_args [] format args = (format, args)"
| "c_print_args (arg # rest) format args =
     (case arg of
        IRLiteral v T_string fs \<Rightarrow>
          (let (f, a) = parseFStringToFormat (js_String v)
           in c_print_args rest (format @ f) (args @ a))
      | _ \<Rightarrow>
          (let expr = c_generateExpression arg;
               d = (case c_inferType arg of
                      T_int \<Rightarrow> ''%d'' | T_float \<Rightarrow> ''%f'' | T_double \<Rightarrow> ''%f''
                    | T_char \<Rightarrow> ''%c'' | _ \<Rightarrow> ''%s'')
           in c_print_args rest (format @ d) (args @ [expr])))"

definition c_generatePrint :: "nat \<Rightarrow> IRNode list \<Rightarrow> bool option \<Rightarrow> string" where
  "c_generatePrint indent pargs newline =
     (if length pargs = 0 then
        (if newline = Some True then getIndent indent @ ''printf('' @ DQ @ BSN @ DQ @ '');''
         else [])
      else
        (let (format, args) = c_print_args pargs [] [];
             format' = (if newline = Some True \<and> \<not> endsWith format BSN
                        then format @ BSN else format)
         in if length args = 0 then getIndent indent @ ''printf('' @ DQ @ format' @ DQ @ '');''
            else getIndent indent @ ''printf('' @ DQ @ format' @ DQ @ '', '' @ join '', '' args
                 @ '');''))"

definition scanf_format :: "DataType option \<Rightarrow> string" where
  "scanf_format tt = (if tt = Some T_int then ''%d'' else if tt = Some T_float then ''%f'' else ''%s'')"

definition c_generateInput :: "nat \<Rightarrow> string option \<Rightarrow> string option \<Rightarrow> DataType option \<Rightarrow> string" where
  "c_generateInput indent pr tv tt =
     (let ind = getIndent indent;
          scan = (case tv of
                    Some v \<Rightarrow> if v \<noteq> [] then
                        Some (ind @ ''scanf('' @ DQ @ scanf_format tt @ DQ @ '', &'' @ v @ '');'')
                      else None
                  | None \<Rightarrow> None)
      in case pr of
           Some p \<Rightarrow>
             (if p \<noteq> [] then
                (let printLine = ind @ ''printf('' @ DQ @ p @ DQ @ '');'' @ NL
                 in case scan of Some s \<Rightarrow> printLine @ s | None \<Rightarrow> printLine)
              else (case scan of Some s \<Rightarrow> s | None \<Rightarrow> []))
         | None \<Rightarrow> (case scan of Some s \<Rightarrow> s | None \<Rightarrow> []))"

text \<open>Sequencing for a generator that may throw.\<close>

fun bind_gen :: "js_error + 'a \<Rightarrow> ('a \<Rightarrow> js_error + 'b) \<Rightarrow> js_error + 'b" where
  "bind_gen (Inl e) f = Inl e"
| "bind_gen (Inr x) f = f x"

lemma bind_gen_cong [fundef_cong]:
  "m = m' \<Longrightarrow> (\<And>x. m' = Inr x \<Longrightarrow> f x = f' x) \<Longrightarrow> bind_gen m f = bind_gen m' f'"
  by (cases m') simp_all

text \<open>\<^verbatim>\<open>for (const stmt of body) { const c = gen(stmt); if (c) code += c + '\n'; }\<close>: the text
  appended for a body.\<close>

primrec gen_lines :: "(IRNode \<Rightarrow> js_error + string) \<Rightarrow> IRNode list \<Rightarrow> js_error + string" where
  "gen_lines g [] = Inr []"
| "gen_lines g (stmt # rest) =
     bind_gen (g stmt) (\<lambda>code.
       bind_gen (gen_lines g rest) (\<lambda>more.
         Inr ((if code \<noteq> [] then code @ NL else []) @ more)))"

lemma gen_lines_cong [fundef_cong]:
  "xs = ys \<Longrightarrow> (\<And>x. x \<in> set ys \<Longrightarrow> g x = h x) \<Longrightarrow> gen_lines g xs = gen_lines h ys"
  by (induction ys arbitrary: xs) auto

text \<open>\<^verbatim>\<open>for (const node of nodes) { const c = gen(node); if (c) lines.push(c); }\<close>: the lines
  pushed.\<close>

primrec gen_push :: "(IRNode \<Rightarrow> js_error + string) \<Rightarrow> IRNode list \<Rightarrow> js_error + string list" where
  "gen_push g [] = Inr []"
| "gen_push g (node # rest) =
     bind_gen (g node) (\<lambda>code.
       bind_gen (gen_push g rest) (\<lambda>more.
         Inr ((if code \<noteq> [] then [code] else []) @ more)))"

lemma gen_push_cong [fundef_cong]:
  "xs = ys \<Longrightarrow> (\<And>x. x \<in> set ys \<Longrightarrow> g x = h x) \<Longrightarrow> gen_push g xs = gen_push h ys"
  by (induction ys arbitrary: xs) auto

definition undefined_type_error :: "string \<Rightarrow> js_error" where
  "undefined_type_error prop =
     TypeError (''Cannot read properties of undefined (reading '' @ [CHR 0x27] @ prop
                @ [CHR 0x27] @ '')'')"

definition c_param_text :: "IRVar \<Rightarrow> string" where
  "c_param_text p = (case p of (name, dt, v) \<Rightarrow>
     if dt = T_string then ''char '' @ name @ ''[]'' else c_mapType dt True @ '' '' @ name)"

definition c_member_decl :: "nat \<Rightarrow> IRVar \<Rightarrow> string" where
  "c_member_decl indent m = (case m of (name, dt, v) \<Rightarrow>
     if dt = T_string then getIndent indent @ ''char '' @ name @ ''[256];'' @ NL
     else getIndent indent @ c_mapType dt False @ '' '' @ name @ '';'' @ NL)"

definition c_typed_params :: "IRVar list \<Rightarrow> string" where
  "c_typed_params ps = join '', '' (map (\<lambda>(name, dt, v). c_mapType dt False @ '' '' @ name) ps)"

definition c_param_types :: "IRVar list \<Rightarrow> string" where
  "c_param_types ps = join '', '' (map (\<lambda>(name, dt, v). c_mapType dt False) ps)"

text \<open>The init part of a classic loop header.\<close>

definition c_for_init :: "IRNode option \<Rightarrow> string" where
  "c_for_init init =
     (case init of
        None \<Rightarrow> []
      | Some (IRVariable name dt v) \<Rightarrow>
          c_mapType dt False @ '' '' @ name @ '' = ''
          @ (case v of Some e \<Rightarrow> c_generateExpression e | None \<Rightarrow> ''0'')
      | Some e \<Rightarrow> c_generateExpression e)"

text \<open>
  \<^verbatim>\<open>generateIf\<close> on an \<^verbatim>\<open>elseIf\<close> that is no If node. The first step is
  \<^verbatim>\<open>generateExpression(node.condition)\<close>: a While node and a For node with a condition
  have one, and the loop over \<^verbatim>\<open>node.thenBranch\<close>, which is undefined, throws next; any
  other node has no \<^verbatim>\<open>condition\<close>, and \<^verbatim>\<open>generateExpression\<close> reads \<^verbatim>\<open>type\<close> of
  \<^verbatim>\<open>undefined\<close>.
\<close>

definition node_condition :: "IRNode \<Rightarrow> IRNode option" where
  "node_condition node =
     (case node of
        IRIf cond thenB elseB elseIf \<Rightarrow> Some cond
      | IRWhile cond wbody \<Rightarrow> Some cond
      | IRFor init cond upd iter rs re rst fbody \<Rightarrow> cond
      | _ \<Rightarrow> None)"

definition c_elseIf_error :: "IRNode \<Rightarrow> js_error" where
  "c_elseIf_error node =
     (case node_condition node of
        Some cond \<Rightarrow> TypeError ''node.thenBranch is not iterable''
      | None \<Rightarrow> undefined_type_error ''type'')"

text \<open>
  \<^verbatim>\<open>CGenerator.generateNode\<close> with the generators of the statement nodes; \<open>indent\<close> is the
  indent counter at the call. A class node without an own \<^verbatim>\<open>constructor\<close> property makes
  \<^verbatim>\<open>node.constructor?.params.length\<close> read \<^verbatim>\<open>params\<close> of \<^verbatim>\<open>Object\<close>, which is undefined,
  and throws.
\<close>

fun c_generateNode :: "nat \<Rightarrow> IRNode \<Rightarrow> js_error + string" where
  "c_generateNode indent (IRComment txt multi) =
     Inr (if multi = Some True then
            getIndent indent @ ''/*'' @ NL @ getIndent indent @ '' * '' @ txt
              @ NL @ getIndent indent @ '' */''
          else getIndent indent @ ''// '' @ txt)"
| "c_generateNode indent (IRVariable name dt v) =
     Inr (if dt = T_string then
            getIndent indent @ ''char '' @ name @ ''[256] = ''
              @ (case v of Some e \<Rightarrow> c_generateExpression e | None \<Rightarrow> DQ @ DQ)
              @ '';''
          else case v of
            Some e \<Rightarrow> getIndent indent @ c_mapType dt False @ '' '' @ name @ '' = ''
                        @ c_generateExpression e @ '';''
          | None \<Rightarrow> getIndent indent @ c_mapType dt False @ '' '' @ name @ '';'')"
| "c_generateNode indent (IRFunction name ps rt fbody) =
     (let params = join '', '' (map c_param_text ps)
      in bind_gen (gen_lines (c_generateNode (Suc indent)) fbody) (\<lambda>code.
           Inr (getIndent indent @ c_mapType rt False @ '' '' @ name @ ''(''
                @ (if params \<noteq> [] then params else ''void'') @ '') {'' @ NL
                @ code @ getIndent indent @ ''}'')))"
| "c_generateNode indent (IRClass name mems meths ctor mainM statics) =
     (let ind = getIndent indent
      in case (mainM, meths = [] \<and> mems = []) of
           (Some (mn, mps, mrt, mbody), True) \<Rightarrow>
             bind_gen (gen_lines (c_generateNode (Suc indent)) mbody) (\<lambda>code.
               Inr (ind @ ''int main() {'' @ NL @ code
                    @ getIndent (Suc indent) @ ''return 0;'' @ NL @ ind @ ''}''))
         | _ \<Rightarrow>
             bind_gen
               (foldr (\<lambda>(fn, fps, frt, fb) acc.
                   bind_gen (gen_lines (c_generateNode (Suc indent)) fb) (\<lambda>code.
                     bind_gen acc (\<lambda>more.
                       Inr (ind @ c_mapType frt False @ '' '' @ name @ ''_'' @ fn @ ''('' @ name
                            @ ''* self'' @ (if c_typed_params fps \<noteq> []
                                            then '', '' @ c_typed_params fps else [])
                            @ '') {'' @ NL @ code @ ind @ ''}'' @ NL @ NL
                            @ more))))
                  meths (Inr []))
               (\<lambda>impls.
             bind_gen
               (case ctor of
                  Absent \<Rightarrow> Inl (undefined_type_error ''length'')
                | Own None \<Rightarrow> Inr []
                | Own (Some (cn, cps, crt, cb)) \<Rightarrow>
                    Inr (if length cps \<noteq> 0 then '', '' @ c_typed_params cps else []))
               (\<lambda>ctorParams.
             bind_gen
               (case mainM of
                  None \<Rightarrow> Inr []
                | Some (mn, mps, mrt, mbody) \<Rightarrow>
                    bind_gen (gen_lines (c_generateNode (Suc indent)) mbody) (\<lambda>code.
                      Inr (NL @ ind @ ''int main() {'' @ NL @ code
                           @ getIndent (Suc indent) @ ''return 0;'' @ NL @ ind @ ''}'')))
               (\<lambda>mainCode.
                 Inr (ind @ ''typedef struct '' @ name @ '' '' @ name @ '';'' @ NL @ NL
                      @ ind @ ''struct '' @ name @ '' {'' @ NL
                      @ concat (map (c_member_decl (Suc indent)) mems)
                      @ concat (map (\<lambda>(fn, fps, frt, fb).
                          getIndent (Suc indent) @ c_mapType frt False @ '' (*'' @ fn @ '')(''
                          @ name @ ''*'' @ (if c_param_types fps \<noteq> []
                                            then '', '' @ c_param_types fps else [])
                          @ '');'' @ NL) meths)
                      @ ind @ ''};'' @ NL @ NL
                      @ impls
                      @ ind @ ''void '' @ name @ ''_init('' @ name @ ''* self'' @ ctorParams
                      @ '') {'' @ NL
                      @ concat (map (\<lambda>(mname, dt, v).
                          getIndent (Suc indent) @ ''self->'' @ mname @ '' = ''
                          @ c_getDefaultValue dt @ '';'' @ NL) mems)
                      @ concat (map (\<lambda>(fn, fps, frt, fb).
                          getIndent (Suc indent) @ ''self->'' @ fn @ '' = '' @ name @ ''_'' @ fn
                          @ '';'' @ NL) meths)
                      @ ind @ ''}'' @ NL
                      @ mainCode)))))"
| "c_generateNode indent (IRIf cond thenB elseB elseIf) =
     bind_gen (gen_lines (c_generateNode (Suc indent)) thenB) (\<lambda>thenCode.
       (let head = getIndent indent @ ''if ('' @ c_generateExpression cond @ '') {'' @ NL
                   @ thenCode @ getIndent indent @ ''}''
        in case elseIf of
             Some (IRIf c2 t2 e2 ei2) \<Rightarrow>
               bind_gen (c_generateNode indent (IRIf c2 t2 e2 ei2)) (\<lambda>code.
                 Inr (head @ '' else '' @ trimStart code))
           | Some other \<Rightarrow> Inl (c_elseIf_error other)
           | None \<Rightarrow>
               (case elseB of
                  Some (s # ss) \<Rightarrow>
                    bind_gen (gen_lines (c_generateNode (Suc indent)) (s # ss)) (\<lambda>elseCode.
                      Inr (head @ '' else {'' @ NL @ elseCode @ getIndent indent @ ''}''))
                | _ \<Rightarrow> Inr head)))"
| "c_generateNode indent (IRFor init cond upd iter rs re rst fbody) =
     bind_gen (gen_lines (c_generateNode (Suc indent)) fbody) (\<lambda>code.
       (let ind = getIndent indent
        in case (iter, re) of
             (Some it, Some e) \<Rightarrow>
               if it \<noteq> [] then
                 Inr (ind @ ''for (int '' @ it @ '' = ''
                      @ (case rs of Some s \<Rightarrow> c_generateExpression s | None \<Rightarrow> ''0'')
                      @ ''; '' @ it @ '' < '' @ c_generateExpression e @ ''; '' @ it @ '' += ''
                      @ (case rst of Some s \<Rightarrow> c_generateExpression s | None \<Rightarrow> ''1'')
                      @ '') {'' @ NL @ code @ ind @ ''}'')
               else Inr (ind @ ''for ('' @ c_for_init init @ ''; ''
                         @ (case cond of Some e' \<Rightarrow> c_generateExpression e' | None \<Rightarrow> [])
                         @ ''; '' @ (case upd of Some e' \<Rightarrow> c_generateExpression e' | None \<Rightarrow> [])
                         @ '') {'' @ NL @ code @ ind @ ''}'')
           | _ \<Rightarrow> Inr (ind @ ''for ('' @ c_for_init init @ ''; ''
                       @ (case cond of Some e' \<Rightarrow> c_generateExpression e' | None \<Rightarrow> [])
                       @ ''; '' @ (case upd of Some e' \<Rightarrow> c_generateExpression e' | None \<Rightarrow> [])
                       @ '') {'' @ NL @ code @ ind @ ''}'')))"
| "c_generateNode indent (IRWhile cond wbody) =
     bind_gen (gen_lines (c_generateNode (Suc indent)) wbody) (\<lambda>code.
       Inr (getIndent indent @ ''while ('' @ c_generateExpression cond @ '') {'' @ NL
            @ code @ getIndent indent @ ''}''))"
| "c_generateNode indent (IRReturn v) =
     Inr (case v of
            Some e \<Rightarrow> getIndent indent @ ''return '' @ c_generateExpression e @ '';''
          | None \<Rightarrow> getIndent indent @ ''return;'')"
| "c_generateNode indent (IRPrint pargs newline) = Inr (c_generatePrint indent pargs newline)"
| "c_generateNode indent (IRInput pr tv tt) = Inr (c_generateInput indent pr tv tt)"
| "c_generateNode indent (IRAssignment target v) =
     Inr (getIndent indent @ replace_first ''self.'' ''self->'' target @ '' = ''
          @ c_generateExpression v @ '';'')"
| "c_generateNode indent (IRCall callee cargs isMethod obj) =
     Inr (getIndent indent @ c_generateExpression (IRCall callee cargs isMethod obj) @ '';'')"
| "c_generateNode indent (IRBinaryOp op l r) =
     Inr (getIndent indent @ c_generateExpression (IRBinaryOp op l r) @ '';'')"
| "c_generateNode indent _ = Inr []"

text \<open>
  \<^verbatim>\<open>analyzeProgram\<close>: which headers are needed. The walk visits the bodies of functions,
  the members and methods of classes, both branches of an If and the bodies of loops.
  The result is (usesStdio, usesString, usesBool).
\<close>

definition flags_or :: "bool \<times> bool \<times> bool \<Rightarrow> bool \<times> bool \<times> bool \<Rightarrow> bool \<times> bool \<times> bool" where
  "flags_or a b = (case (a, b) of ((a1, a2, a3), (b1, b2, b3)) \<Rightarrow> (a1 \<or> b1, a2 \<or> b2, a3 \<or> b3))"

definition flags_all :: "(bool \<times> bool \<times> bool) list \<Rightarrow> bool \<times> bool \<times> bool" where
  "flags_all fs = foldr flags_or fs (False, False, False)"

fun c_analyze :: "IRNode \<Rightarrow> bool \<times> bool \<times> bool" where
  "c_analyze (IRPrint pargs nl) = (True, False, False)"
| "c_analyze (IRInput pr tv tt) = (True, False, False)"
| "c_analyze (IRVariable name dt v) = (False, dt = T_string, dt = T_bool)"
| "c_analyze (IRFunction name ps rt fbody) =
     flags_or (flags_all (map c_analyze fbody))
       (False, False, \<exists>(pn, dt, v) \<in> set ps. dt = T_bool)"
| "c_analyze (IRClass name mems meths ctor mainM statics) =
     flags_or (False, \<exists>(mn, dt, v) \<in> set mems. dt = T_string, \<exists>(mn, dt, v) \<in> set mems. dt = T_bool)
       (flags_all (map (\<lambda>(fn, fps, frt, fb).
          flags_or (flags_all (map c_analyze fb))
            (False, False, \<exists>(pn, dt, v) \<in> set fps. dt = T_bool)) meths))"
| "c_analyze (IRIf cond thenB elseB elseIf) =
     flags_or (flags_all (map c_analyze thenB))
       (case elseB of Some eb \<Rightarrow> flags_all (map c_analyze eb) | None \<Rightarrow> (False, False, False))"
| "c_analyze (IRFor init cond upd iter rs re rst fbody) = flags_all (map c_analyze fbody)"
| "c_analyze (IRWhile cond wbody) = flags_all (map c_analyze wbody)"
| "c_analyze _ = (False, False, False)"

definition is_main_function :: "IRNode \<Rightarrow> bool" where
  "is_main_function node = (case node of IRFunction name ps rt fbody \<Rightarrow> name = ''main'' | _ \<Rightarrow> False)"

text \<open>The lines for one top-level function: \<^verbatim>\<open>main\<close> is rewritten to \<^verbatim>\<open>int main()\<close> with a
  final \<^verbatim>\<open>return 0;\<close>.\<close>

definition c_top_function :: "IRNode \<Rightarrow> js_error + string list" where
  "c_top_function func =
     (case func of
        IRFunction name ps rt fbody \<Rightarrow>
          if name = ''main'' then
            bind_gen (gen_push (c_generateNode 1) fbody) (\<lambda>ls.
              Inr ([''int main() {''] @ ls @ [getIndent 1 @ ''return 0;'', ''}'']))
          else gen_push (c_generateNode 0) [func]
      | _ \<Rightarrow> Inr [])"

primrec c_top_functions :: "IRNode list \<Rightarrow> js_error + string list" where
  "c_top_functions [] = Inr []"
| "c_top_functions (f # fs) =
     bind_gen (c_top_function f) (\<lambda>ls. bind_gen (c_top_functions fs) (\<lambda>more. Inr (ls @ more)))"

text \<open>\<^verbatim>\<open>CGenerator.generate\<close>.\<close>

definition CGenerator_generate :: "IRProgram \<Rightarrow> js_error + string" where
  "CGenerator_generate ir =
     (let (usesStdio, usesString, usesBool) = flags_all (map c_analyze (pbody ir));
          includes = (if usesStdio then [''#include <stdio.h>''] else [])
                   @ (if usesString then [''#include <string.h>''] else [])
                   @ (if usesBool then [''#include <stdbool.h>''] else []);
          header = (if length includes > 0 then includes @ [[]] else includes);
          functions = filter isIRFunction (pbody ir);
          classes = filter isIRClass (pbody ir);
          mainContent = filter (\<lambda>n. \<not> isIRFunction n \<and> \<not> isIRClass n) (pbody ir)
      in bind_gen (gen_push (c_generateNode 0) classes) (\<lambda>classLines.
         bind_gen (c_top_functions functions) (\<lambda>functionLines.
         bind_gen
           (if length mainContent > 0 \<and> \<not> (\<exists>f \<in> set functions. is_main_function f) then
              bind_gen (gen_push (c_generateNode 1) mainContent) (\<lambda>ls.
                Inr ([''int main() {''] @ ls @ [getIndent 1 @ ''return 0;'', ''}'']))
            else Inr [])
           (\<lambda>mainLines.
              Inr (join NL (header @ classLines @ functionLines @ mainLines))))))"

section \<open>The JV back-end (generators/java-generator.ts)\<close>

text \<open>\<^verbatim>\<open>s.replace(/sub/g, by)\<close> for a pattern that is a fixed, non-empty text: every match,
  from left to right, without overlap.\<close>

fun replace_all :: "string \<Rightarrow> string \<Rightarrow> string \<Rightarrow> string" where
  "replace_all sub by [] = []"
| "replace_all sub by (x # xs) =
     (if sub \<noteq> [] \<and> take (length sub) (x # xs) = sub
      then by @ replace_all sub by (drop (length sub - 1) xs)
      else x # replace_all sub by xs)"

text \<open>\<^verbatim>\<open>ch === ch.toUpperCase()\<close> for one character below 256: false exactly for the
  letters that have another upper-case form.\<close>

definition is_own_upper :: "char \<Rightarrow> bool" where
  "is_own_upper ch =
     (let n = (of_char ch :: nat)
      in \<not> ((97 \<le> n \<and> n \<le> 122) \<or> n = 181 \<or> (223 \<le> n \<and> n \<le> 246) \<or> (248 \<le> n \<and> n \<le> 255)))"

fun j_mapType :: "DataType \<Rightarrow> bool \<Rightarrow> bool \<Rightarrow> string" where
  "j_mapType T_int isParam isReturnType = ''int''"
| "j_mapType T_float isParam isReturnType = ''float''"
| "j_mapType T_double isParam isReturnType = ''double''"
| "j_mapType T_char isParam isReturnType = ''char''"
| "j_mapType T_string isParam isReturnType = ''String''"
| "j_mapType T_bool isParam isReturnType = ''boolean''"
| "j_mapType T_void isParam isReturnType = ''void''"
| "j_mapType T_auto isParam isReturnType =
     (if isReturnType then ''void'' else if isParam then ''String'' else ''Object'')"
| "j_mapType (T_inherited v) isParam isReturnType = ''Object''"

fun j_getDefaultValue :: "DataType \<Rightarrow> string" where
  "j_getDefaultValue T_int = ''0''"
| "j_getDefaultValue T_float = ''0.0''"
| "j_getDefaultValue T_double = ''0.0''"
| "j_getDefaultValue T_string = DQ @ DQ"
| "j_getDefaultValue T_bool = ''false''"
| "j_getDefaultValue T_char = [CHR 0x27, CHR '' '', CHR 0x27]"
| "j_getDefaultValue _ = ''null''"

definition j_generateLiteral :: "LitValue \<Rightarrow> DataType \<Rightarrow> string" where
  "j_generateLiteral v dt =
     (if dt = T_string then DQ @ js_String v @ DQ
      else if dt = T_char then [CHR 0x27] @ js_String v @ [CHR 0x27]
      else if dt = T_bool then (if js_truthy v then ''true'' else ''false'')
      else if v = V_str ''null'' then ''null''
      else if dt = T_float then js_String v @ ''f''
      else js_String v)"

definition j_generateIdentifier :: "string \<Rightarrow> string" where
  "j_generateIdentifier name =
     (if name = ''self'' then ''this''
      else if startsWith name ''self.'' then replace_first ''self.'' ''this.'' name
      else name)"

definition scanner_method :: "DataType option \<Rightarrow> string" where
  "scanner_method tt =
     (if tt = Some T_int then ''nextInt()'' else if tt = Some T_float then ''nextFloat()''
      else ''nextLine()'')"

text \<open>A loop that calls a throwing generator on every element and keeps the results.\<close>

primrec map_gen :: "('a \<Rightarrow> js_error + 'b) \<Rightarrow> 'a list \<Rightarrow> js_error + 'b list" where
  "map_gen g [] = Inr []"
| "map_gen g (x # xs) =
     bind_gen (g x) (\<lambda>y. bind_gen (map_gen g xs) (\<lambda>ys. Inr (y # ys)))"

lemma map_gen_cong [fundef_cong]:
  "xs = ys \<Longrightarrow> (\<And>x. x \<in> set ys \<Longrightarrow> g x = h x) \<Longrightarrow> map_gen g xs = map_gen h ys"
  by (induction ys arbitrary: xs) auto

text \<open>
  \<^verbatim>\<open>JavaGenerator.generateExpression\<close> with \<^verbatim>\<open>generateBinaryOp\<close> and \<^verbatim>\<open>generateCall\<close>. A call
  that is no conversion and no method call reads \<^verbatim>\<open>callee[0].toUpperCase()\<close>, which throws
  for an empty callee.
\<close>

fun j_generateExpression :: "IRNode \<Rightarrow> js_error + string" where
  "j_generateExpression (IRLiteral v dt fs) = Inr (j_generateLiteral v dt)"
| "j_generateExpression (IRIdentifier name) = Inr (j_generateIdentifier name)"
| "j_generateExpression (IRBinaryOp op l r) =
     bind_gen (j_generateExpression l) (\<lambda>lt.
       bind_gen (j_generateExpression r) (\<lambda>rt. Inr (lt @ '' '' @ op @ '' '' @ rt)))"
| "j_generateExpression (IRCall callee cargs isMethod obj) =
     bind_gen (map_gen j_generateExpression cargs) (\<lambda>ts.
       (let args = join '', '' ts
        in if callee = ''int'' then Inr (''Integer.parseInt('' @ args @ '')'')
           else if callee = ''float'' then Inr (''Float.parseFloat('' @ args @ '')'')
           else if callee = ''str'' then Inr (''String.valueOf('' @ args @ '')'')
           else if isMethod = Some True \<and> obj \<noteq> None \<and> obj \<noteq> Some [] then
             Inr ((if obj = Some ''self'' then ''this'' else the obj) @ ''.'' @ callee
                  @ ''('' @ args @ '')'')
           else (case callee of
                   [] \<Rightarrow> Inl (undefined_type_error ''toUpperCase'')
                 | ch # rest \<Rightarrow>
                     if is_own_upper ch \<and> isMethod \<noteq> Some True
                     then Inr (''new '' @ callee @ ''('' @ args @ '')'')
                     else Inr (callee @ ''('' @ args @ '')''))))"
| "j_generateExpression (IRInput pr tv tt) = Inr (''scanner.'' @ scanner_method tt)"
| "j_generateExpression (IRUnaryOp op operand) =
     bind_gen (j_generateExpression operand) (\<lambda>t.
       Inr (if op = ''++_post'' then t @ ''++''
            else if op = ''--_post'' then t @ ''--''
            else op @ t))"
| "j_generateExpression _ = Inr []"

text \<open>\<^verbatim>\<open>parseFString\<close>: a trailing \<^verbatim>\<open>\n\<close> escape goes, every brace group \<^verbatim>\<open>{v}\<close> becomes
  \<^verbatim>\<open>" + v + "\<close>, the result is quoted, and empty quoted pieces next to a plus go.\<close>

definition j_parseFString :: "string \<Rightarrow> string" where
  "j_parseFString str =
     (let cleaned = (if endsWith str BSN then take (length str - 2) str else str);
          result = concat (map (\<lambda>g. case g of Inl t \<Rightarrow> t | Inr v \<Rightarrow> DQ @ '' + '' @ v @ '' + '' @ DQ)
                             (brace_groups [] cleaned))
      in replace_all ('' + '' @ DQ @ DQ) []
           (replace_all (DQ @ DQ @ '' + '') [] (DQ @ result @ DQ)))"

definition j_generatePrint :: "nat \<Rightarrow> IRNode list \<Rightarrow> bool option \<Rightarrow> js_error + string" where
  "j_generatePrint indent pargs newline =
     (let method = (if newline = Some True then ''println'' else ''print'')
      in if length pargs = 0 then Inr (getIndent indent @ ''System.out.'' @ method @ ''();'')
         else bind_gen
                (map_gen (\<lambda>arg. case arg of
                            IRLiteral v T_string fs \<Rightarrow> Inr (j_parseFString (js_String v))
                          | _ \<Rightarrow> j_generateExpression arg) pargs)
                (\<lambda>parts. Inr (getIndent indent @ ''System.out.'' @ method @ ''(''
                               @ join ('' + '' @ DQ @ '' '' @ DQ @ '' + '') parts @ '');'')))"

definition j_generateInput :: "nat \<Rightarrow> string option \<Rightarrow> string option \<Rightarrow> DataType option \<Rightarrow> string" where
  "j_generateInput indent pr tv tt =
     (case pr of
        Some p \<Rightarrow> if p \<noteq> [] then getIndent indent @ ''System.out.print('' @ DQ @ p @ DQ @ '');''
                               @ NL else []
      | None \<Rightarrow> [])
     @ (case tv of
          Some v \<Rightarrow> if v \<noteq> [] then getIndent indent @ v @ '' = scanner.'' @ scanner_method tt
                                 @ '';'' else []
        | None \<Rightarrow> [])"

text \<open>\<^verbatim>\<open>typeof value === 'number'\<close> for the value of a return statement that is a literal.\<close>

definition is_number_literal :: "IRNode option \<Rightarrow> bool" where
  "is_number_literal v =
     (case v of
        Some (IRLiteral (V_num i) dt fs) \<Rightarrow> True
      | Some (IRLiteral (V_float t) dt fs) \<Rightarrow> True
      | _ \<Rightarrow> False)"

definition j_typed_params :: "bool \<Rightarrow> IRVar list \<Rightarrow> string" where
  "j_typed_params isParam ps =
     join '', '' (map (\<lambda>(name, dt, v). j_mapType dt isParam False @ '' '' @ name) ps)"

definition j_for_init :: "IRNode option \<Rightarrow> js_error + string" where
  "j_for_init init =
     (case init of
        None \<Rightarrow> Inr []
      | Some (IRVariable name dt v) \<Rightarrow>
          bind_gen (case v of Some e \<Rightarrow> j_generateExpression e | None \<Rightarrow> Inr ''0'') (\<lambda>value.
            Inr (j_mapType dt False False @ '' '' @ name @ '' = '' @ value))
      | Some e \<Rightarrow> j_generateExpression e)"

definition opt_expr :: "IRNode option \<Rightarrow> string \<Rightarrow> js_error + string" where
  "opt_expr e dflt = (case e of Some x \<Rightarrow> j_generateExpression x | None \<Rightarrow> Inr dflt)"

text \<open>The text of one method of a class, and of the class around its parts
  (\<^verbatim>\<open>generateClass\<close>).\<close>

definition j_method_text :: "nat \<Rightarrow> string \<Rightarrow> IRVar list \<Rightarrow> DataType \<Rightarrow> string \<Rightarrow> string" where
  "j_method_text indent fn fps frt code =
     NL @ getIndent (Suc indent) @ ''public '' @ j_mapType frt False False @ '' '' @ fn @ ''(''
     @ j_typed_params False fps @ '') {'' @ NL @ code @ getIndent (Suc indent) @ ''}'' @ NL"

definition j_class_text ::
  "bool \<Rightarrow> nat \<Rightarrow> string \<Rightarrow> IRVar list \<Rightarrow> string \<Rightarrow> string \<Rightarrow> string list \<Rightarrow> string" where
  "j_class_text usesScanner indent name mems ctorParams ctorBody methodCodes =
     getIndent indent @ ''public class '' @ name @ '' {'' @ NL
     @ (if usesScanner
        then getIndent (Suc indent) @ ''static Scanner scanner = new Scanner(System.in);''
             @ NL @ NL
        else [])
     @ concat (map (\<lambda>(mn, dt, v).
         getIndent (Suc indent) @ ''private '' @ j_mapType dt False False @ '' '' @ mn
         @ '';'' @ NL) mems)
     @ (if length mems > 0 then NL else [])
     @ getIndent (Suc indent) @ ''public '' @ name @ ''('' @ ctorParams @ '') {'' @ NL
     @ concat (map (\<lambda>(mn, dt, v).
         getIndent (Suc (Suc indent)) @ ''this.'' @ mn @ '' = '' @ j_getDefaultValue dt
         @ '';'' @ NL) mems)
     @ ctorBody
     @ getIndent (Suc indent) @ ''}'' @ NL
     @ concat methodCodes
     @ getIndent indent @ ''}''"

text \<open>
  \<^verbatim>\<open>generateIf\<close> on an \<^verbatim>\<open>elseIf\<close> that is no If node: as in the C back-end, with the
  exceptions of \<^verbatim>\<open>generateExpression\<close> on the condition first.
\<close>

definition j_elseIf_error :: "IRNode \<Rightarrow> js_error + string" where
  "j_elseIf_error node =
     (case node_condition node of
        Some cond \<Rightarrow>
          bind_gen (j_generateExpression cond) (\<lambda>condition.
            Inl (TypeError ''node.thenBranch is not iterable''))
      | None \<Rightarrow> Inl (undefined_type_error ''type''))"

text \<open>
  \<^verbatim>\<open>JavaGenerator.generateNode\<close> with the generators of the statement nodes. \<open>inMain\<close> is
  the flag \<^verbatim>\<open>isInsideVoidMain\<close>, \<open>usesScanner\<close> the flag set by the analysis, \<open>indent\<close> the
  indent counter at the call.
\<close>

fun j_generateNode :: "bool \<Rightarrow> bool \<Rightarrow> nat \<Rightarrow> IRNode \<Rightarrow> js_error + string" where
  "j_generateNode inMain usesScanner indent (IRComment txt multi) =
     Inr (if multi = Some True then
            getIndent indent @ ''/*'' @ NL @ getIndent indent @ '' * '' @ txt @ NL
              @ getIndent indent @ '' */''
          else getIndent indent @ ''// '' @ txt)"
| "j_generateNode inMain usesScanner indent (IRVariable name dt v) =
     (case v of
        Some (IRInput pr tv tt) \<Rightarrow>
          Inr ((case pr of
                  Some p \<Rightarrow> if p \<noteq> [] then getIndent indent @ ''System.out.print('' @ DQ @ p
                                                @ DQ @ '');'' @ NL else []
                | None \<Rightarrow> [])
               @ getIndent indent @ j_mapType dt False False @ '' '' @ name @ '' = scanner.''
               @ (if dt = T_int then ''nextInt()'' else if dt = T_float then ''nextFloat()''
                  else ''nextLine()'') @ '';'')
      | Some e \<Rightarrow>
          bind_gen (j_generateExpression e) (\<lambda>t.
            Inr (getIndent indent @ j_mapType dt False False @ '' '' @ name @ '' = '' @ t @ '';''))
      | None \<Rightarrow> Inr (getIndent indent @ j_mapType dt False False @ '' '' @ name @ '';''))"
| "j_generateNode inMain usesScanner indent (IRFunction name ps rt fbody) =
     bind_gen (gen_lines (j_generateNode inMain usesScanner (Suc indent)) fbody) (\<lambda>code.
       Inr (getIndent indent @ ''public '' @ j_mapType rt False True @ '' '' @ name @ ''(''
            @ j_typed_params True ps @ '') {'' @ NL @ code @ getIndent indent @ ''}''))"
| "j_generateNode inMain usesScanner indent (IRClass name mems meths Absent mainM statics) =
     Inl (undefined_type_error ''map'')"
| "j_generateNode inMain usesScanner indent (IRClass name mems meths (Own None) mainM statics) =
     bind_gen
       (map_gen (\<lambda>(fn, fps, frt, fb).
           bind_gen (gen_lines (j_generateNode inMain usesScanner (Suc (Suc indent))) fb)
             (\<lambda>code. Inr (j_method_text indent fn fps frt code)))
          meths)
       (\<lambda>methodCodes. Inr (j_class_text usesScanner indent name mems [] [] methodCodes))"
| "j_generateNode inMain usesScanner indent
     (IRClass name mems meths (Own (Some (cn, cps, crt, cb))) mainM statics) =
     bind_gen (gen_lines (j_generateNode inMain usesScanner (Suc (Suc indent))) cb) (\<lambda>ctorBody.
     bind_gen
       (map_gen (\<lambda>(fn, fps, frt, fb).
           bind_gen (gen_lines (j_generateNode inMain usesScanner (Suc (Suc indent))) fb)
             (\<lambda>code. Inr (j_method_text indent fn fps frt code)))
          meths)
       (\<lambda>methodCodes.
          Inr (j_class_text usesScanner indent name mems (j_typed_params False cps) ctorBody
                 methodCodes)))"
| "j_generateNode inMain usesScanner indent (IRIf cond thenB elseB elseIf) =
     bind_gen (j_generateExpression cond) (\<lambda>condition.
     bind_gen (gen_lines (j_generateNode inMain usesScanner (Suc indent)) thenB) (\<lambda>thenCode.
       (let head = getIndent indent @ ''if ('' @ condition @ '') {'' @ NL @ thenCode
                   @ getIndent indent @ ''}''
        in case elseIf of
             Some (IRIf c2 t2 e2 ei2) \<Rightarrow>
               bind_gen (j_generateNode inMain usesScanner indent (IRIf c2 t2 e2 ei2)) (\<lambda>code.
                 Inr (head @ '' else '' @ trimStart code))
           | Some other \<Rightarrow> j_elseIf_error other
           | None \<Rightarrow>
               (case elseB of
                  Some (s # ss) \<Rightarrow>
                    bind_gen (gen_lines (j_generateNode inMain usesScanner (Suc indent)) (s # ss))
                      (\<lambda>elseCode.
                        Inr (head @ '' else {'' @ NL @ elseCode @ getIndent indent @ ''}''))
                | _ \<Rightarrow> Inr head))))"
| "j_generateNode inMain usesScanner indent (IRFor init cond upd iter rs re rst fbody) =
     (let ind = getIndent indent;
          ranged = (case (iter, re) of (Some it, Some e) \<Rightarrow> it \<noteq> [] | _ \<Rightarrow> False)
      in bind_gen
           (if ranged then
              bind_gen (opt_expr rs ''0'') (\<lambda>start.
              bind_gen (opt_expr re []) (\<lambda>stop.
              bind_gen (opt_expr rst ''1'') (\<lambda>step.
                Inr (ind @ ''for (int '' @ the iter @ '' = '' @ start @ ''; '' @ the iter @ '' < ''
                     @ stop @ ''; '' @ the iter @ '' += '' @ step @ '') {'' @ NL))))
            else
              bind_gen (j_for_init init) (\<lambda>i.
              bind_gen (opt_expr cond []) (\<lambda>condition.
              bind_gen (opt_expr upd []) (\<lambda>u.
                Inr (ind @ ''for ('' @ i @ ''; '' @ condition @ ''; '' @ u @ '') {'' @ NL)))))
           (\<lambda>head.
         bind_gen (gen_lines (j_generateNode inMain usesScanner (Suc indent)) fbody) (\<lambda>code.
           Inr (head @ code @ ind @ ''}''))))"
| "j_generateNode inMain usesScanner indent (IRWhile cond wbody) =
     bind_gen (j_generateExpression cond) (\<lambda>condition.
     bind_gen (gen_lines (j_generateNode inMain usesScanner (Suc indent)) wbody) (\<lambda>code.
       Inr (getIndent indent @ ''while ('' @ condition @ '') {'' @ NL @ code
            @ getIndent indent @ ''}'')))"
| "j_generateNode inMain usesScanner indent (IRSwitch e cs dflt) =
     bind_gen (j_generateExpression e) (\<lambda>expr.
     bind_gen
       (map_gen (\<lambda>(v, b).
           bind_gen (j_generateExpression v) (\<lambda>vt.
           bind_gen (gen_lines (j_generateNode inMain usesScanner (indent + 2)) b) (\<lambda>code.
             Inr (getIndent indent @ ''    case '' @ vt @ '':'' @ NL @ code
                  @ getIndent (indent + 2) @ ''break;'' @ NL))))
          cs)
       (\<lambda>caseCodes.
     bind_gen
       (case dflt of
          Some b \<Rightarrow>
            bind_gen (gen_lines (j_generateNode inMain usesScanner (indent + 2)) b) (\<lambda>code.
              Inr (getIndent indent @ ''    default:'' @ NL @ code))
        | None \<Rightarrow> Inr [])
       (\<lambda>defaultCode.
          Inr (getIndent indent @ ''switch ('' @ expr @ '') {'' @ NL @ concat caseCodes
               @ defaultCode @ getIndent indent @ ''}''))))"
| "j_generateNode inMain usesScanner indent (IRReturn v) =
     (if inMain \<and> is_number_literal v then Inr []
      else case v of
             Some e \<Rightarrow> bind_gen (j_generateExpression e) (\<lambda>t.
                         Inr (getIndent indent @ ''return '' @ t @ '';''))
           | None \<Rightarrow> Inr (getIndent indent @ ''return;''))"
| "j_generateNode inMain usesScanner indent (IRPrint pargs newline) =
     j_generatePrint indent pargs newline"
| "j_generateNode inMain usesScanner indent (IRInput pr tv tt) =
     Inr (j_generateInput indent pr tv tt)"
| "j_generateNode inMain usesScanner indent (IRAssignment target v) =
     bind_gen (j_generateExpression v) (\<lambda>t.
       Inr (getIndent indent @ replace_first ''self.'' ''this.'' target @ '' = '' @ t @ '';''))"
| "j_generateNode inMain usesScanner indent (IRCall callee cargs isMethod obj) =
     bind_gen (j_generateExpression (IRCall callee cargs isMethod obj)) (\<lambda>t.
       Inr (getIndent indent @ t @ '';''))"
| "j_generateNode inMain usesScanner indent (IRBinaryOp op l r) =
     bind_gen (j_generateExpression (IRBinaryOp op l r)) (\<lambda>t.
       Inr (getIndent indent @ t @ '';''))"
| "j_generateNode inMain usesScanner indent IRBreak = Inr (getIndent indent @ ''break;'')"
| "j_generateNode inMain usesScanner indent _ = Inr []"

text \<open>
  \<^verbatim>\<open>analyzeProgram\<close>: whether an Input node is among the statements that the walk
  visits. A class node without an own \<^verbatim>\<open>constructor\<close> property makes the walk read
  \<^verbatim>\<open>body\<close> of \<^verbatim>\<open>Object\<close>, which throws.
\<close>

fun j_analyze :: "IRNode \<Rightarrow> js_error + bool" where
  "j_analyze (IRInput pr tv tt) = Inr True"
| "j_analyze (IRFunction name ps rt fbody) =
     bind_gen (map_gen j_analyze fbody) (\<lambda>bs. Inr (True \<in> set bs))"
| "j_analyze (IRClass name mems meths Absent mainM statics) =
     bind_gen (map_gen (\<lambda>(fn, fps, frt, fb).
                 bind_gen (map_gen j_analyze fb) (\<lambda>bs. Inr (True \<in> set bs))) meths) (\<lambda>ms.
       Inl (undefined_type_error ''forEach''))"
| "j_analyze (IRClass name mems meths (Own None) mainM statics) =
     bind_gen (map_gen (\<lambda>(fn, fps, frt, fb).
                 bind_gen (map_gen j_analyze fb) (\<lambda>bs. Inr (True \<in> set bs))) meths) (\<lambda>ms.
       Inr (True \<in> set ms))"
| "j_analyze (IRClass name mems meths (Own (Some (cn, cps, crt, cb))) mainM statics) =
     bind_gen (map_gen (\<lambda>(fn, fps, frt, fb).
                 bind_gen (map_gen j_analyze fb) (\<lambda>bs. Inr (True \<in> set bs))) meths) (\<lambda>ms.
     bind_gen (map_gen j_analyze cb) (\<lambda>bs. Inr (True \<in> set ms \<or> True \<in> set bs)))"
| "j_analyze (IRIf cond thenB elseB elseIf) =
     bind_gen (map_gen j_analyze thenB) (\<lambda>ts.
     bind_gen (case elseB of Some eb \<Rightarrow> map_gen j_analyze eb | None \<Rightarrow> Inr []) (\<lambda>es.
       Inr (True \<in> set ts \<or> True \<in> set es)))"
| "j_analyze (IRFor init cond upd iter rs re rst fbody) =
     bind_gen (map_gen j_analyze fbody) (\<lambda>bs. Inr (True \<in> set bs))"
| "j_analyze (IRWhile cond wbody) =
     bind_gen (map_gen j_analyze wbody) (\<lambda>bs. Inr (True \<in> set bs))"
| "j_analyze _ = Inr False"

text \<open>\<^verbatim>\<open>shouldSkipReturnInMain\<close> inside the main method, where the flag is set.\<close>

definition shouldSkipReturnInMain :: "IRNode \<Rightarrow> bool" where
  "shouldSkipReturnInMain node = (case node of IRReturn v \<Rightarrow> is_number_literal v | _ \<Rightarrow> False)"

definition j_main_method :: "bool \<Rightarrow> IRNode list \<Rightarrow> js_error + string list" where
  "j_main_method usesScanner stmts =
     bind_gen (gen_push (j_generateNode True usesScanner 2)
                 (filter (\<lambda>n. \<not> shouldSkipReturnInMain n) stmts)) (\<lambda>ls.
       Inr ([getIndent 1 @ ''public static void main(String[] args) {''] @ ls
            @ [getIndent 1 @ ''}'']))"

definition j_top_function :: "bool \<Rightarrow> IRNode \<Rightarrow> js_error + string list" where
  "j_top_function usesScanner func =
     (case func of
        IRFunction name ps rt fbody \<Rightarrow>
          if name = ''main'' then j_main_method usesScanner fbody
          else bind_gen (gen_lines (j_generateNode False usesScanner 2) fbody) (\<lambda>code.
                 Inr [getIndent 1 @ ''public static '' @ j_mapType rt False True @ '' '' @ name
                      @ ''('' @ j_typed_params True ps @ '') {'' @ NL @ code @ getIndent 1 @ ''}''])
      | _ \<Rightarrow> Inr [])"

text \<open>\<^verbatim>\<open>JavaGenerator.generate\<close> with the default class name.\<close>

definition JavaGenerator_generate :: "IRProgram \<Rightarrow> js_error + string" where
  "JavaGenerator_generate ir =
     bind_gen (map_gen j_analyze (pbody ir)) (\<lambda>flags.
       (let usesScanner = (True \<in> set flags);
            importLines = (if usesScanner then [''import java.util.Scanner;'', []] else []);
            hasClass = (\<exists>n \<in> set (pbody ir). isIRClass n)
        in if hasClass then
             bind_gen (gen_push (j_generateNode False usesScanner 0) (pbody ir)) (\<lambda>ls.
               Inr (join NL (importLines @ ls)))
           else
             (let functions = filter isIRFunction (pbody ir);
                  mainContent = filter (\<lambda>n. \<not> isIRFunction n) (pbody ir)
              in bind_gen (map_gen (j_top_function usesScanner) functions) (\<lambda>fls.
                 bind_gen
                   (if \<not> (\<exists>f \<in> set functions. is_main_function f) \<and> length mainContent > 0
                    then j_main_method usesScanner mainContent else Inr [])
                   (\<lambda>mls.
                      Inr (join NL (importLines @ [''public class Main {'']
                             @ (if usesScanner
                                then [getIndent 1
                                        @ ''static Scanner scanner = new Scanner(System.in);'', []]
                                else [])
                             @ concat fls @ mls @ [''}''])))))))"

section \<open>The decomposition of a format, as the statement on \<^verbatim>\<open>printf\<close> describes it\<close>

text \<open>These two functions are not taken from the source: they say in one recursion each
  what the statement on \<^verbatim>\<open>parsePrintf\<close> says in words, and the source is compared with
  them. The segments of a format are the texts between its directives. A directive is a
  percent sign directly followed by one of the letters of \<^verbatim>\<open>parsePrintfFormat\<close>; two
  percent signs stand for the text \<^verbatim>\<open>%\<close>; any other percent sign is text.\<close>

fun prepend_text :: "string \<Rightarrow> string list \<Rightarrow> string list" where
  "prepend_text t [] = [t]"
| "prepend_text t (s # segments) = (t @ s) # segments"

fun format_segments :: "string \<Rightarrow> string list" where
  "format_segments [] = [[]]"
| "format_segments [ch] = [[ch]]"
| "format_segments (ch # nextChar # rest) =
     (if ch = CHR ''%'' \<and> nextChar \<in> set printf_directives then
        [] # format_segments rest
      else if ch = CHR ''%'' \<and> nextChar = CHR ''%'' then
        prepend_text ''%'' (format_segments rest)
      else prepend_text [ch] (format_segments (nextChar # rest)))"

text \<open>The arguments of the Print node: the literal of each segment, if it has one, and
  in the place of the directive after it the next value not yet used, if one is left.\<close>

fun interleave_segments :: "string list \<Rightarrow> IRNode list \<Rightarrow> IRNode list" where
  "interleave_segments [] vals = []"
| "interleave_segments [s] vals = printf_literal s"
| "interleave_segments (s # t # segments) vals =
     printf_literal s @ take 1 vals @ interleave_segments (t # segments) (drop 1 vals)"

section \<open>Evaluation rules for the C front-end\<close>

text \<open>
  Equations that let the simplifier run the parser on a concrete input: the table is
  read through its fields only, and each loop has an equation for a numeral budget.
  \<open>bind_res_weak_cong\<close> keeps the simplifier out of a continuation until the step before
  it has returned.
\<close>

lemma bind_res_weak_cong: "m = m' \<Longrightarrow> bind_res m f = bind_res m' f"
  by simp

lemma c_table_budget: "budget (c_table n) = n"
  by (cases n) (simp_all add: Let_def)

lemma c_table_rec_expression:
  "rec_expression (c_table n) ts pos =
     (if n = 0 then OutOfFuel else c_parseExpression (c_table (n - 1)) ts pos)"
  by (cases n) (simp_all add: Let_def)

lemma c_table_rec_assignment:
  "rec_assignment (c_table n) ts pos =
     (if n = 0 then OutOfFuel else c_parseAssignment (c_table (n - 1)) ts pos)"
  by (cases n) (simp_all add: Let_def)

lemma c_table_rec_unary:
  "rec_unary (c_table n) ts pos =
     (if n = 0 then OutOfFuel else c_parseUnary (c_table (n - 1)) ts pos)"
  by (cases n) (simp_all add: Let_def)

lemma c_table_rec_statement:
  "rec_statement (c_table n) ts pos =
     (if n = 0 then OutOfFuel else c_parseStatement (c_table (n - 1)) ts pos)"
  by (cases n) (simp_all add: Let_def)

lemma c_table_rec_if:
  "rec_if (c_table n) ts pos =
     (if n = 0 then OutOfFuel else parseIf (c_table (n - 1)) ts pos)"
  by (cases n) (simp_all add: Let_def)

lemmas c_table_simps = c_table_budget c_table_rec_expression c_table_rec_assignment
  c_table_rec_unary c_table_rec_statement c_table_rec_if

lemma binary_loop_unfold:
  "binary_loop sub ops ts k left pos =
     (if k = 0 then OutOfFuel
      else if match_any ts pos ops then
        bind_res (sub (pos + 1)) (\<lambda>(right, p).
          binary_loop sub ops ts (k - 1) (IRBinaryOp (tok_value ts pos) left right) p)
      else Ok (left, pos))"
  by (cases k) (simp_all cong del: if_weak_cong)

lemma args_loop_unfold:
  "args_loop sub ts k args pos =
     (if k = 0 then OutOfFuel
      else if match_val ts pos PUNCTUATION '')'' then Ok (args, pos)
      else bind_res (sub pos) (\<lambda>(arg, p).
        if match_val ts p PUNCTUATION '','' then args_loop sub ts (k - 1) (args @ [arg]) (p + 1)
        else Ok (args @ [arg], p)))"
  by (cases k) (simp_all cong del: if_weak_cong)

lemma c_postfix_loop_unfold:
  "c_postfix_loop ts k expr pos =
     (if k = 0 then OutOfFuel
      else if match_val ts pos OPERATOR ''++'' then
        c_postfix_loop ts (k - 1) (IRUnaryOp ''++_post'' expr) (pos + 1)
      else if match_val ts pos OPERATOR ''--'' then
        c_postfix_loop ts (k - 1) (IRUnaryOp ''--_post'' expr) (pos + 1)
      else Ok (expr, pos))"
  by (cases k) (simp_all cong del: if_weak_cong)

lemma comma_loop_unfold:
  "comma_loop sub ts k args pos =
     (if k = 0 then OutOfFuel
      else if match_val ts pos PUNCTUATION '','' then
        bind_res (sub (pos + 1)) (\<lambda>(arg, p). comma_loop sub ts (k - 1) (args @ [arg]) p)
      else Ok (args, pos))"
  by (cases k) (simp_all cong del: if_weak_cong)

lemma block_loop_unfold:
  "block_loop sub ts k stmts pos =
     (if k = 0 then OutOfFuel
      else if \<not> match_val ts pos PUNCTUATION ''}'' \<and> pos < length ts then
        bind_res (sub pos) (\<lambda>(stmt, p). block_loop sub ts (k - 1) (stmts @ option_list stmt) p)
      else Ok (stmts, pos))"
  by (cases k) (simp_all cong del: if_weak_cong)

lemma c_parse_loop_unfold:
  "c_parse_loop r ts k body imps pos =
     (if k = 0 then OutOfFuel
      else if pos < length ts then
        (if match_tok ts pos PREPROCESSOR then
           (let directive = tok_value ts pos
            in c_parse_loop r ts (k - 1) body
                 (if includes_str ''include'' directive then imps @ [directive] else imps)
                 (pos + 1))
         else bind_res (c_parseTopLevel r ts pos) (\<lambda>(node, p).
                c_parse_loop r ts (k - 1) (body @ option_list node) imps p))
      else Ok \<lparr> pbody = body, pimports = imps \<rparr>)"
  by (cases k) (simp_all cong del: if_weak_cong)

lemma c_params_loop_unfold:
  "c_params_loop ts k params pos =
     (if k = 0 then (params, pos)
      else if match_val ts pos PUNCTUATION '')'' then (params, pos)
      else case peek ts pos of
        None \<Rightarrow> (params, pos + 1)
      | Some typeToken \<Rightarrow>
          (let dt = mapCType (tvalue typeToken);
               p1 = pos + 1;
               (dt1, p2) = (if match_val ts p1 PUNCTUATION ''*''
                            then (char_to_string dt, p1 + 1) else (dt, p1));
               (params', p3) =
                 (if match_tok ts p2 IDENTIFIER then
                    (let (dt2, p) = (if match_val ts (p2 + 1) PUNCTUATION ''[''
                                     then (char_to_string dt1, skip_array ts (p2 + 1))
                                     else (dt1, p2 + 1))
                     in (params @ [(tok_value ts p2, dt2, None)], p))
                  else (params, p2))
           in if match_val ts p3 PUNCTUATION '','' then c_params_loop ts (k - 1) params' (p3 + 1)
              else (params', p3)))"
proof (cases k)
  case 0
  then show ?thesis by simp
next
  case (Suc m)
  then have k1: "k - 1 = m" by simp
  show ?thesis unfolding k1 by (simp add: Suc)
qed

lemmas c_loop_unfolds = binary_loop_unfold args_loop_unfold c_postfix_loop_unfold
  comma_loop_unfold block_loop_unfold c_parse_loop_unfold c_params_loop_unfold

lemmas c_parser_defs = CParser_parse_def c_parseTopLevel_def c_parseFunctionOrVariable_def
  c_parseFunctionDef_def c_parseParams_def c_parseStatement_def c_parseFor_def
  parseWhile_def parseIf_def parseBlock_def c_parseReturn_def c_parseVariableDecl_def
  c_parseScanf_def c_parsePrintf_def c_parseExpression_def c_parseAssignment_def
  c_parseOr_def c_parseAnd_def c_parseEquality_def c_parseComparison_def c_parseAddSub_def
  c_parseMulDiv_def c_parseUnary_def c_parsePostfix_def c_parsePrimary_def
  for_iterator_def for_rangeStart_def for_rangeEnd_def c_for_rangeStep_def
  skip_array_def char_to_string_def printf_literal_def parsePrintfFormat_def
  printf_directives_def js_trim_def c_generateSimpleExpr_def lit_int_def match_any_def
  mapCType_def lookup_type_def object_prototype_members_def c_isType_def c_isModifier_def
  slice_1_m1_def js_parseInt_def digits_to_nat_def digit_val_def js_float_text_def
  peek_def match_tok_def match_val_def consume_val_def tok_value_def skip_while_def

lemmas c_lexer_defs = mk_def is_space_def is_digit_def is_word_start_def is_word_char_def
  match_number_def c_operators_def c_keywords_def


section \<open>Evaluation rules for the CPP front-end\<close>

lemma cpp_table_budget: "budget (cpp_table n) = n"
  by (cases n) (simp_all add: Let_def)

lemma cpp_table_rec_expression:
  "rec_expression (cpp_table n) ts pos =
     (if n = 0 then OutOfFuel else cpp_parseExpression (cpp_table (n - 1)) ts pos)"
  by (cases n) (simp_all add: Let_def)

lemma cpp_table_rec_assignment:
  "rec_assignment (cpp_table n) ts pos =
     (if n = 0 then OutOfFuel else cpp_parseAssignment (cpp_table (n - 1)) ts pos)"
  by (cases n) (simp_all add: Let_def)

lemma cpp_table_rec_unary:
  "rec_unary (cpp_table n) ts pos =
     (if n = 0 then OutOfFuel else cpp_parseUnary (cpp_table (n - 1)) ts pos)"
  by (cases n) (simp_all add: Let_def)

lemma cpp_table_rec_statement:
  "rec_statement (cpp_table n) ts pos =
     (if n = 0 then OutOfFuel else cpp_parseStatement (cpp_table (n - 1)) ts pos)"
  by (cases n) (simp_all add: Let_def)

lemma cpp_table_rec_if:
  "rec_if (cpp_table n) ts pos =
     (if n = 0 then OutOfFuel else parseIf (cpp_table (n - 1)) ts pos)"
  by (cases n) (simp_all add: Let_def)

lemmas cpp_table_simps = cpp_table_budget cpp_table_rec_expression cpp_table_rec_assignment
  cpp_table_rec_unary cpp_table_rec_statement cpp_table_rec_if

lemma cpp_cout_loop_unfold:
  "cpp_cout_loop sub ts k args newline pos =
     (if k = 0 then OutOfFuel
      else if match_val ts pos OPERATOR ''<<'' then
        (let p1 = (if match_val ts (pos + 1) KEYWORD ''endl''
                      \<or> match_val ts (pos + 1) KEYWORD ''std''
                   then cpp_skip_std ts (pos + 1) else pos + 1)
         in if (match_val ts (pos + 1) KEYWORD ''endl'' \<or> match_val ts (pos + 1) KEYWORD ''std'')
               \<and> match_val ts p1 KEYWORD ''endl''
            then cpp_cout_loop sub ts (k - 1) args True (p1 + 1)
            else bind_res (sub p1) (\<lambda>(arg, p).
                   cpp_cout_loop sub ts (k - 1) (args @ [arg]) newline p))
      else Ok ((args, newline), pos))"
proof (cases k)
  case 0
  then show ?thesis by simp
next
  case (Suc m)
  then have k1: "k - 1 = m" by simp
  show ?thesis unfolding k1 by (simp add: Suc)
qed

lemma cpp_case_body_loop_unfold:
  "cpp_case_body_loop sub inCase ts k stmts pos =
     (if k = 0 then OutOfFuel
      else if \<not> match_val ts pos KEYWORD ''case''
         \<and> (if inCase then \<not> match_val ts pos KEYWORD ''default'' else True)
         \<and> \<not> match_val ts pos PUNCTUATION ''}'' \<and> pos < length ts then
        (if match_val ts pos KEYWORD ''break''
         then Ok (stmts, consume_val ts (pos + 1) PUNCTUATION '';'')
         else bind_res (sub pos) (\<lambda>(stmt, p).
                cpp_case_body_loop sub inCase ts (k - 1) (stmts @ option_list stmt) p))
      else Ok (stmts, pos))"
proof (cases k)
  case 0
  then show ?thesis by simp
next
  case (Suc m)
  then have k1: "k - 1 = m" by simp
  show ?thesis unfolding k1 by (simp add: Suc)
qed

lemma cpp_switch_loop_unfold:
  "cpp_switch_loop r ts k cases dflt pos =
     (if k = 0 then OutOfFuel
      else if \<not> match_val ts pos PUNCTUATION ''}'' \<and> pos < length ts then
        (if match_val ts pos KEYWORD ''case'' then
           bind_res (cpp_parseExpression r ts (pos + 1)) (\<lambda>(v, p).
           bind_res (cpp_case_body_loop (rec_statement r ts) True ts (budget r) []
                       (consume_val ts p PUNCTUATION '':'')) (\<lambda>(stmts, p').
             cpp_switch_loop r ts (k - 1) (cases @ [(v, stmts)]) dflt p'))
         else if match_val ts pos KEYWORD ''default'' then
           bind_res (cpp_case_body_loop (rec_statement r ts) False ts (budget r) []
                       (consume_val ts (pos + 1) PUNCTUATION '':'')) (\<lambda>(stmts, p').
             cpp_switch_loop r ts (k - 1) cases (Some stmts) p')
         else cpp_switch_loop r ts (k - 1) cases dflt (pos + 1))
      else Ok ((cases, dflt), pos))"
proof (cases k)
  case 0
  then show ?thesis by simp
next
  case (Suc m)
  then have k1: "k - 1 = m" by simp
  show ?thesis unfolding k1 by (simp add: Suc)
qed

lemma cpp_params_loop_unfold:
  "cpp_params_loop ts k params pos =
     (if k = 0 then (params, pos)
      else if match_val ts pos PUNCTUATION '')'' then (params, pos)
      else case peek ts pos of
        None \<Rightarrow> (params, pos + 1)
      | Some typeToken \<Rightarrow>
          (let (dataType, p1) = cpp_type_at ts pos;
               params' = (if match_tok ts p1 IDENTIFIER
                          then params @ [(tok_value ts p1, dataType, None)] else params);
               p2 = consume_tok ts p1 IDENTIFIER
           in if match_val ts p2 PUNCTUATION '','' then cpp_params_loop ts (k - 1) params' (p2 + 1)
              else (params', p2)))"
proof (cases k)
  case 0
  then show ?thesis by simp
next
  case (Suc m)
  then have k1: "k - 1 = m" by simp
  show ?thesis unfolding k1 by (simp add: Suc)
qed

lemma cpp_class_loop_unfold:
  "cpp_class_loop r name ts k (members, methods, ctor) pos =
     (if k = 0 then OutOfFuel
      else if \<not> match_val ts pos PUNCTUATION ''}'' \<and> pos < length ts then
        (if (case peek ts pos of None \<Rightarrow> False | Some t \<Rightarrow> cpp_isAccess t) then
           cpp_class_loop r name ts (k - 1) (members, methods, ctor)
             (consume_val ts (pos + 1) PUNCTUATION '':'')
         else if match_val ts pos IDENTIFIER name then
           bind_res (cpp_parseConstructor r ts pos) (\<lambda>(f, p).
             cpp_class_loop r name ts (k - 1) (members, methods, Some f) p)
         else if cpp_isType_at ts pos then
           bind_res (cpp_parseMemberOrMethod r ts pos) (\<lambda>(memberOrMethod, p).
             (case memberOrMethod of
                Some (IRFunction fname ps rt fbody) \<Rightarrow>
                  cpp_class_loop r name ts (k - 1)
                    (members, methods @ [(fname, ps, rt, fbody)], ctor) p
              | Some (IRVariable vname dt v) \<Rightarrow>
                  cpp_class_loop r name ts (k - 1) (members @ [(vname, dt, v)], methods, ctor) p
              | _ \<Rightarrow> cpp_class_loop r name ts (k - 1) (members, methods, ctor) p))
         else cpp_class_loop r name ts (k - 1) (members, methods, ctor) (pos + 1))
      else Ok ((members, methods, ctor), pos))"
proof (cases k)
  case 0
  then show ?thesis by simp
next
  case (Suc m)
  then have k1: "k - 1 = m" by simp
  show ?thesis unfolding k1 by (simp add: Suc)
qed

lemma cpp_parse_loop_unfold:
  "cpp_parse_loop r ts k body imps pos =
     (if k = 0 then OutOfFuel
      else if pos < length ts then
        (if match_tok ts pos PREPROCESSOR then
           cpp_parse_loop r ts (k - 1) body (imps @ [tok_value ts pos]) (pos + 1)
         else if match_val ts pos KEYWORD ''using'' then
           cpp_parse_loop r ts (k - 1) body imps
             (consume_val ts
                (skip_while (\<lambda>t. \<not> (ttype t = PUNCTUATION \<and> tvalue t = '';'')) ts pos)
                PUNCTUATION '';'')
         else bind_res (cpp_parseTopLevel r ts pos) (\<lambda>(node, p).
                cpp_parse_loop r ts (k - 1) (body @ option_list node) imps p))
      else Ok \<lparr> pbody = body, pimports = imps \<rparr>)"
  by (cases k) (simp_all cong del: if_weak_cong)

lemmas cpp_loop_unfolds = binary_loop_unfold args_loop_unfold block_loop_unfold
  c_postfix_loop_unfold cpp_cout_loop_unfold cpp_case_body_loop_unfold cpp_switch_loop_unfold
  cpp_params_loop_unfold cpp_class_loop_unfold cpp_parse_loop_unfold

lemmas cpp_parser_defs = CppParser_parse_def cpp_parseTopLevel_def cpp_parseClass_def
  cpp_isAccess_def cpp_parseFunctionOrVariable_def cpp_parseMemberOrMethod_def
  cpp_isMemberModifier_def cpp_parseConstructor_def cpp_parseMethod_def
  cpp_parseFunctionDef_def cpp_parseParams_def cpp_parseStatement_def cpp_parseSwitch_def
  cpp_parseFor_def cpp_parseLocalVariable_def cpp_parseVariableDecl_def cpp_isModifier_def
  cpp_parseCin_def cpp_parseCout_def cpp_skip_std_def cpp_parseReturn_def
  parseWhile_def parseIf_def parseBlock_def cpp_parseExpression_def cpp_parseAssignment_def
  cpp_parseLogicalOr_def cpp_parseLogicalAnd_def cpp_parseComparison_def cpp_parseAddSub_def
  cpp_parseMulDiv_def cpp_parseUnary_def cpp_parsePostfix_def cpp_parsePrimary_def
  cpp_number_def cpp_type_at_def cpp_isType_at_def cpp_isType_def mapCppType_def
  for_iterator_def for_rangeStart_def for_rangeEnd_def jv_for_rangeStep_def
  js_trim_def lit_int_def match_any_def lookup_type_def object_prototype_members_def
  slice_1_m1_def js_parseInt_def digits_to_nat_def digit_val_def js_float_text_def
  peek_def match_tok_def match_val_def consume_val_def consume_tok_def tok_value_def
  skip_while_def

lemmas cpp_lexer_defs = mk_def is_space_def is_digit_def is_word_start_def is_word_char_def
  match_number_def cpp_operators_def cpp_keywords_def

section \<open>Evaluation rules for the JV front-end\<close>

lemma jv_table_budget: "budget (jv_table n) = n"
  by (cases n) (simp_all add: Let_def)

lemma jv_table_rec_expression:
  "rec_expression (jv_table n) ts pos =
     (if n = 0 then OutOfFuel else jv_parseExpression (jv_table (n - 1)) ts pos)"
  by (cases n) (simp_all add: Let_def)

lemma jv_table_rec_assignment:
  "rec_assignment (jv_table n) ts pos =
     (if n = 0 then OutOfFuel else jv_parseAssignment (jv_table (n - 1)) ts pos)"
  by (cases n) (simp_all add: Let_def)

lemma jv_table_rec_unary:
  "rec_unary (jv_table n) ts pos =
     (if n = 0 then OutOfFuel else jv_parseUnary (jv_table (n - 1)) ts pos)"
  by (cases n) (simp_all add: Let_def)

lemma jv_table_rec_statement:
  "rec_statement (jv_table n) ts pos =
     (if n = 0 then OutOfFuel else jv_parseStatement (jv_table (n - 1)) ts pos)"
  by (cases n) (simp_all add: Let_def)

lemma jv_table_rec_if:
  "rec_if (jv_table n) ts pos =
     (if n = 0 then OutOfFuel else parseIf (jv_table (n - 1)) ts pos)"
  by (cases n) (simp_all add: Let_def)

lemmas jv_table_simps = jv_table_budget jv_table_rec_expression jv_table_rec_assignment
  jv_table_rec_unary jv_table_rec_statement jv_table_rec_if

lemma jv_postfix_loop_unfold:
  "jv_postfix_loop sub ts b k expr pos =
     (if k = 0 then OutOfFuel
      else if match_val ts pos OPERATOR ''++'' \<or> match_val ts pos OPERATOR ''--'' then
        jv_postfix_loop sub ts b (k - 1) (IRUnaryOp (tok_value ts pos @ ''_post'') expr) (pos + 1)
      else if match_val ts pos PUNCTUATION ''.'' then
        (let p1 = pos + 1;
             member = (if match_tok ts p1 IDENTIFIER then tok_value ts p1 else []);
             p2 = consume_tok ts p1 IDENTIFIER
         in if match_val ts p2 PUNCTUATION ''('' then
              bind_res (args_loop sub ts b [] (p2 + 1)) (\<lambda>(args, p).
                jv_postfix_loop sub ts b (k - 1)
                  (IRCall member args (Some True)
                     (Some (case expr of IRIdentifier name \<Rightarrow> name | _ \<Rightarrow> ''obj'')))
                  (consume_val ts p PUNCTUATION '')''))
            else jv_postfix_loop sub ts b (k - 1) expr p2)
      else Ok (expr, pos))"
proof (cases k)
  case 0
  then show ?thesis by simp
next
  case (Suc m)
  then have k1: "k - 1 = m" by simp
  show ?thesis unfolding k1 by (simp add: Suc)
qed

lemma jv_params_loop_unfold:
  "jv_params_loop ts k params pos =
     (if k = 0 then (params, pos)
      else if match_val ts pos PUNCTUATION '')'' then (params, pos)
      else case peek ts pos of
        None \<Rightarrow> (params, pos + 1)
      | Some typeToken \<Rightarrow>
          (let p1 = pos + 1;
               p2 = (if match_val ts p1 PUNCTUATION ''[''
                     then consume_val ts (p1 + 1) PUNCTUATION '']'' else p1);
               params' = (if match_tok ts p2 IDENTIFIER
                          then params @ [(tok_value ts p2, mapJavaType (tvalue typeToken), None)]
                          else params);
               p3 = consume_tok ts p2 IDENTIFIER
           in if match_val ts p3 PUNCTUATION '','' then jv_params_loop ts (k - 1) params' (p3 + 1)
              else (params', p3)))"
proof (cases k)
  case 0
  then show ?thesis by simp
next
  case (Suc m)
  then have k1: "k - 1 = m" by simp
  show ?thesis unfolding k1 by (simp add: Suc)
qed

lemma jv_skip_extends_unfold:
  "jv_skip_extends ts k pos =
     (if k = 0 then pos
      else if match_val ts pos KEYWORD ''extends'' \<or> match_val ts pos KEYWORD ''implements''
      then jv_skip_extends ts (k - 1) (consume_tok ts (pos + 1) IDENTIFIER)
      else pos)"
  by (cases k) (simp_all cong del: if_weak_cong)

lemma jv_class_loop_unfold:
  "jv_class_loop r name ts k (members, methods, ctor, mainMethod) pos =
     (if k = 0 then OutOfFuel
      else if \<not> match_val ts pos PUNCTUATION ''}'' \<and> pos < length ts then
        (let isStatic = (\<exists>t \<in> set (takeWhile jv_isClassModifier (drop pos ts)).
                           tvalue t = ''static'');
             p1 = skip_while jv_isClassModifier ts pos
         in if match_val ts p1 IDENTIFIER name then
              bind_res (jv_parseConstructor r ts p1) (\<lambda>(f, p).
                jv_class_loop r name ts (k - 1) (members, methods, Some f, mainMethod) p)
            else if jv_isType_at ts p1 then
              bind_res (jv_parseMethodOrField r ts p1) (\<lambda>(memberOrMethod, p).
                (case memberOrMethod of
                   Some (IRFunction fname ps rt fbody) \<Rightarrow>
                     if fname = ''main'' \<and> isStatic then
                       jv_class_loop r name ts (k - 1)
                         (members, methods, ctor, Some (fname, ps, rt, fbody)) p
                     else
                       jv_class_loop r name ts (k - 1)
                         (members, methods @ [(fname, ps, rt, fbody)], ctor, mainMethod) p
                 | Some (IRVariable vname dt v) \<Rightarrow>
                     jv_class_loop r name ts (k - 1)
                       (members @ [(vname, dt, v)], methods, ctor, mainMethod) p
                 | _ \<Rightarrow> jv_class_loop r name ts (k - 1) (members, methods, ctor, mainMethod) p))
            else jv_class_loop r name ts (k - 1) (members, methods, ctor, mainMethod) (p1 + 1))
      else Ok ((members, methods, ctor, mainMethod), pos))"
proof (cases k)
  case 0
  then show ?thesis by simp
next
  case (Suc m)
  then have k1: "k - 1 = m" by simp
  show ?thesis unfolding k1 by (simp add: Suc)
qed

lemma jv_parse_loop_unfold:
  "jv_parse_loop r ts k body imps pos =
     (if k = 0 then OutOfFuel
      else if pos < length ts then
        (if match_val ts pos KEYWORD ''package'' \<or> match_val ts pos KEYWORD ''import'' then
           (let (importStmt, p) = jv_parseImport ts pos
            in jv_parse_loop r ts (k - 1) body (imps @ [importStmt]) p)
         else bind_res (jv_parseTopLevel r ts pos) (\<lambda>(node, p).
                jv_parse_loop r ts (k - 1) (body @ option_list node) imps p))
      else Ok \<lparr> pbody = body, pimports = imps \<rparr>)"
proof (cases k)
  case 0
  then show ?thesis by simp
next
  case (Suc m)
  then have k1: "k - 1 = m" by simp
  show ?thesis unfolding k1 by (simp add: Suc)
qed

lemmas jv_loop_unfolds = binary_loop_unfold args_loop_unfold block_loop_unfold
  jv_postfix_loop_unfold jv_params_loop_unfold jv_skip_extends_unfold jv_class_loop_unfold
  jv_parse_loop_unfold

lemmas jv_parser_defs = JavaParser_parse_def jv_parseTopLevel_def jv_parseImport_def
  jv_parseClass_def jv_parseMethodOrField_def jv_parseField_def jv_parseMethod_def
  jv_parseConstructor_def jv_parseParams_def jv_parseStatement_def jv_parseFor_def
  parseWhile_def parseIf_def parseBlock_def jv_parseReturn_def jv_parsePrintln_def
  jv_parseLocalVariable_def jv_parseExpression_def jv_parseAssignment_def
  jv_parseLogicalOr_def jv_parseLogicalAnd_def jv_parseComparison_def jv_parseAddSub_def
  jv_parseMulDiv_def jv_parseUnary_def jv_parsePostfix_def jv_parsePrimary_def jv_number_def
  for_iterator_def for_rangeStart_def for_rangeEnd_def jv_for_rangeStep_def
  js_trim_def lit_int_def match_any_def mapJavaType_def lookup_type_def
  object_prototype_members_def jv_isType_def jv_isType_at_def jv_isClassModifier_def
  jv_isTopModifier_def slice_1_m1_def js_parseInt_def digits_to_nat_def digit_val_def
  js_float_text_def peek_def match_tok_def match_val_def consume_val_def consume_tok_def
  tok_value_def skip_while_def

lemmas jv_lexer_defs = mk_def is_space_def is_digit_def is_word_start_def is_word_char_def
  match_number_def jv_operators_def jv_keywords_def

section \<open>Evaluation rules for the Python front-end\<close>

lemma py_tbl_budget: "py_budget (py_tbl n) = n"
  by (cases n) (simp_all add: Let_def)

lemma py_tbl_expression:
  "py_expression (py_tbl n) ts pos =
     (if n = 0 then OutOfFuel else py_parseExpression (py_tbl (n - 1)) ts pos)"
  by (cases n) (simp_all add: Let_def)

lemma py_tbl_not:
  "py_not (py_tbl n) ts pos =
     (if n = 0 then OutOfFuel else py_parseNot (py_tbl (n - 1)) ts pos)"
  by (cases n) (simp_all add: Let_def)

lemma py_tbl_unary:
  "py_unary (py_tbl n) ts pos =
     (if n = 0 then OutOfFuel else py_parseUnary (py_tbl (n - 1)) ts pos)"
  by (cases n) (simp_all add: Let_def)

lemma py_tbl_statement:
  "py_statement (py_tbl n) minIndent ts pos =
     (if n = 0 then OutOfFuel else py_parseStatement (py_tbl (n - 1)) minIndent ts pos)"
  by (cases n) (simp_all add: Let_def)

lemma py_tbl_elif:
  "py_elif (py_tbl n) parentIndent ts pos =
     (if n = 0 then OutOfFuel else py_parseElif (py_tbl (n - 1)) parentIndent ts pos)"
  by (cases n) (simp_all add: Let_def)

lemmas py_tbl_simps = py_tbl_budget py_tbl_expression py_tbl_not py_tbl_unary
  py_tbl_statement py_tbl_elif

lemma py_args_loop_unfold:
  "py_args_loop sub ts n args pos =
     (if n = 0 then Ok (args, pos)
      else if match_val ts pos PUNCTUATION '')'' then Ok (args, pos)
      else bind_res (sub pos) (\<lambda>(arg, p).
        if match_val ts p PUNCTUATION '','' then py_args_loop sub ts (n - 1) (args @ [arg]) (p + 1)
        else Ok (args @ [arg], p)))"
  by (cases n) (simp_all cong del: if_weak_cong)

lemma py_print_loop_unfold:
  "py_print_loop sub ts k args pos =
     (if k = 0 then OutOfFuel
      else if \<not> match_val ts pos PUNCTUATION '')'' \<and> length args < 20 then
        (if match_val ts pos IDENTIFIER ''end'' \<or> match_val ts pos IDENTIFIER ''sep'' then
           bind_res (sub (consume_val ts (pos + 1) OPERATOR ''='')) (\<lambda>(dropped, p).
             if match_val ts p PUNCTUATION '','' then py_print_loop sub ts (k - 1) args (p + 1)
             else Ok (args, p))
         else
           bind_res (sub pos) (\<lambda>(arg, p).
             if match_val ts p PUNCTUATION '',''
             then py_print_loop sub ts (k - 1) (args @ [arg]) (p + 1)
             else Ok (args @ [arg], p)))
      else Ok (args, pos))"
  by (cases k) (simp_all cong del: if_weak_cong)

lemma py_attr_loop_unfold:
  "py_attr_loop ts k name pos =
     (if k = 0 then (name, pos)
      else if match_val ts pos PUNCTUATION ''.'' then
        (if match_tok ts (pos + 1) IDENTIFIER
         then py_attr_loop ts (k - 1) (name @ ''.'' @ tok_value ts (pos + 1)) (pos + 2)
         else py_attr_loop ts (k - 1) name (pos + 1))
      else (name, pos))"
  by (cases k) (simp_all cong del: if_weak_cong)

lemma py_binary_loop_unfold:
  "py_binary_loop sub ops ts k left pos =
     (if k = 0 then OutOfFuel
      else case py_find_op ts pos ops of
        Some op \<Rightarrow>
          bind_res (sub (pos + 1)) (\<lambda>(right, p).
            py_binary_loop sub ops ts (k - 1) (IRBinaryOp op left right) p)
      | None \<Rightarrow> Ok (left, pos))"
proof (cases k)
  case 0
  then show ?thesis by simp
next
  case (Suc m)
  then have k1: "k - 1 = m" by simp
  show ?thesis unfolding k1 by (simp add: Suc)
qed

lemma py_comparison_loop_unfold:
  "py_comparison_loop sub ts n left pos =
     (if n = 0 then Ok (left, pos)
      else case py_find_op ts pos
             [(OPERATOR, ''=='', ''==''), (OPERATOR, ''!='', ''!=''), (OPERATOR, ''<'', ''<''),
              (OPERATOR, ''>'', ''>''), (OPERATOR, ''<='', ''<=''), (OPERATOR, ''>='', ''>='')] of
        Some op \<Rightarrow>
          bind_res (sub (pos + 1)) (\<lambda>(right, p).
            py_comparison_loop sub ts (n - 1) (IRBinaryOp op left right) p)
      | None \<Rightarrow> Ok (left, pos))"
proof (cases n)
  case 0
  then show ?thesis by simp
next
  case (Suc m)
  then have k1: "n - 1 = m" by simp
  show ?thesis unfolding k1 by (simp add: Suc)
qed

lemma py_block_loop_unfold:
  "py_block_loop sub parentIndent ts k iterations stmts pos =
     (if k = 0 then OutOfFuel
      else if pos < length ts \<and> iterations < 10000 then
        (let p1 = skipNewlines ts pos
         in case peek ts p1 of
              None \<Rightarrow> Ok (stmts, p1)
            | Some token \<Rightarrow>
                if tindent token \<le> parentIndent then Ok (stmts, p1)
                else bind_res (sub p1) (\<lambda>(stmt, p).
                       case stmt of
                         Some node \<Rightarrow>
                           py_block_loop sub parentIndent ts (k - 1) (iterations + 1)
                             (stmts @ [node]) p
                       | None \<Rightarrow> Ok (stmts, p)))
      else Ok (stmts, pos))"
proof (cases k)
  case 0
  then show ?thesis by simp
next
  case (Suc m)
  then have k1: "k - 1 = m" by simp
  show ?thesis unfolding k1 by (simp add: Suc)
qed

lemma py_params_loop_unfold:
  "py_params_loop ts k params pos =
     (if k = 0 then (params, pos)
      else if match_val ts pos PUNCTUATION '')'' then (params, pos)
      else if match_val ts pos KEYWORD ''self'' then
        py_params_loop ts (k - 1) params (consume_val ts (pos + 1) PUNCTUATION '','')
      else if match_tok ts pos IDENTIFIER then
        (let p1 = pos + 1;
             dataType = (if match_val ts p1 PUNCTUATION '':''
                           \<and> (match_tok ts (p1 + 1) KEYWORD \<or> match_tok ts (p1 + 1) IDENTIFIER)
                         then mapPythonType (tok_value ts (p1 + 1)) else T_auto);
             p2 = (if match_val ts p1 PUNCTUATION '':''
                   then (if match_tok ts (p1 + 1) KEYWORD \<or> match_tok ts (p1 + 1) IDENTIFIER
                         then p1 + 2 else p1 + 1)
                   else p1);
             params' = params @ [(tok_value ts pos, dataType, None)]
         in if match_val ts p2 PUNCTUATION '','' then py_params_loop ts (k - 1) params' (p2 + 1)
            else (params', p2))
      else if match_val ts pos PUNCTUATION '','' then py_params_loop ts (k - 1) params (pos + 1)
      else (params, pos))"
proof (cases k)
  case 0
  then show ?thesis by simp
next
  case (Suc m)
  then have k1: "k - 1 = m" by simp
  show ?thesis unfolding k1 by (simp add: Suc)
qed

lemma py_parse_loop_unfold:
  "py_parse_loop r ts k iterations body pos =
     (if k = 0 then OutOfFuel
      else if pos < length ts \<and> iterations < 10000 then
        bind_res (py_parseStatement r 0 ts pos) (\<lambda>(node, p).
          py_parse_loop r ts (k - 1) (iterations + 1) (body @ option_list node) p)
      else Ok body)"
  by (cases k) (simp_all cong del: if_weak_cong)

lemmas py_loop_unfolds = py_args_loop_unfold py_print_loop_unfold py_attr_loop_unfold
  py_binary_loop_unfold py_comparison_loop_unfold py_block_loop_unfold py_params_loop_unfold
  py_parse_loop_unfold

lemmas py_parser_defs = PythonParser_parse_def detectImports_def py_parseStatement_def
  py_parseWhile_def py_parseFor_def nth_opt_def py_parseElif_def py_parseIf_def py_if_rest_def
  py_parseClassDef_def py_init_members_def py_parseFunctionDef_def py_parseParams_def
  py_parseBlock_def py_parseAssignmentOrExpression_def py_parseReturn_def
  py_parseExpression_def py_parseOr_def py_parseAnd_def py_parseNot_def py_parseComparison_def
  py_parseAddSub_def py_parseMulDiv_def py_find_op_def py_parseUnary_def py_parsePrimary_def
  py_string_literal_def split_dot_def py_parseInput_def py_parsePrint_def mapPythonType_def
  lookup_type_def object_prototype_members_def indent_at_def skipNewlines_def
  js_trim_def lit_int_def slice_1_m1_def js_parseInt_def digits_to_nat_def digit_val_def
  js_float_text_def startsWith_def peek_def match_tok_def match_val_def consume_val_def
  consume_tok_def tok_value_def

lemmas py_lexer_defs = py_tokenize_def py_tokenize_line_def split_lines_def pmk_def
  py_string_token_def py_triple_def py_string_def py_fstring_def is_quote_def
  py_punctuation_def py_operators1_def py_operators2_def py_keywords_def
  is_space_def is_digit_def is_word_start_def is_word_char_def match_number_def

section \<open>Evaluation rules for the back-ends\<close>

lemmas c_generator_defs = CGenerator_generate_def c_top_function_def is_main_function_def
  flags_or_def flags_all_def c_for_init_def c_param_types_def c_typed_params_def
  c_member_decl_def c_param_text_def undefined_type_error_def c_generateInput_def
  scanf_format_def c_generatePrint_def parseFStringToFormat_def c_inferType_def
  c_generateIdentifier_def c_generateLiteral_def node_condition_def c_elseIf_error_def

lemmas jv_generator_defs = JavaGenerator_generate_def j_top_function_def j_main_method_def
  shouldSkipReturnInMain_def is_main_function_def j_class_text_def j_method_text_def
  opt_expr_def j_for_init_def j_typed_params_def is_number_literal_def j_generateInput_def
  j_generatePrint_def j_parseFString_def scanner_method_def j_generateIdentifier_def
  j_generateLiteral_def is_own_upper_def undefined_type_error_def node_condition_def
  j_elseIf_error_def

lemma char_of_digits:
  "char_of (48::nat) = CHR ''0''" "char_of (49::nat) = CHR ''1''" "char_of (50::nat) = CHR ''2''"
  "char_of (51::nat) = CHR ''3''" "char_of (52::nat) = CHR ''4''" "char_of (53::nat) = CHR ''5''"
  "char_of (54::nat) = CHR ''6''" "char_of (55::nat) = CHR ''7''" "char_of (56::nat) = CHR ''8''"
  "char_of (57::nat) = CHR ''9''"
  by code_simp+

lemma nat_to_digits_unfold:
  "nat_to_digits k n =
     (if k = 0 then []
      else if n < 10 then [char_of (48 + n)]
      else nat_to_digits (k - 1) (n div 10) @ [char_of (48 + n mod 10)])"
  by (cases k) (simp_all cong del: if_weak_cong)

lemmas text_defs = getIndent_def startsWith_def endsWith_def trimStart_def nat_to_string_def
  int_to_string_def nat_to_digits_unfold char_of_digits

section \<open>Lemmas on sequencing\<close>

lemma bind_res_Ok: "bind_res m f = Ok y \<longleftrightarrow> (\<exists>x. m = Ok x \<and> f x = Ok y)"
  by (cases m) auto

lemma bind_res_Throw:
  "bind_res m f = Throw e \<longleftrightarrow> m = Throw e \<or> (\<exists>x. m = Ok x \<and> f x = Throw e)"
  by (cases m) auto



lemma hasNonMainClasses_loop_iff:
  "hasNonMainClasses_loop body \<longleftrightarrow>
     (\<exists>name mems meths ctor mainM statics.
        IRClass name mems meths ctor mainM statics \<in> set body
      \<and> (meths \<noteq> [] \<or> mems \<noteq> [] \<or> constructor_truthy ctor)
      \<and> (name \<noteq> ''Main'' \<or> mainM = None \<or> meths \<noteq> [] \<or> mems \<noteq> []))"
proof -
  define P where "P = (\<lambda>n. case n of
      IRClass name mems meths ctor mainM statics \<Rightarrow>
        (meths \<noteq> [] \<or> mems \<noteq> [] \<or> constructor_truthy ctor)
        \<and> (name \<noteq> ''Main'' \<or> mainM = None \<or> meths \<noteq> [] \<or> mems \<noteq> [])
    | _ \<Rightarrow> False)"
  have 1: "hasNonMainClasses_loop xs \<longleftrightarrow> (\<exists>n \<in> set xs. P n)" for xs
    by (induction xs rule: hasNonMainClasses_loop.induct) (auto simp: P_def Let_def)
  have 2: "(\<exists>n \<in> set body. P n) \<longleftrightarrow>
     (\<exists>name mems meths ctor mainM statics.
        IRClass name mems meths ctor mainM statics \<in> set body
      \<and> (meths \<noteq> [] \<or> mems \<noteq> [] \<or> constructor_truthy ctor)
      \<and> (name \<noteq> ''Main'' \<or> mainM = None \<or> meths \<noteq> [] \<or> mems \<noteq> []))"
  proof
    assume "\<exists>n \<in> set body. P n"
    then obtain n where n: "n \<in> set body" "P n" by blast
    from n(2) obtain name mems meths ctor mainM statics where
      "n = IRClass name mems meths ctor mainM statics"
      by (cases n) (simp_all add: P_def)
    with n show "\<exists>name mems meths ctor mainM statics.
        IRClass name mems meths ctor mainM statics \<in> set body
      \<and> (meths \<noteq> [] \<or> mems \<noteq> [] \<or> constructor_truthy ctor)
      \<and> (name \<noteq> ''Main'' \<or> mainM = None \<or> meths \<noteq> [] \<or> mems \<noteq> [])"
      unfolding P_def by (intro exI [of _ name] exI [of _ mems] exI [of _ meths]
          exI [of _ ctor] exI [of _ mainM] exI [of _ statics]) simp
  next
    assume "\<exists>name mems meths ctor mainM statics.
        IRClass name mems meths ctor mainM statics \<in> set body
      \<and> (meths \<noteq> [] \<or> mems \<noteq> [] \<or> constructor_truthy ctor)
      \<and> (name \<noteq> ''Main'' \<or> mainM = None \<or> meths \<noteq> [] \<or> mems \<noteq> [])"
    then obtain name mems meths ctor mainM statics where
      m: "IRClass name mems meths ctor mainM statics \<in> set body"
      and c: "(meths \<noteq> [] \<or> mems \<noteq> [] \<or> constructor_truthy ctor)
        \<and> (name \<noteq> ''Main'' \<or> mainM = None \<or> meths \<noteq> [] \<or> mems \<noteq> [])"
      by blast
    from c have "P (IRClass name mems meths ctor mainM statics)" by (simp add: P_def)
    with m show "\<exists>n \<in> set body. P n" by (rule bexI [rotated])
  qed
  show ?thesis unfolding 1 2 ..
qed

section \<open>Lemmas on the format of printf\<close>

lemma remove_newline_escapes_head:
  "b \<noteq> CHR 0x5C \<Longrightarrow> remove_newline_escapes (b # rest) = b # remove_newline_escapes rest"
  by (cases rest) simp_all

lemma includes_str_Cons2:
  "includes_str [u, v] (a # t) \<longleftrightarrow> (a = u \<and> take 1 t = [v]) \<or> includes_str [u, v] t"
  by (cases t) auto

lemma remove_newline_escapes_clean:
  "\<not> includes_str [CHR 0x5C, CHR 0x5C] s \<Longrightarrow> \<not> includes_str BSN (remove_newline_escapes s)"
proof (induction s rule: remove_newline_escapes.induct)
  case (1 a b rest)
  from "1.prems" have nab: "\<not> (a = CHR 0x5C \<and> b = CHR 0x5C)"
    and nrest: "\<not> includes_str [CHR 0x5C, CHR 0x5C] (b # rest)"
    by (simp_all add: includes_str_Cons2)
  show ?case
  proof (cases "a = CHR 0x5C \<and> b = CHR ''n''")
    case True
    from nrest have "\<not> includes_str [CHR 0x5C, CHR 0x5C] rest"
      by (simp add: includes_str_Cons2)
    with "1.IH"(1)[OF True] True show ?thesis by simp
  next
    case False
    from "1.IH"(2)[OF False nrest]
    have ih: "\<not> includes_str BSN (remove_newline_escapes (b # rest))" .
    show ?thesis
    proof (cases "a = CHR 0x5C")
      case True
      with nab False have b: "b \<noteq> CHR 0x5C" "b \<noteq> CHR ''n''" by auto
      from remove_newline_escapes_head[OF b(1)]
      have "remove_newline_escapes (b # rest) = b # remove_newline_escapes rest" .
      with ih b False show ?thesis by (simp add: includes_str_Cons2)
    next
      case na: False
      with ih False show ?thesis by (simp add: includes_str_Cons2)
    qed
  qed
qed simp_all

lemma format_segments_not_Nil: "format_segments f \<noteq> []"
  by (induction f rule: format_segments.induct) (auto simp: neq_Nil_conv split: list.splits elim: prepend_text.elims)

lemma prepend_text_prepend: "prepend_text a (prepend_text b segs) = prepend_text (a @ b) segs"
  by (cases segs) simp_all

lemma prepend_text_Nil: "segs \<noteq> [] \<Longrightarrow> prepend_text [] segs = segs"
  by (cases segs) simp_all

lemma interleave_segments_first:
  "segs \<noteq> [] \<Longrightarrow> interleave_segments (s # segs) vals
     = printf_literal s @ take 1 vals @ interleave_segments segs (drop 1 vals)"
  by (cases segs) simp_all

lemma printf_args_format_segments:
  "printf_args (parsePrintfFormat_loop f current) vals currentString
   = interleave_segments (prepend_text (currentString @ current) (format_segments f)) vals"
proof (induction f current arbitrary: vals currentString rule: parsePrintfFormat_loop.induct)
  case (1 current)
  then show ?case by simp
next
  case (2 ch current)
  then show ?case by simp
next
  case (3 ch nextChar rest current)
  have pd: "CHR ''%'' \<notin> set printf_directives"
    by (simp add: printf_directives_def)
  consider (directive) "ch = CHR ''%''" "nextChar \<in> set printf_directives"
    | (percent) "ch = CHR ''%''" "nextChar = CHR ''%''"
    | (plain) "ch = CHR ''%''" "nextChar \<notin> set printf_directives" "nextChar \<noteq> CHR ''%''"
    | (other) "ch \<noteq> CHR ''%''"
    by blast
  then show ?case
  proof cases
    case directive
    have "printf_args (parsePrintfFormat_loop (ch # nextChar # rest) current) vals currentString
          = printf_literal (currentString @ current) @ take 1 vals
            @ printf_args (parsePrintfFormat_loop rest []) (drop 1 vals) []"
      using directive by simp
    also have "\<dots> = printf_literal (currentString @ current) @ take 1 vals
            @ interleave_segments (format_segments rest) (drop 1 vals)"
      using 3(1)[of "drop 1 vals" "[]"] directive
      by (simp add: prepend_text_Nil format_segments_not_Nil)
    finally show ?thesis
      using directive by (simp add: interleave_segments_first format_segments_not_Nil)
  next
    case percent
    with pd have n: "nextChar \<notin> set printf_directives" by simp
    from 3(2)[of vals currentString] percent n show ?thesis
      by (simp add: prepend_text_prepend)
  next
    case plain
    from 3(3)[of vals currentString] plain show ?thesis
      by (simp add: prepend_text_prepend)
  next
    case other
    from 3(3)[of vals currentString] other show ?thesis
      by (simp add: prepend_text_prepend)
  qed
qed

lemma printf_args_parsePrintfFormat:
  "printf_args (parsePrintfFormat f) vals [] = interleave_segments (format_segments f) vals"
  unfolding parsePrintfFormat_def printf_args_format_segments
  by (simp add: prepend_text_Nil format_segments_not_Nil)

lemma printf_literal_eq:
  "printf_literal s
   = (if remove_newline_escapes s = [] then []
      else [IRLiteral (V_str (remove_newline_escapes s)) T_string None])"
  by (cases s) (simp_all add: printf_literal_def Let_def)

section \<open>Claims\<close>

text \<open>
  C3. Range normalization in the C parser. The three parts of the header are parsed by
  \<^verbatim>\<open>parseVariableDecl\<close> and \<^verbatim>\<open>parseExpression\<close>, the body by \<^verbatim>\<open>parseBlock\<close>, and \<open>A\<close>, \<open>B\<close>
  and \<open>S\<close> are the expressions as these return them. When the token after \<^verbatim>\<open>for (\<close> is a
  type, the declaration parses to a variable \<open>i\<close> with initializer \<open>A\<close>, the condition
  parses to \<open>l <= B\<close> and the update to \<open>x++\<close>, \<^verbatim>\<open>parseFor\<close> returns the For node with these
  three parts in its init, condition and update fields, iterator \<open>i\<close>, rangeStart \<open>A\<close>,
  rangeEnd the expression \<open>B + 1\<close>, rangeStep the literal 1 and the body of the block; when
  the condition parses to \<open>l < B\<close> and the update to \<open>x += S\<close>, the range fields are \<open>A\<close>,
  \<open>B\<close> and \<open>S\<close>. The operands \<open>l\<close> and \<open>x\<close> need not be the iterator: \<^verbatim>\<open>parseFor\<close> does not
  compare them with it.
\<close>

theorem C3_range_normalization:
  assumes "p2 = consume_val ts (consume_val ts pos KEYWORD ''for'') PUNCTUATION ''(''"
    and "\<not> match_val ts p2 PUNCTUATION '';''"
    and "peek ts p2 = Some tok" and "c_isType tok"
    and "c_parseVariableDecl r None ts p2 = Ok (IRVariable i ty (Some A), p3)"
    and "\<not> match_val ts p3 PUNCTUATION '';''"
    and "rec_expression r ts p3 = Ok (cond, p4)"
    and "p5 = consume_val ts p4 PUNCTUATION '';''"
    and "\<not> match_val ts p5 PUNCTUATION '')''"
    and "rec_expression r ts p5 = Ok (upd, p6)"
    and "parseBlock r ts (consume_val ts p6 PUNCTUATION '')'') = Ok (body, p7)"
  shows "(cond = IRBinaryOp ''<='' l B \<and> upd = IRUnaryOp ''++_post'' x \<longrightarrow>
            c_parseFor r ts pos
            = Ok (IRFor (Some (IRVariable i ty (Some A)))
                    (Some (IRBinaryOp ''<='' l B))
                    (Some (IRUnaryOp ''++_post'' x))
                    (Some i) (Some A)
                    (Some (IRBinaryOp ''+'' B (IRLiteral (V_num 1) T_int None)))
                    (Some (IRLiteral (V_num 1) T_int None)) body, p7))
       \<and> (cond = IRBinaryOp ''<'' l B \<and> upd = IRBinaryOp ''+='' x S \<longrightarrow>
            c_parseFor r ts pos
            = Ok (IRFor (Some (IRVariable i ty (Some A)))
                    (Some (IRBinaryOp ''<'' l B))
                    (Some (IRBinaryOp ''+='' x S))
                    (Some i) (Some A) (Some B) (Some S) body, p7))"
proof -
  have node: "c_parseFor r ts pos
              = Ok (IRFor (Some (IRVariable i ty (Some A))) (Some cond) (Some upd)
                      (for_iterator (Some (IRVariable i ty (Some A))))
                      (for_rangeStart (Some (IRVariable i ty (Some A))))
                      (for_rangeEnd (Some cond)) (c_for_rangeStep (Some upd)) body, p7)"
    using assms(2-7,9-11) unfolding c_parseFor_def Let_def assms(1)[symmetric]
    by (simp add: assms(8)[symmetric])
  show ?thesis
    unfolding node
    by (simp add: for_iterator_def for_rangeStart_def for_rangeEnd_def c_for_rangeStep_def
          lit_int_def)
qed

text \<open>
  Two loops of the statement, from their text: \<^verbatim>\<open>for (int i = 2; i <= n; i++) { s = s + i; }\<close>
  and \<^verbatim>\<open>for (int k = a; k < 10; k += 3) f(k);\<close>.
\<close>

theorem C3_range_normalization_witness:
  "c_parseFor (c_table 10) (c_tokenize ''for (int i = 2; i <= n; i++) { s = s + i; }'') 0
   = Ok (IRFor (Some (IRVariable ''i'' T_int (Some (IRLiteral (V_num 2) T_int None))))
           (Some (IRBinaryOp ''<='' (IRIdentifier ''i'') (IRIdentifier ''n'')))
           (Some (IRUnaryOp ''++_post'' (IRIdentifier ''i'')))
           (Some ''i'') (Some (IRLiteral (V_num 2) T_int None))
           (Some (IRBinaryOp ''+'' (IRIdentifier ''n'') (IRLiteral (V_num 1) T_int None)))
           (Some (IRLiteral (V_num 1) T_int None))
           [IRBinaryOp ''='' (IRIdentifier ''s'')
              (IRBinaryOp ''+'' (IRIdentifier ''s'') (IRIdentifier ''i''))], 22)
 \<and> c_parseFor (c_table 10) (c_tokenize ''for (int k = a; k < 10; k += 3) f(k);'') 0
   = Ok (IRFor (Some (IRVariable ''k'' T_int (Some (IRIdentifier ''a''))))
           (Some (IRBinaryOp ''<'' (IRIdentifier ''k'') (IRLiteral (V_num 10) T_int None)))
           (Some (IRBinaryOp ''+='' (IRIdentifier ''k'') (IRLiteral (V_num 3) T_int None)))
           (Some ''k'') (Some (IRIdentifier ''a''))
           (Some (IRLiteral (V_num 10) T_int None))
           (Some (IRLiteral (V_num 3) T_int None))
           [IRCall ''f'' [IRIdentifier ''k''] None None], 20)"
proof -
  let ?r = "c_table 10"
  define t1 where "t1 = c_tokenize ''for (int i = 2; i <= n; i++) { s = s + i; }''"
  define t2 where "t2 = c_tokenize ''for (int k = a; k < 10; k += 3) f(k);''"
  note ev = c_parser_defs c_lexer_defs c_table_simps c_loop_unfolds Let_def mk_def
  have t1: "t1 = [mk KEYWORD ''for'', mk PUNCTUATION ''('', mk KEYWORD ''int'',
                  mk IDENTIFIER ''i'', mk PUNCTUATION ''='', mk NUMBER ''2'',
                  mk PUNCTUATION '';'', mk IDENTIFIER ''i'', mk OPERATOR ''<='',
                  mk IDENTIFIER ''n'', mk PUNCTUATION '';'', mk IDENTIFIER ''i'',
                  mk OPERATOR ''++'', mk PUNCTUATION '')'', mk PUNCTUATION ''{'',
                  mk IDENTIFIER ''s'', mk PUNCTUATION ''='', mk IDENTIFIER ''s'',
                  mk PUNCTUATION ''+'', mk IDENTIFIER ''i'', mk PUNCTUATION '';'',
                  mk PUNCTUATION ''}'']"
    unfolding t1_def by (simp add: c_lexer_defs Let_def mk_def)
  have t2: "t2 = [mk KEYWORD ''for'', mk PUNCTUATION ''('', mk KEYWORD ''int'',
                  mk IDENTIFIER ''k'', mk PUNCTUATION ''='', mk IDENTIFIER ''a'',
                  mk PUNCTUATION '';'', mk IDENTIFIER ''k'', mk PUNCTUATION ''<'',
                  mk NUMBER ''10'', mk PUNCTUATION '';'', mk IDENTIFIER ''k'',
                  mk OPERATOR ''+='', mk NUMBER ''3'', mk PUNCTUATION '')'',
                  mk IDENTIFIER ''f'', mk PUNCTUATION ''('', mk IDENTIFIER ''k'',
                  mk PUNCTUATION '')'', mk PUNCTUATION '';'']"
    unfolding t2_def by (simp add: c_lexer_defs Let_def mk_def)
  have a1: "2 = consume_val t1 (consume_val t1 0 KEYWORD ''for'') PUNCTUATION ''(''"
    and a2: "\<not> match_val t1 2 PUNCTUATION '';''"
    and a3: "peek t1 2 = Some (mk KEYWORD ''int'')" and a4: "c_isType (mk KEYWORD ''int'')"
    and a6: "\<not> match_val t1 7 PUNCTUATION '';''"
    and a8: "11 = consume_val t1 10 PUNCTUATION '';''"
    and a9: "\<not> match_val t1 11 PUNCTUATION '')''"
    unfolding t1 by (simp_all add: ev)
  have a5: "c_parseVariableDecl ?r None t1 2
            = Ok (IRVariable ''i'' T_int (Some (IRLiteral (V_num 2) T_int None)), 7)"
    unfolding t1 by (simp add: ev cong: bind_res_weak_cong)
  have a7: "rec_expression ?r t1 7
            = Ok (IRBinaryOp ''<='' (IRIdentifier ''i'') (IRIdentifier ''n''), 10)"
    unfolding t1 by (simp add: ev cong: bind_res_weak_cong)
  have a10: "rec_expression ?r t1 11 = Ok (IRUnaryOp ''++_post'' (IRIdentifier ''i''), 13)"
    unfolding t1 by (simp add: ev cong: bind_res_weak_cong)
  have a11: "parseBlock ?r t1 (consume_val t1 13 PUNCTUATION '')'')
             = Ok ([IRBinaryOp ''='' (IRIdentifier ''s'')
                      (IRBinaryOp ''+'' (IRIdentifier ''s'') (IRIdentifier ''i''))], 22)"
    unfolding t1 by (simp add: ev cong: bind_res_weak_cong)
  have b1: "2 = consume_val t2 (consume_val t2 0 KEYWORD ''for'') PUNCTUATION ''(''"
    and b2: "\<not> match_val t2 2 PUNCTUATION '';''"
    and b3: "peek t2 2 = Some (mk KEYWORD ''int'')"
    and b6: "\<not> match_val t2 7 PUNCTUATION '';''"
    and b8: "11 = consume_val t2 10 PUNCTUATION '';''"
    and b9: "\<not> match_val t2 11 PUNCTUATION '')''"
    unfolding t2 by (simp_all add: ev)
  have b5: "c_parseVariableDecl ?r None t2 2
            = Ok (IRVariable ''k'' T_int (Some (IRIdentifier ''a'')), 7)"
    unfolding t2 by (simp add: ev cong: bind_res_weak_cong)
  have b7: "rec_expression ?r t2 7
            = Ok (IRBinaryOp ''<'' (IRIdentifier ''k'') (IRLiteral (V_num 10) T_int None), 10)"
    unfolding t2 by (simp add: ev cong: bind_res_weak_cong)
  have b10: "rec_expression ?r t2 11
             = Ok (IRBinaryOp ''+='' (IRIdentifier ''k'') (IRLiteral (V_num 3) T_int None), 14)"
    unfolding t2 by (simp add: ev cong: bind_res_weak_cong)
  have b11: "parseBlock ?r t2 (consume_val t2 14 PUNCTUATION '')'')
             = Ok ([IRCall ''f'' [IRIdentifier ''k''] None None], 20)"
    unfolding t2 by (simp add: ev cong: bind_res_weak_cong)
  from C3_range_normalization[OF a1 a2 a3 a4 a5 a6 a7 a8 a9 a10 a11,
         where l = "IRIdentifier ''i''" and B = "IRIdentifier ''n''"
           and x = "IRIdentifier ''i''"]
       C3_range_normalization[OF b1 b2 b3 a4 b5 b6 b7 b8 b9 b10 b11,
         where l = "IRIdentifier ''k''" and B = "IRLiteral (V_num 10) T_int None"
           and x = "IRIdentifier ''k''" and S = "IRLiteral (V_num 3) T_int None"]
  show ?thesis unfolding t1_def t2_def by simp
qed

text \<open>
  C1. The guard of the C target. The claim holds for a class with members or instance
  methods and for a class with a constructor whose name is not \<open>Main\<close>; it fails for a
  class named \<open>Main\<close> that has a constructor next to its static \<open>main\<close>:
  \<^verbatim>\<open>hasOnlyMainMethod\<close> does not look at the constructor, although the comment in
  \<^verbatim>\<open>hasNonMainClasses\<close> counts a class with a constructor as a real class. At the JV
  source below the parser returns a class node with a constructor that prints, the guard
  does not fire, and the C text is a \<open>main\<close> function without the constructor's statement.
\<close>

theorem C1_main_class_with_constructor_escapes:
  "JavaParser_parse 20
     ''public class Main { Main() { System.out.println(1); } public static void main(String[] args) { } }''
   = Ok \<lparr>pbody = [IRClass ''Main'' [] []
                     (Own (Some (''__init__'', [], T_void,
                        [IRPrint [IRLiteral (V_num 1) T_int None] (Some True)])))
                     (Some (''main'', [(''args'', T_string, None)], T_void, [])) None],
          pimports = []\<rparr>
 \<and> hasNonMainClasses
       \<lparr>pbody = [IRClass ''Main'' [] []
                     (Own (Some (''__init__'', [], T_void,
                        [IRPrint [IRLiteral (V_num 1) T_int None] (Some True)])))
                     (Some (''main'', [(''args'', T_string, None)], T_void, [])) None],
          pimports = []\<rparr> = False
 \<and> c_emission CGenerator_generate
       \<lparr>pbody = [IRClass ''Main'' [] []
                     (Own (Some (''__init__'', [], T_void,
                        [IRPrint [IRLiteral (V_num 1) T_int None] (Some True)])))
                     (Some (''main'', [(''args'', T_string, None)], T_void, [])) None],
          pimports = []\<rparr>
   = Inr (''int main() {'' @ NL @ ''    return 0;'' @ NL @ ''}'')"
proof (intro conjI)
  show "JavaParser_parse 20
     ''public class Main { Main() { System.out.println(1); } public static void main(String[] args) { } }''
   = Ok \<lparr>pbody = [IRClass ''Main'' [] []
                     (Own (Some (''__init__'', [], T_void,
                        [IRPrint [IRLiteral (V_num 1) T_int None] (Some True)])))
                     (Some (''main'', [(''args'', T_string, None)], T_void, [])) None],
          pimports = []\<rparr>"
    by (simp add: jv_parser_defs jv_lexer_defs jv_table_simps jv_loop_unfolds Let_def
          cong: bind_res_weak_cong)
  show "hasNonMainClasses
       \<lparr>pbody = [IRClass ''Main'' [] []
                     (Own (Some (''__init__'', [], T_void,
                        [IRPrint [IRLiteral (V_num 1) T_int None] (Some True)])))
                     (Some (''main'', [(''args'', T_string, None)], T_void, [])) None],
          pimports = []\<rparr> = False"
    by (simp add: hasNonMainClasses_def)
  show "c_emission CGenerator_generate
       \<lparr>pbody = [IRClass ''Main'' [] []
                     (Own (Some (''__init__'', [], T_void,
                        [IRPrint [IRLiteral (V_num 1) T_int None] (Some True)])))
                     (Some (''main'', [(''args'', T_string, None)], T_void, [])) None],
          pimports = []\<rparr>
   = Inr (''int main() {'' @ NL @ ''    return 0;'' @ NL @ ''}'')"
    by (simp add: c_emission_def hasNonMainClasses_def c_generator_defs text_defs Let_def)
qed


text \<open>
  C7. Static methods in the class body of the JV parser. The first half of the claim
  holds: a function named \<open>main\<close> read after the modifier \<open>static\<close> becomes \<open>mainMethod\<close> and
  is not pushed to \<open>methods\<close>. The second half fails: every other function is pushed to
  \<open>methods\<close>, static or not, and no statement of the parser writes \<open>staticMethods\<close>, a
  property that the orchestrator and two generators read. At the source below the
  static method \<open>twice\<close> is in the regular method list and the class node has no
  \<open>staticMethods\<close>.
\<close>

theorem C7_static_method_in_methods:
  "JavaParser_parse 20
     ''class A { static int twice(int n) { return n * 2; } public static void main(String[] args) { System.out.println(twice(4)); } }''
   = Ok \<lparr>pbody = [IRClass ''A'' []
                     [(''twice'', [(''n'', T_int, None)], T_int,
                       [IRReturn (Some (IRBinaryOp ''*'' (IRIdentifier ''n'')
                                          (IRLiteral (V_num 2) T_int None)))])]
                     (Own None)
                     (Some (''main'', [(''args'', T_string, None)], T_void,
                       [IRPrint [IRCall ''twice'' [IRLiteral (V_num 4) T_int None] None None]
                          (Some True)]))
                     None],
          pimports = []\<rparr>"
  by (simp add: jv_parser_defs jv_lexer_defs jv_table_simps jv_loop_unfolds Let_def
        cong: bind_res_weak_cong)

text \<open>
  C10. The constructor check of the guard. The claim fails: a class node written by a
  parser has an own property \<open>constructor\<close>, which is \<^verbatim>\<open>undefined\<close> for a class without a
  constructor, so the check does not reach the inherited one. At the JV source below
  the class is named \<open>Foo\<close>, has only a static \<open>main\<close>, and the C text is a \<open>main\<close> function,
  not the sentinel.
\<close>

theorem C10_counterexample:
  "JavaParser_parse 20 ''public class Foo { public static void main(String[] args) { } }''
   = Ok \<lparr>pbody = [IRClass ''Foo'' [] [] (Own None)
                     (Some (''main'', [(''args'', T_string, None)], T_void, [])) None],
          pimports = []\<rparr>
 \<and> c_emission CGenerator_generate
       \<lparr>pbody = [IRClass ''Foo'' [] [] (Own None)
                     (Some (''main'', [(''args'', T_string, None)], T_void, [])) None],
          pimports = []\<rparr>
   = Inr (''int main() {'' @ NL @ ''    return 0;'' @ NL @ ''}'')
 \<and> ''int main() {'' @ NL @ ''    return 0;'' @ NL @ ''}'' \<noteq> sentinel"
proof (intro conjI)
  show "JavaParser_parse 20 ''public class Foo { public static void main(String[] args) { } }''
   = Ok \<lparr>pbody = [IRClass ''Foo'' [] [] (Own None)
                     (Some (''main'', [(''args'', T_string, None)], T_void, [])) None],
          pimports = []\<rparr>"
    by (simp add: jv_parser_defs jv_lexer_defs jv_table_simps jv_loop_unfolds Let_def
          cong: bind_res_weak_cong)
  show "c_emission CGenerator_generate
       \<lparr>pbody = [IRClass ''Foo'' [] [] (Own None)
                     (Some (''main'', [(''args'', T_string, None)], T_void, [])) None],
          pimports = []\<rparr>
   = Inr (''int main() {'' @ NL @ ''    return 0;'' @ NL @ ''}'')"
    by (simp add: c_emission_def hasNonMainClasses_def c_generator_defs text_defs Let_def)
  show "''int main() {'' @ NL @ ''    return 0;'' @ NL @ ''}'' \<noteq> sentinel"
    by (simp add: sentinel_def)
qed

text \<open>
  C10, amended. The C field of the result is the sentinel exactly when the body holds a
  class node that has a method, a member or a truthy \<open>constructor\<close>, and that is not a
  shell named \<open>Main\<close> (named \<open>Main\<close>, with a \<open>mainMethod\<close>, without methods and members);
  otherwise it is what the C generator gives. \<open>constructor\<close> is truthy for a node that holds
  a constructor and for a node without an own property, where the read reaches the
  inherited one; it is falsy for a node whose own property is \<^verbatim>\<open>undefined\<close>. So a class
  not named \<open>Main\<close> brings the sentinel unless it has no method, no member and an own,
  undefined \<open>constructor\<close>.
\<close>

theorem C10_guard_reads_own_constructor:
  "c (transpile_ir gs ir) =
     (if \<exists>name mems meths ctor mainM statics.
           IRClass name mems meths ctor mainM statics \<in> set (pbody ir)
         \<and> (meths \<noteq> [] \<or> mems \<noteq> [] \<or> constructor_truthy ctor)
         \<and> (name \<noteq> ''Main'' \<or> mainM = None \<or> meths \<noteq> [] \<or> mems \<noteq> [])
      then Some sentinel
      else field_of (cGenerator gs ir))"
proof -
  have h: "hasNonMainClasses ir \<longleftrightarrow>
     (\<exists>name mems meths ctor mainM statics.
           IRClass name mems meths ctor mainM statics \<in> set (pbody ir)
         \<and> (meths \<noteq> [] \<or> mems \<noteq> [] \<or> constructor_truthy ctor)
         \<and> (name \<noteq> ''Main'' \<or> mainM = None \<or> meths \<noteq> [] \<or> mems \<noteq> []))"
    unfolding hasNonMainClasses_def by (rule hasNonMainClasses_loop_iff)
  have "c (transpile_ir gs ir)
        = (if hasNonMainClasses ir then Some sentinel else field_of (cGenerator gs ir))"
    by (simp add: transpile_ir_def Let_def c_emission_def)
  then show ?thesis unfolding h .
qed

text \<open>
  Three runs for C10 with the C generator of the repository: a class \<open>Foo\<close> without an
  own \<open>constructor\<close> property brings the sentinel, the same class with the own property
  that the parsers write does not, and neither does the shell named \<open>Main\<close>.
\<close>

theorem C10_guard_reads_own_constructor_witness:
  "c (transpile_ir
        \<lparr>pythonGenerator = (\<lambda>ir. Inr []), cGenerator = CGenerator_generate,
         cppGenerator = (\<lambda>ir. Inr []), javaGenerator = JavaGenerator_generate\<rparr>
        \<lparr>pbody = [IRClass ''Foo'' [] [] Absent (Some (''main'', [], T_void, [])) None],
         pimports = []\<rparr>)
   = Some sentinel
 \<and> c (transpile_ir
        \<lparr>pythonGenerator = (\<lambda>ir. Inr []), cGenerator = CGenerator_generate,
         cppGenerator = (\<lambda>ir. Inr []), javaGenerator = JavaGenerator_generate\<rparr>
        \<lparr>pbody = [IRClass ''Foo'' [] [] (Own None) (Some (''main'', [], T_void, [])) None],
         pimports = []\<rparr>)
   = Some (''int main() {'' @ NL @ ''    return 0;'' @ NL @ ''}'')
 \<and> c (transpile_ir
        \<lparr>pythonGenerator = (\<lambda>ir. Inr []), cGenerator = CGenerator_generate,
         cppGenerator = (\<lambda>ir. Inr []), javaGenerator = JavaGenerator_generate\<rparr>
        \<lparr>pbody = [IRClass ''Main'' [] [] Absent (Some (''main'', [], T_void, [])) None],
         pimports = []\<rparr>)
   = Some (''int main() {'' @ NL @ ''    return 0;'' @ NL @ ''}'')"
proof -
  let ?gs = "\<lparr>pythonGenerator = (\<lambda>ir. Inr []), cGenerator = CGenerator_generate,
         cppGenerator = (\<lambda>ir. Inr []), javaGenerator = JavaGenerator_generate\<rparr>"
  have g1: "CGenerator_generate
        \<lparr>pbody = [IRClass ''Foo'' [] [] (Own None) (Some (''main'', [], T_void, [])) None],
         pimports = []\<rparr> = Inr (''int main() {'' @ NL @ ''    return 0;'' @ NL @ ''}'')"
    by (simp add: c_generator_defs text_defs Let_def)
  have g2: "CGenerator_generate
        \<lparr>pbody = [IRClass ''Main'' [] [] Absent (Some (''main'', [], T_void, [])) None],
         pimports = []\<rparr> = Inr (''int main() {'' @ NL @ ''    return 0;'' @ NL @ ''}'')"
    by (simp add: c_generator_defs text_defs Let_def)
  show ?thesis
    using
      C10_guard_reads_own_constructor [of ?gs
        "\<lparr>pbody = [IRClass ''Foo'' [] [] Absent (Some (''main'', [], T_void, [])) None],
          pimports = []\<rparr>"]
      C10_guard_reads_own_constructor [of ?gs
        "\<lparr>pbody = [IRClass ''Foo'' [] [] (Own None) (Some (''main'', [], T_void, [])) None],
          pimports = []\<rparr>"]
      C10_guard_reads_own_constructor [of ?gs
        "\<lparr>pbody = [IRClass ''Main'' [] [] Absent (Some (''main'', [], T_void, [])) None],
          pimports = []\<rparr>"]
    by (simp add: g1 g2)
qed

text \<open>
  C4. Decomposition of the format of \<^verbatim>\<open>printf\<close>. The claim fails in three ways. The
  \<^verbatim>\<open>\n\<close> escapes are removed from a literal segment in one pass from left to right, so a
  segment that holds a backslash before a \<^verbatim>\<open>\n\<close> escape keeps a \<^verbatim>\<open>\n\<close>: for
  \<^verbatim>\<open>printf("%d\\nn", x);\<close> the Print node has the arguments \<open>x\<close> and the literal \<^verbatim>\<open>\n\<close>. A
  directive with a width is not recognized: for \<^verbatim>\<open>printf("%5d\n", x);\<close> the only argument is
  the literal \<^verbatim>\<open>%5d\<close> and the value \<open>x\<close> is not in the node. A value beyond the directives
  is not in the node either: for \<^verbatim>\<open>printf("%d\n", a, b);\<close> the only argument is \<open>a\<close>.
\<close>

theorem C4_counterexample:
  "c_parsePrintf (c_table 10)
     (c_tokenize (''printf('' @ DQ @ ''%d'' @ [CHR 0x5C, CHR 0x5C] @ ''nn'' @ DQ @ '', x);'')) 0
   = Ok (IRPrint [IRIdentifier ''x'', IRLiteral (V_str BSN) T_string None] (Some True), 7)
 \<and> c_parsePrintf (c_table 10)
     (c_tokenize (''printf('' @ DQ @ ''%5d'' @ BSN @ DQ @ '', x);'')) 0
   = Ok (IRPrint [IRLiteral (V_str ''%5d'') T_string None] (Some True), 7)
 \<and> c_parsePrintf (c_table 10)
     (c_tokenize (''printf('' @ DQ @ ''%d'' @ BSN @ DQ @ '', a, b);'')) 0
   = Ok (IRPrint [IRIdentifier ''a''] (Some True), 9)"
  by (simp add: c_parser_defs c_lexer_defs c_table_simps c_loop_unfolds Let_def
        cong: bind_res_weak_cong)

text \<open>
  C4, amended. For every statement \<^verbatim>\<open>printf(fmt, args\<dots>)\<close> whose format is a string token
  and whose value arguments parse to the list \<open>vals\<close>, \<^verbatim>\<open>parsePrintf\<close> returns a Print node.
  Its \<open>newline\<close> flag says whether the format holds a \<^verbatim>\<open>\n\<close> escape. Its arguments
  interleave the literals of the segments of the format with the values in order: the
  segments are the texts between the recognized directives (\<^const>\<open>format_segments\<close>: a
  directive is a percent sign directly followed by one of the fourteen letters, two
  percent signs are the text \<^verbatim>\<open>%\<close>, any other percent sign is text and takes no value);
  each recognized directive is replaced by the next value if one is left, and the
  values that are left after the last directive are dropped
  (\<^const>\<open>interleave_segments\<close>); if that list is empty the only argument is the empty
  literal. The literal of a segment is the segment without the \<^verbatim>\<open>\n\<close> escapes that one
  pass from left to right finds, and a segment that is empty without them gives no
  literal; the literal of a segment without two backslashes in a row holds no \<^verbatim>\<open>\n\<close>
  escape.
\<close>

theorem C4_printf_decomposition:
  assumes p2: "p2 = consume_val ts (consume_val ts pos KEYWORD ''printf'') PUNCTUATION ''(''"
    and str: "match_tok ts p2 STRING"
    and args: "comma_loop (c_parseExpression r ts) ts (budget r) [] (p2 + 1) = Ok (vals, p)"
  shows "c_parsePrintf r ts pos
         = Ok (IRPrint
                 (if interleave_segments (format_segments (slice_1_m1 (tok_value ts p2))) vals
                       = []
                  then [IRLiteral (V_str []) T_string None]
                  else interleave_segments (format_segments (slice_1_m1 (tok_value ts p2)))
                         vals)
                 (Some (includes_str BSN (slice_1_m1 (tok_value ts p2)))),
               consume_val ts (consume_val ts p PUNCTUATION '')'') PUNCTUATION '';'')
       \<and> (\<forall>s. printf_literal s
                = (if remove_newline_escapes s = [] then []
                   else [IRLiteral (V_str (remove_newline_escapes s)) T_string None]))
       \<and> (\<forall>s. \<not> includes_str [CHR 0x5C, CHR 0x5C] s
                \<longrightarrow> \<not> includes_str BSN (remove_newline_escapes s))"
proof (intro conjI allI impI)
  show "c_parsePrintf r ts pos
         = Ok (IRPrint
                 (if interleave_segments (format_segments (slice_1_m1 (tok_value ts p2))) vals
                       = []
                  then [IRLiteral (V_str []) T_string None]
                  else interleave_segments (format_segments (slice_1_m1 (tok_value ts p2)))
                         vals)
                 (Some (includes_str BSN (slice_1_m1 (tok_value ts p2)))),
               consume_val ts (consume_val ts p PUNCTUATION '')'') PUNCTUATION '';'')"
    unfolding c_parsePrintf_def Let_def p2[symmetric]
    using str args by (simp add: printf_args_parsePrintfFormat)
next
  fix s
  show "printf_literal s
          = (if remove_newline_escapes s = [] then []
             else [IRLiteral (V_str (remove_newline_escapes s)) T_string None])"
    by (rule printf_literal_eq)
next
  fix s
  assume "\<not> includes_str [CHR 0x5C, CHR 0x5C] s"
  then show "\<not> includes_str BSN (remove_newline_escapes s)"
    by (rule remove_newline_escapes_clean)
qed

text \<open>
  The statement of the claim, \<^verbatim>\<open>printf("x=%d y=%s\n", a, b);\<close>: the segments are \<open>x=\<close>,
  \<open> y=\<close> and the \<^verbatim>\<open>\n\<close> escape, the flag is true and the arguments are \<open>x=\<close>, \<open>a\<close>, \<open> y=\<close>, \<open>b\<close>.
  In \<^verbatim>\<open>printf("100%% done %d\n", x);\<close> the two percent signs are the text \<^verbatim>\<open>%\<close> of the
  first segment.
\<close>

theorem C4_printf_decomposition_witness:
  "c_parsePrintf (c_table 10)
     (c_tokenize (''printf('' @ DQ @ ''x=%d y=%s'' @ BSN @ DQ @ '', a, b);'')) 0
   = Ok (IRPrint [IRLiteral (V_str ''x='') T_string None, IRIdentifier ''a'',
                  IRLiteral (V_str '' y='') T_string None, IRIdentifier ''b'']
           (Some True), 9)
 \<and> format_segments (''x=%d y=%s'' @ BSN) = [''x='', '' y='', BSN]
 \<and> \<not> includes_str BSN (remove_newline_escapes ('' y='' @ BSN))
 \<and> c_parsePrintf (c_table 10)
     (c_tokenize (''printf('' @ DQ @ ''100%% done %d'' @ BSN @ DQ @ '', x);'')) 0
   = Ok (IRPrint [IRLiteral (V_str ''100% done '') T_string None, IRIdentifier ''x'']
           (Some True), 7)"
proof -
  define t1 where "t1 = c_tokenize (''printf('' @ DQ @ ''x=%d y=%s'' @ BSN @ DQ @ '', a, b);'')"
  define t2 where "t2 = c_tokenize (''printf('' @ DQ @ ''100%% done %d'' @ BSN @ DQ @ '', x);'')"
  note ev = c_parser_defs c_lexer_defs c_table_simps c_loop_unfolds Let_def mk_def
  have t1: "t1 = [mk KEYWORD ''printf'', mk PUNCTUATION ''('',
                  mk STRING (DQ @ ''x=%d y=%s'' @ BSN @ DQ), mk PUNCTUATION '','',
                  mk IDENTIFIER ''a'', mk PUNCTUATION '','', mk IDENTIFIER ''b'',
                  mk PUNCTUATION '')'', mk PUNCTUATION '';'']"
    unfolding t1_def by (simp add: c_lexer_defs Let_def mk_def)
  have t2: "t2 = [mk KEYWORD ''printf'', mk PUNCTUATION ''('',
                  mk STRING (DQ @ ''100%% done %d'' @ BSN @ DQ), mk PUNCTUATION '','',
                  mk IDENTIFIER ''x'', mk PUNCTUATION '')'', mk PUNCTUATION '';'']"
    unfolding t2_def by (simp add: c_lexer_defs Let_def mk_def)
  have a1: "(2::nat) = consume_val t1 (consume_val t1 0 KEYWORD ''printf'') PUNCTUATION ''(''"
    and a2: "match_tok t1 2 STRING"
    unfolding t1 by (simp_all add: ev)
  have a3: "comma_loop (c_parseExpression (c_table 10) t1) t1 (budget (c_table 10)) [] (2 + 1)
            = Ok ([IRIdentifier ''a'', IRIdentifier ''b''], 7)"
    unfolding t1 by (simp add: ev cong: bind_res_weak_cong)
  have b1: "(2::nat) = consume_val t2 (consume_val t2 0 KEYWORD ''printf'') PUNCTUATION ''(''"
    and b2: "match_tok t2 2 STRING"
    unfolding t2 by (simp_all add: ev)
  have b3: "comma_loop (c_parseExpression (c_table 10) t2) t2 (budget (c_table 10)) [] (2 + 1)
            = Ok ([IRIdentifier ''x''], 5)"
    unfolding t2 by (simp add: ev cong: bind_res_weak_cong)
  have f1: "slice_1_m1 (tok_value t1 2) = ''x=%d y=%s'' @ BSN"
    and c1: "consume_val t1 (consume_val t1 7 PUNCTUATION '')'') PUNCTUATION '';'' = 9"
    unfolding t1 by (simp_all add: ev)
  have f2: "slice_1_m1 (tok_value t2 2) = ''100%% done %d'' @ BSN"
    and c2: "consume_val t2 (consume_val t2 5 PUNCTUATION '')'') PUNCTUATION '';'' = 7"
    unfolding t2 by (simp_all add: ev)
  have r1: "c_parsePrintf (c_table 10) t1 0
            = Ok (IRPrint [IRLiteral (V_str ''x='') T_string None, IRIdentifier ''a'',
                           IRLiteral (V_str '' y='') T_string None, IRIdentifier ''b'']
                    (Some True), 9)"
    using C4_printf_decomposition [OF a1 a2 a3] unfolding f1 c1
    by (simp add: printf_literal_def printf_directives_def)
  have r2: "c_parsePrintf (c_table 10) t2 0
            = Ok (IRPrint [IRLiteral (V_str ''100% done '') T_string None, IRIdentifier ''x'']
                    (Some True), 7)"
    using C4_printf_decomposition [OF b1 b2 b3] unfolding f2 c2
    by (simp add: printf_literal_def printf_directives_def)
  have s1: "format_segments (''x=%d y=%s'' @ BSN) = [''x='', '' y='', BSN]"
    by (simp add: printf_directives_def)
  have "\<not> includes_str [CHR 0x5C, CHR 0x5C] ('' y='' @ BSN)" by simp
  with C4_printf_decomposition [OF a1 a2 a3]
  have nb: "\<not> includes_str BSN (remove_newline_escapes ('' y='' @ BSN))" by blast
  from r1 r2 s1 nb show ?thesis unfolding t1_def t2_def by blast
qed

text \<open>
  C8. Exceptions of the front-ends. \<^verbatim>\<open>CParser.parse\<close> throws to the orchestrator. For a
  function header at the end of the input, \<^verbatim>\<open>parseBlock\<close> calls \<^verbatim>\<open>parseStatement\<close> with no
  token left, \<^verbatim>\<open>parseStatement\<close> evaluates \<^verbatim>\<open>this.isType(this.peek()!)\<close> and \<^verbatim>\<open>isType\<close> reads
  \<^verbatim>\<open>type\<close> of \<^verbatim>\<open>null\<close>. \<^verbatim>\<open>CParser.parse\<close> has no handler, so at the source \<^verbatim>\<open>int f()\<close> the
  exception leaves \<^verbatim>\<open>parse\<close>, and \<^verbatim>\<open>transpile\<close> answers with the parse error and no output,
  whatever the generators are. The CPP and the JV parser return false from \<^verbatim>\<open>isType\<close> for
  a missing token, and \<^verbatim>\<open>parse\<close> of the Python, the CPP and the JV parser runs in a
  \<^verbatim>\<open>try\<close> block.
\<close>

theorem C8_c_parser_throws:
  "CParser_parse 30 ''int f()''
   = Throw (TypeError (''Cannot read properties of null (reading '' @ [CHR 0x27] @ ''type''
                       @ [CHR 0x27] @ '')''))
 \<and> transpile
     \<lparr>pythonParser = PythonParser_parse 30, cParser = CParser_parse 30,
      cppParser = CppParser_parse 30, javaParser = JavaParser_parse 30\<rparr>
     gs ''int f()'' L_c
   = Some \<lparr>success = False, python = None, c = None, cpp = None, java = None,
            errors = [''Parse error: TypeError: Cannot read properties of null (reading ''
                      @ [CHR 0x27] @ ''type'' @ [CHR 0x27] @ '')'']\<rparr>"
proof -
  have d: "CParser_parse 30 ''int f()''
           = Throw (TypeError (''Cannot read properties of null (reading '' @ [CHR 0x27]
                               @ ''type'' @ [CHR 0x27] @ '')''))"
    by (simp add: c_parser_defs c_lexer_defs c_table_simps c_loop_unfolds null_type_error_def
          Let_def cong: bind_res_weak_cong)
  show ?thesis
    unfolding d by (simp add: transpile_def d)
qed

text \<open>
  C5. The scripting scenario. The claim fails in its last part: the C generator infers
  the type of a print argument from the node alone, and \<^verbatim>\<open>inferType\<close> gives \<^verbatim>\<open>auto\<close> for
  every identifier, so the directive for \<open>x\<close> is \<^verbatim>\<open>%s\<close>; and an If statement is written
  over several lines. The C text for the source of the claim holds no \<^verbatim>\<open>%d\<close>.
\<close>

theorem C5_counterexample:
  "PythonParser_parse 20
     (''print('' @ [CHR 0x27] @ ''hi'' @ [CHR 0x27] @ '')'' @ NL @ ''x = 10'' @ NL
      @ ''if x > 5:'' @ NL @ ''    print(x)'')
   = Ok \<lparr>pbody = [IRPrint [IRLiteral (V_str ''hi'') T_string (Some False)] (Some True),
                   IRVariable ''x'' T_int (Some (IRLiteral (V_num 10) T_int None)),
                   IRIf (IRBinaryOp ''>'' (IRIdentifier ''x'') (IRLiteral (V_num 5) T_int None))
                     [IRPrint [IRIdentifier ''x''] (Some True)] None None],
          pimports = []\<rparr>
 \<and> c_emission CGenerator_generate
       \<lparr>pbody = [IRPrint [IRLiteral (V_str ''hi'') T_string (Some False)] (Some True),
                   IRVariable ''x'' T_int (Some (IRLiteral (V_num 10) T_int None)),
                   IRIf (IRBinaryOp ''>'' (IRIdentifier ''x'') (IRLiteral (V_num 5) T_int None))
                     [IRPrint [IRIdentifier ''x''] (Some True)] None None],
          pimports = []\<rparr>
   = Inr (''#include <stdio.h>'' @ NL @ NL
          @ ''int main() {'' @ NL
          @ ''    printf('' @ DQ @ ''hi'' @ BSN @ DQ @ '');'' @ NL
          @ ''    int x = 10;'' @ NL
          @ ''    if (x > 5) {'' @ NL
          @ ''        printf('' @ DQ @ ''%s'' @ BSN @ DQ @ '', x);'' @ NL
          @ ''    }'' @ NL
          @ ''    return 0;'' @ NL
          @ ''}'')
 \<and> \<not> includes_str ''%d''
       (''#include <stdio.h>'' @ NL @ NL
          @ ''int main() {'' @ NL
          @ ''    printf('' @ DQ @ ''hi'' @ BSN @ DQ @ '');'' @ NL
          @ ''    int x = 10;'' @ NL
          @ ''    if (x > 5) {'' @ NL
          @ ''        printf('' @ DQ @ ''%s'' @ BSN @ DQ @ '', x);'' @ NL
          @ ''    }'' @ NL
          @ ''    return 0;'' @ NL
          @ ''}'')"
proof (intro conjI)
  show "PythonParser_parse 20
     (''print('' @ [CHR 0x27] @ ''hi'' @ [CHR 0x27] @ '')'' @ NL @ ''x = 10'' @ NL
      @ ''if x > 5:'' @ NL @ ''    print(x)'')
   = Ok \<lparr>pbody = [IRPrint [IRLiteral (V_str ''hi'') T_string (Some False)] (Some True),
                   IRVariable ''x'' T_int (Some (IRLiteral (V_num 10) T_int None)),
                   IRIf (IRBinaryOp ''>'' (IRIdentifier ''x'') (IRLiteral (V_num 5) T_int None))
                     [IRPrint [IRIdentifier ''x''] (Some True)] None None],
          pimports = []\<rparr>"
    by (simp add: py_parser_defs py_lexer_defs py_tbl_simps py_loop_unfolds Let_def
          cong: bind_res_weak_cong)
  show "c_emission CGenerator_generate
       \<lparr>pbody = [IRPrint [IRLiteral (V_str ''hi'') T_string (Some False)] (Some True),
                   IRVariable ''x'' T_int (Some (IRLiteral (V_num 10) T_int None)),
                   IRIf (IRBinaryOp ''>'' (IRIdentifier ''x'') (IRLiteral (V_num 5) T_int None))
                     [IRPrint [IRIdentifier ''x''] (Some True)] None None],
          pimports = []\<rparr>
   = Inr (''#include <stdio.h>'' @ NL @ NL
          @ ''int main() {'' @ NL
          @ ''    printf('' @ DQ @ ''hi'' @ BSN @ DQ @ '');'' @ NL
          @ ''    int x = 10;'' @ NL
          @ ''    if (x > 5) {'' @ NL
          @ ''        printf('' @ DQ @ ''%s'' @ BSN @ DQ @ '', x);'' @ NL
          @ ''    }'' @ NL
          @ ''    return 0;'' @ NL
          @ ''}'')"
    by (simp add: c_emission_def hasNonMainClasses_def c_generator_defs text_defs Let_def)
  show "\<not> includes_str ''%d''
       (''#include <stdio.h>'' @ NL @ NL
          @ ''int main() {'' @ NL
          @ ''    printf('' @ DQ @ ''hi'' @ BSN @ DQ @ '');'' @ NL
          @ ''    int x = 10;'' @ NL
          @ ''    if (x > 5) {'' @ NL
          @ ''        printf('' @ DQ @ ''%s'' @ BSN @ DQ @ '', x);'' @ NL
          @ ''    }'' @ NL
          @ ''    return 0;'' @ NL
          @ ''}'')"
    by simp
qed

text \<open>
  C5, amended. For a print statement with one argument that is no string literal, the C
  generator writes \<^verbatim>\<open>printf\<close> with one directive, the \<^verbatim>\<open>\n\<close> escape and the text of the
  argument; the directive is \<^verbatim>\<open>%d\<close> for type \<open>int\<close>, \<^verbatim>\<open>%f\<close> for \<open>float\<close> and \<open>double\<close>, \<^verbatim>\<open>%c\<close> for
  \<open>char\<close> and \<^verbatim>\<open>%s\<close> otherwise, where the type is the one of a literal, \<open>int\<close>, \<open>float\<close> or
  \<open>string\<close> for a call of a conversion, and \<open>auto\<close> for every other node, identifiers
  included. So the source of the claim gives \<^verbatim>\<open>printf("hi\n");\<close>, \<^verbatim>\<open>int x = 10;\<close> and, on
  lines of their own, \<^verbatim>\<open>if (x > 5) {\<close>, \<^verbatim>\<open>printf("%s\n", x);\<close> and the closing brace.
\<close>

theorem C5_print_directive:
  assumes "\<forall>v fs. arg \<noteq> IRLiteral v T_string fs"
  shows "c_generateNode indent (IRPrint [arg] (Some True))
         = Inr (getIndent indent @ ''printf('' @ DQ
                @ (case c_inferType arg of
                     T_int \<Rightarrow> ''%d'' | T_float \<Rightarrow> ''%f'' | T_double \<Rightarrow> ''%f''
                   | T_char \<Rightarrow> ''%c'' | _ \<Rightarrow> ''%s'')
                @ BSN @ DQ @ '', '' @ c_generateExpression arg @ '');'')
       \<and> c_inferType (IRIdentifier name) = T_auto
       \<and> c_inferType (IRLiteral v dt fs) = dt
       \<and> c_inferType (IRCall ''int'' cargs isMethod obj) = T_int
       \<and> c_inferType (IRCall ''float'' cargs isMethod obj) = T_float
       \<and> c_inferType (IRCall ''str'' cargs isMethod obj) = T_string"
proof (intro conjI)
  have e: "\<not> endsWith (case c_inferType arg of
                     T_int \<Rightarrow> ''%d'' | T_float \<Rightarrow> ''%f'' | T_double \<Rightarrow> ''%f''
                   | T_char \<Rightarrow> ''%c'' | _ \<Rightarrow> ''%s'') BSN"
    by (cases "c_inferType arg") (simp_all add: endsWith_def)
  have p: "c_print_args [arg] [] []
           = ((case c_inferType arg of
                     T_int \<Rightarrow> ''%d'' | T_float \<Rightarrow> ''%f'' | T_double \<Rightarrow> ''%f''
                   | T_char \<Rightarrow> ''%c'' | _ \<Rightarrow> ''%s''), [c_generateExpression arg])"
  proof (cases arg)
    case (IRLiteral v dt fs)
    with assms have "dt \<noteq> T_string" by auto
    with IRLiteral show ?thesis by (cases dt) (simp_all add: Let_def)
  qed (simp_all add: Let_def)
  show "c_generateNode indent (IRPrint [arg] (Some True))
         = Inr (getIndent indent @ ''printf('' @ DQ
                @ (case c_inferType arg of
                     T_int \<Rightarrow> ''%d'' | T_float \<Rightarrow> ''%f'' | T_double \<Rightarrow> ''%f''
                   | T_char \<Rightarrow> ''%c'' | _ \<Rightarrow> ''%s'')
                @ BSN @ DQ @ '', '' @ c_generateExpression arg @ '');'')"
    using e by (simp add: c_generatePrint_def p Let_def del: c_print_args.simps)
  show "c_inferType (IRIdentifier name) = T_auto" by (simp add: c_inferType_def)
  show "c_inferType (IRLiteral v dt fs) = dt" by (simp add: c_inferType_def)
  show "c_inferType (IRCall ''int'' cargs isMethod obj) = T_int" by (simp add: c_inferType_def)
  show "c_inferType (IRCall ''float'' cargs isMethod obj) = T_float"
    by (simp add: c_inferType_def)
  show "c_inferType (IRCall ''str'' cargs isMethod obj) = T_string"
    by (simp add: c_inferType_def)
qed

text \<open>The print statements of the scenario: the one in the If statement, at indentation
  two, and a print of an int literal.\<close>

theorem C5_print_directive_witness:
  "c_generateNode (Suc (Suc 0)) (IRPrint [IRIdentifier ''x''] (Some True))
   = Inr (''        printf('' @ DQ @ ''%s'' @ BSN @ DQ @ '', x);'')
 \<and> c_generateNode (Suc 0) (IRPrint [IRLiteral (V_num 10) T_int None] (Some True))
   = Inr (''    printf('' @ DQ @ ''%d'' @ BSN @ DQ @ '', 10);'')"
  using C5_print_directive [of "IRIdentifier ''x''" "Suc (Suc 0)" "''x''" "V_num 10" T_int None]
    C5_print_directive [of "IRLiteral (V_num 10) T_int None" "Suc 0" "''x''" "V_num 10" T_int None]
  by (simp add: c_generator_defs text_defs)

text \<open>
  C6. The CPP scenario. The claim fails: \<^verbatim>\<open>CppParser.parseTopLevel\<close> reads comments,
  classes and declarations that start with a type and passes over every other token, so
  a \<^verbatim>\<open>cout\<close> statement outside a function gives an empty program, and the JV text is an
  empty class.
\<close>

theorem C6_counterexample:
  "CppParser_parse 20 (''cout << '' @ DQ @ ''x='' @ DQ @ '' << x << endl;'')
   = Ok \<lparr>pbody = [], pimports = []\<rparr>
 \<and> JavaGenerator_generate \<lparr>pbody = [], pimports = []\<rparr>
   = Inr (''public class Main {'' @ NL @ ''}'')
 \<and> \<not> includes_str ''System.out.println'' (''public class Main {'' @ NL @ ''}'')"
proof (intro conjI)
  show "CppParser_parse 20 (''cout << '' @ DQ @ ''x='' @ DQ @ '' << x << endl;'')
        = Ok \<lparr>pbody = [], pimports = []\<rparr>"
    by (simp add: cpp_parser_defs cpp_lexer_defs cpp_table_simps cpp_loop_unfolds Let_def
          cong: bind_res_weak_cong)
  show "JavaGenerator_generate \<lparr>pbody = [], pimports = []\<rparr>
        = Inr (''public class Main {'' @ NL @ ''}'')"
    by (simp add: jv_generator_defs text_defs Let_def)
  show "\<not> includes_str ''System.out.println'' (''public class Main {'' @ NL @ ''}'')"
    by simp
qed

text \<open>
  C6, amended. With the statement inside a function, \<^verbatim>\<open>int main() { cout << "x=" << x << endl; }\<close>,
  the CPP parser gives a Print node with the literal \<open>x=\<close>, the identifier \<open>x\<close> and the
  newline flag, and the JV text holds \<^verbatim>\<open>System.out.println("x=" + " " + x);\<close>. The JV
  generator joins the texts of the arguments of a Print with \<^verbatim>\<open> + " " + \<close>, as the second
  part says for arguments that are identifiers; only a brace group inside a string
  literal is spliced as \<^verbatim>\<open>" + var + "\<close>, as the third part shows.
\<close>

theorem C6_cout_in_function:
  "CppParser_parse 20 (''int main() { cout << '' @ DQ @ ''x='' @ DQ @ '' << x << endl; }'')
   = Ok \<lparr>pbody = [IRFunction ''main'' [] T_int
                     [IRPrint [IRLiteral (V_str ''x='') T_string None, IRIdentifier ''x'']
                        (Some True)]],
          pimports = []\<rparr>
 \<and> JavaGenerator_generate
       \<lparr>pbody = [IRFunction ''main'' [] T_int
                     [IRPrint [IRLiteral (V_str ''x='') T_string None, IRIdentifier ''x'']
                        (Some True)]],
          pimports = []\<rparr>
   = Inr (''public class Main {'' @ NL
          @ ''    public static void main(String[] args) {'' @ NL
          @ ''        System.out.println('' @ DQ @ ''x='' @ DQ @ '' + '' @ DQ @ '' '' @ DQ
          @ '' + x);'' @ NL
          @ ''    }'' @ NL
          @ ''}'')
 \<and> j_generateNode inMain usesScanner indent (IRPrint (map IRIdentifier (v # vs)) (Some True))
   = Inr (getIndent indent @ ''System.out.println(''
          @ join ('' + '' @ DQ @ '' '' @ DQ @ '' + '') (map j_generateIdentifier (v # vs)) @ '');'')
 \<and> j_parseFString ''a {b} c'' = DQ @ ''a '' @ DQ @ '' + b + '' @ DQ @ '' c'' @ DQ"
proof (intro conjI)
  show "CppParser_parse 20 (''int main() { cout << '' @ DQ @ ''x='' @ DQ @ '' << x << endl; }'')
   = Ok \<lparr>pbody = [IRFunction ''main'' [] T_int
                     [IRPrint [IRLiteral (V_str ''x='') T_string None, IRIdentifier ''x'']
                        (Some True)]],
          pimports = []\<rparr>"
    by (simp add: cpp_parser_defs cpp_lexer_defs cpp_table_simps cpp_loop_unfolds Let_def
          cong: bind_res_weak_cong)
  show "JavaGenerator_generate
       \<lparr>pbody = [IRFunction ''main'' [] T_int
                     [IRPrint [IRLiteral (V_str ''x='') T_string None, IRIdentifier ''x'']
                        (Some True)]],
          pimports = []\<rparr>
   = Inr (''public class Main {'' @ NL
          @ ''    public static void main(String[] args) {'' @ NL
          @ ''        System.out.println('' @ DQ @ ''x='' @ DQ @ '' + '' @ DQ @ '' '' @ DQ
          @ '' + x);'' @ NL
          @ ''    }'' @ NL
          @ ''}'')"
    by (simp add: jv_generator_defs text_defs Let_def getIndent_def numeral_2_eq_2)
  have m: "map_gen (\<lambda>arg. case arg of
                            IRLiteral v T_string fs \<Rightarrow> Inr (j_parseFString (js_String v))
                          | _ \<Rightarrow> j_generateExpression arg) (map IRIdentifier ws)
           = Inr (map j_generateIdentifier ws)" for ws
    by (induction ws) simp_all
  show "j_generateNode inMain usesScanner indent
          (IRPrint (map IRIdentifier (v # vs)) (Some True))
   = Inr (getIndent indent @ ''System.out.println(''
          @ join ('' + '' @ DQ @ '' '' @ DQ @ '' + '') (map j_generateIdentifier (v # vs)) @ '');'')"
    unfolding j_generateNode.simps j_generatePrint_def m by simp
  show "j_parseFString ''a {b} c'' = DQ @ ''a '' @ DQ @ '' + b + '' @ DQ @ '' c'' @ DQ"
    by (simp add: j_parseFString_def endsWith_def Let_def)
qed

text \<open>A print of two identifiers at the top of a method: the texts are joined with a
  quoted space.\<close>

theorem C6_cout_in_function_witness:
  "j_generateNode False False 0 (IRPrint [IRIdentifier ''a'', IRIdentifier ''self.b''] (Some True))
   = Inr (''System.out.println(a + '' @ DQ @ '' '' @ DQ @ '' + this.b);'')"
  using C6_cout_in_function [of False False 0 "''a''" "[''self.b'']"]
  by (simp add: j_generateIdentifier_def text_defs)




end
